(* ===== verification/Prelude.thy ===== *)
theory Prelude
  imports Main "HOL-Library.Word"
begin

text \<open>
  Shared vocabulary of the development: the JavaScript runtime values the calendar code of
  \<^verbatim>\<open>src/components/HomePanel.tsx\<close> manipulates, and generic lemmas about them.
  \<^item> A JS string is a sequence of UTF-16 code units: \<open>jsstr = 16 word list\<close>. Every Hebrew
    letter the code writes (U+05D0 to U+05EA) is one code unit, so \<open>length\<close> is JS's
    \<open>.length\<close> and \<open>take\<close>/\<open>drop\<close> are \<open>.slice\<close>.
  \<^item> A civil date (a JS \<open>Date\<close> at local midnight) is its local day number \<open>day = int\<close>;
    \<open>d.setDate(d.getDate() + k)\<close> is \<open>d + k\<close>.
  \<^item> \<open>Number(...)\<close> yields a \<open>jsnum\<close>: an integer or \<open>NaN\<close>.
  \<^item> JS \<open>%\<close> truncates towards zero (\<open>js_rem\<close>); reading an array out of range gives
    \<open>undefined\<close>, which string concatenation spells out (\<open>js_index\<close>).
\<close>

named_theorems js_simps "evaluation rules of the JavaScript runtime model"

type_synonym jsstr = "16 word list"
type_synonym day = int

subsection \<open>Code units used by the calendar\<close>

abbreviation QUOTE :: "16 word" where "QUOTE \<equiv> 0x22"
abbreviation APOS :: "16 word" where "APOS \<equiv> 0x27"
abbreviation ALEF :: "16 word" where "ALEF \<equiv> 0x5D0"
abbreviation BET :: "16 word" where "BET \<equiv> 0x5D1"
abbreviation GIMEL :: "16 word" where "GIMEL \<equiv> 0x5D2"
abbreviation DALET :: "16 word" where "DALET \<equiv> 0x5D3"
abbreviation HE :: "16 word" where "HE \<equiv> 0x5D4"
abbreviation VAV :: "16 word" where "VAV \<equiv> 0x5D5"
abbreviation ZAYIN :: "16 word" where "ZAYIN \<equiv> 0x5D6"
abbreviation HET :: "16 word" where "HET \<equiv> 0x5D7"
abbreviation TET :: "16 word" where "TET \<equiv> 0x5D8"
abbreviation YOD :: "16 word" where "YOD \<equiv> 0x5D9"
abbreviation KAF :: "16 word" where "KAF \<equiv> 0x5DB"
abbreviation LAMED :: "16 word" where "LAMED \<equiv> 0x5DC"
abbreviation MEM :: "16 word" where "MEM \<equiv> 0x5DE"
abbreviation NUN :: "16 word" where "NUN \<equiv> 0x5E0"
abbreviation SAMEKH :: "16 word" where "SAMEKH \<equiv> 0x5E1"
abbreviation AYIN :: "16 word" where "AYIN \<equiv> 0x5E2"
abbreviation PE :: "16 word" where "PE \<equiv> 0x5E4"
abbreviation TSADI :: "16 word" where "TSADI \<equiv> 0x5E6"
abbreviation QOF :: "16 word" where "QOF \<equiv> 0x5E7"
abbreviation RESH :: "16 word" where "RESH \<equiv> 0x5E8"
abbreviation SHIN :: "16 word" where "SHIN \<equiv> 0x5E9"
abbreviation TAV :: "16 word" where "TAV \<equiv> 0x5EA"

subsection \<open>The JavaScript runtime operations the code relies on\<close>

text \<open>An ASCII string literal of the source, as code units.\<close>

definition js_str :: "string \<Rightarrow> jsstr" where
  "js_str s = map (\<lambda>c. of_nat (of_char c)) s"

text \<open>\<open>a % b\<close> on integral numbers: the sign of the dividend, magnitude \<open>|a| mod |b|\<close>.\<close>

definition js_rem :: "int \<Rightarrow> int \<Rightarrow> int" where
  "js_rem a b = sgn a * (\<bar>a\<bar> mod \<bar>b\<bar>)"

text \<open>\<open>s += arr[i]\<close>: an index outside the array reads \<open>undefined\<close>, appended as text.\<close>

definition js_index :: "jsstr list \<Rightarrow> int \<Rightarrow> jsstr" where
  "js_index xs i = (if 0 \<le> i \<and> i < int (length xs) then xs ! nat i else js_str ''undefined'')"

text \<open>\<open>s.slice(0, -1)\<close> and \<open>s.slice(-1)\<close>, exact for every length (also 0 and 1).\<close>

definition js_slice_init :: "jsstr \<Rightarrow> jsstr" where
  "js_slice_init s = take (length s - 1) s"

definition js_slice_last :: "jsstr \<Rightarrow> jsstr" where
  "js_slice_last s = drop (length s - 1) s"

text \<open>\<open>String.prototype.trim\<close>: the ECMAScript WhiteSpace and LineTerminator code units.\<close>

definition js_is_space :: "16 word \<Rightarrow> bool" where
  "js_is_space c \<longleftrightarrow> c \<in> set [0x9, 0xA, 0xB, 0xC, 0xD, 0x20, 0xA0, 0x1680, 0x2028, 0x2029,
     0x202F, 0x205F, 0x3000, 0xFEFF] \<or> (0x2000 \<le> c \<and> c \<le> 0x200A)"

definition js_trim :: "jsstr \<Rightarrow> jsstr" where
  "js_trim s = rev (dropWhile js_is_space (rev (dropWhile js_is_space s)))"

text \<open>
  \<open>Number(v)\<close> on what a property read returns: \<open>undefined\<close> is \<open>NaN\<close>; a string is
  trimmed, the empty string is 0, a string of decimal digits is its value, anything else is
  \<open>NaN\<close> (signs, fractions, exponents and hexadecimal are not needed here: the formatter
  configured with \<open>nu-latn\<close> emits plain digits).
\<close>

datatype jsnum = Num int | NaN

definition is_digit :: "16 word \<Rightarrow> bool" where
  "is_digit c \<longleftrightarrow> 0x30 \<le> c \<and> c \<le> 0x39"

fun dec_value :: "jsstr \<Rightarrow> int \<Rightarrow> int" where
  "dec_value [] acc = acc"
| "dec_value (c # cs) acc = dec_value cs (10 * acc + (uint c - 48))"

definition js_number :: "jsstr option \<Rightarrow> jsnum" where
  "js_number v = (case v of
     None \<Rightarrow> NaN
   | Some s \<Rightarrow> (let t = js_trim s in
       if t = [] then Num 0 else if list_all is_digit t then Num (dec_value t 0) else NaN))"

text \<open>The decimal digits of a natural number, as \<open>String(n)\<close> prints them.\<close>

definition digit_unit :: "nat \<Rightarrow> 16 word" where
  "digit_unit k = word_of_nat (48 + k)"

fun dec_digits :: "nat \<Rightarrow> jsstr" where
  "dec_digits n = (if n < 10 then [digit_unit n] else dec_digits (n div 10) @ [digit_unit (n mod 10)])"

declare dec_digits.simps [simp del]

text \<open>\<open>Object.fromEntries\<close>: a later entry for the same key overwrites an earlier one.\<close>

definition from_entries :: "(jsstr \<times> jsstr) list \<Rightarrow> jsstr \<Rightarrow> jsstr option" where
  "from_entries kvs = map_of (rev kvs)"

text \<open>\<open>Array.prototype.filter\<close> with the element's index.\<close>

definition filter_index :: "(nat \<Rightarrow> bool) \<Rightarrow> 'a list \<Rightarrow> 'a list" where
  "filter_index P xs = map fst (filter (\<lambda>p. P (snd p)) (zip xs [0..<length xs]))"

text \<open>\<open>s.startsWith(p)\<close>.\<close>

definition js_startsWith :: "jsstr \<Rightarrow> jsstr \<Rightarrow> bool" where
  "js_startsWith s p \<longleftrightarrow> take (length p) s = p"

subsection \<open>Lemmas shared by the components\<close>

lemma js_slice_init_last [simp]: "js_slice_init s @ js_slice_last s = s"
  by (simp add: js_slice_init_def js_slice_last_def)

lemma js_slice_last_single [simp]: "s \<noteq> [] \<Longrightarrow> js_slice_last s = [last s]"
  by (cases s rule: rev_cases) (simp_all add: js_slice_last_def)

lemma js_slice_init_butlast [simp]: "js_slice_init s = butlast s"
  by (simp add: js_slice_init_def butlast_conv_take)

lemma js_index_in [js_simps]:
  "0 \<le> i \<Longrightarrow> i < int (length xs) \<Longrightarrow> js_index xs i = xs ! nat i"
  by (simp add: js_index_def)

lemma js_rem_nonneg [js_simps]: "0 \<le> a \<Longrightarrow> 0 < b \<Longrightarrow> js_rem a b = a mod b"
  by (cases "a = 0") (simp_all add: js_rem_def)

lemma dec_value_append: "dec_value (xs @ ys) acc = dec_value ys (dec_value xs acc)"
  by (induction xs arbitrary: acc) simp_all

lemma unat_digit_unit: "k < 10 \<Longrightarrow> unat (digit_unit k) = 48 + k"
  unfolding digit_unit_def by (simp only: unat_of_nat) simp

lemma uint_digit_unit: "k < 10 \<Longrightarrow> uint (digit_unit k) = 48 + int k"
  using unat_digit_unit [of k] by (simp add: uint_nat)

lemma is_digit_digit_unit: "k < 10 \<Longrightarrow> is_digit (digit_unit k)"
  using unat_digit_unit [of k] by (simp add: is_digit_def word_le_nat_alt)

lemma dec_digits_small: "n < 10 \<Longrightarrow> dec_digits n = [digit_unit n]"
  by (subst dec_digits.simps) simp

lemma dec_digits_step:
  "\<not> n < 10 \<Longrightarrow> dec_digits n = dec_digits (n div 10) @ [digit_unit (n mod 10)]"
  by (subst dec_digits.simps) simp

lemma dec_digits_digits: "list_all is_digit (dec_digits n)"
proof (induction n rule: dec_digits.induct)
  case (1 n)
  show ?case
  proof (cases "n < 10")
    case True
    then show ?thesis by (simp add: dec_digits_small is_digit_digit_unit)
  next
    case False
    with "1.IH" show ?thesis by (simp add: dec_digits_step is_digit_digit_unit)
  qed
qed

lemma dec_digits_nonempty [simp]: "dec_digits n \<noteq> []"
  by (subst dec_digits.simps) simp

lemma dec_value_digits: "dec_value (dec_digits n) acc = 10 ^ length (dec_digits n) * acc + int n"
proof (induction n arbitrary: acc rule: dec_digits.induct)
  case (1 n)
  show ?case
  proof (cases "n < 10")
    case True
    then show ?thesis by (simp add: dec_digits_small uint_digit_unit)
  next
    case False
    let ?L = "length (dec_digits (n div 10))"
    have "dec_value (dec_digits n) acc
        = 10 * (10 ^ ?L * acc + int (n div 10)) + int (n mod 10)"
      using False "1.IH" by (simp add: dec_digits_step dec_value_append uint_digit_unit)
    also have "\<dots> = 10 ^ Suc ?L * acc + (10 * int (n div 10) + int (n mod 10))"
      by (simp add: distrib_left)
    also have "10 * int (n div 10) + int (n mod 10) = int n"
      by presburger
    finally have "dec_value (dec_digits n) acc = 10 ^ Suc ?L * acc + int n" .
    then show ?thesis using False by (simp add: dec_digits_step)
  qed
qed

lemma dropWhile_no_match: "\<forall>c\<in>set xs. \<not> P c \<Longrightarrow> dropWhile P xs = xs"
  by (cases xs) simp_all

lemma js_trim_digits: "list_all is_digit s \<Longrightarrow> js_trim s = s"
proof -
  assume a: "list_all is_digit s"
  have "\<not> js_is_space c" if "is_digit c" for c
    using that by (auto simp: is_digit_def js_is_space_def word_le_nat_alt)
  with a have "\<forall>c\<in>set s. \<not> js_is_space c"
    by (auto simp: list_all_iff)
  then show ?thesis by (simp add: js_trim_def dropWhile_no_match)
qed

text \<open>Round trip: \<open>Number(String(n)) = n\<close> for the non-negative integers the formatter prints.\<close>

lemma js_number_dec_digits [js_simps]: "js_number (Some (dec_digits n)) = Num (int n)"
  using dec_digits_digits [of n] dec_value_digits [of n 0]
  by (simp add: js_number_def js_trim_digits)

text \<open>\<open>trim\<close> is idempotent: a trimmed string neither starts nor ends with white space.\<close>

lemma js_trim_idem [simp]: "js_trim (js_trim s) = js_trim s"
proof -
  let ?t = "dropWhile js_is_space s"
  let ?r = "dropWhile js_is_space (rev ?t)"
  have u: "dropWhile js_is_space (rev ?r) = rev ?r"
  proof (cases "?r = []")
    case True
    show ?thesis unfolding True by simp
  next
    case False
    then have t: "?t \<noteq> []" by (metis dropWhile.simps(1) rev.simps(1))
    have "rev ?t = takeWhile js_is_space (rev ?t) @ ?r" by simp
    then have "last (rev ?t) = last ?r" using False by (metis last_append)
    then have "hd (rev ?r) = hd ?t" using False t by (simp add: hd_rev last_rev)
    then have "\<not> js_is_space (hd (rev ?r))" using hd_dropWhile [OF t] by simp
    then show ?thesis by (simp add: dropWhile_eq_self_iff)
  qed
  show ?thesis unfolding js_trim_def using u by simp
qed

lemma filter_index_from:
  "map fst (filter (\<lambda>p. snd p \<noteq> i) (zip xs [k..<k + length xs]))
     = (if i < k then xs else take (i - k) xs @ drop (Suc (i - k)) xs)"
proof (induction xs arbitrary: k)
  case Nil
  then show ?case by simp
next
  case (Cons x xs)
  have u: "[k..<k + length (x # xs)] = k # [Suc k..<Suc k + length xs]" by (simp add: upt_rec del: upt_Suc)
  show ?case
  proof (cases "i = k")
    case True
    with Cons.IH [of "Suc k"] show ?thesis unfolding u by (simp del: upt_Suc)
  next
    case False
    show ?thesis
    proof (cases "i < k")
      case True
      with Cons.IH [of "Suc k"] show ?thesis unfolding u by (simp del: upt_Suc)
    next
      case ge: False
      with False have "i - k = Suc (i - Suc k)" by linarith
      with False ge Cons.IH [of "Suc k"] show ?thesis unfolding u by (simp del: upt_Suc)
    qed
  qed
qed

lemma filter_index_remove_nth: "filter_index (\<lambda>j. j \<noteq> i) xs = take i xs @ drop (Suc i) xs"
  using filter_index_from [of i xs 0] by (simp add: filter_index_def)

lemma set_filter_index: "set (filter_index P xs) \<subseteq> set xs"
  by (auto simp: filter_index_def dest: set_zip_leftD)

lemma js_str_inj [simp]: "js_str a = js_str b \<longleftrightarrow> a = b"
proof -
  have "inj (\<lambda>c. of_nat (of_char c) :: 16 word)"
  proof (rule injI)
    fix c d :: char
    assume "(of_nat (of_char c) :: 16 word) = of_nat (of_char d)"
    then have "unat (of_nat (of_char c) :: 16 word) = unat (of_nat (of_char d) :: 16 word)" by simp
    moreover have "of_char c < (2::nat) ^ 16" "of_char d < (2::nat) ^ 16"
      by (rule less_le_trans [OF nat_of_char_less_256], simp)+
    ultimately have "of_char c = (of_char d :: nat)" by (simp add: unat_of_nat)
    then show "c = d" by simp
  qed
  then show ?thesis by (simp add: js_str_def inj_map_eq_map)
qed
end
