(* ===== verification/Gematria.thy ===== *)
theory Gematria
  imports Prelude "HOL-Library.Sublist"
begin

text \<open>
  The two numeral encoders of \<open>hebrewDateUtils\<close> in \<^verbatim>\<open>src/components/HomePanel.tsx\<close>:
  \<open>hebrewYearGematria\<close> (lines 57--69) and \<open>hebrewDayGematria\<close> (lines 70--77).
  The year encoder's inner \<open>while (rest >= v)\<close> loop is modelled literally as a
  \<^theory_text>\<open>partial_function (option)\<close> (it would not stop for a table value \<open>v \<le> 0\<close>);
  its closed form with \<open>div\<close> is the reference it is proved equal to. The letter values of
  the Hebrew alphabet are the abstract specification: the letters of a numeral add up to the
  number encoded.
\<close>

named_theorems gem_simps "tables of the numeral encoders"

subsection \<open>Letter values (the specification)\<close>

definition letter_values :: "(16 word \<times> int) list" where
  "letter_values =
     [(ALEF, 1), (BET, 2), (GIMEL, 3), (DALET, 4), (HE, 5), (VAV, 6), (ZAYIN, 7), (HET, 8),
      (TET, 9), (YOD, 10), (KAF, 20), (LAMED, 30), (MEM, 40), (NUN, 50), (SAMEKH, 60),
      (AYIN, 70), (PE, 80), (TSADI, 90), (QOF, 100), (RESH, 200), (SHIN, 300), (TAV, 400)]"

definition letter_value :: "16 word \<Rightarrow> int" where
  "letter_value c = (case map_of letter_values c of Some v \<Rightarrow> v | None \<Rightarrow> 0)"

definition gem_value :: "jsstr \<Rightarrow> int" where
  "gem_value s = sum_list (map letter_value s)"

subsection \<open>The year encoder\<close>

definition year_hundreds :: "(int \<times> 16 word) list" where
  [gem_simps]: "year_hundreds = [(400, TAV), (300, SHIN), (200, RESH), (100, QOF)]"

definition year_tens :: "(int \<times> 16 word) list" where
  [gem_simps]: "year_tens =
     [(90, TSADI), (80, PE), (70, AYIN), (60, SAMEKH), (50, NUN), (40, MEM), (30, LAMED),
      (20, KAF), (10, YOD)]"

definition year_ones :: "(int \<times> 16 word) list" where
  [gem_simps]: "year_ones =
     [(9, TET), (8, HET), (7, ZAYIN), (6, VAV), (5, HE), (4, DALET), (3, GIMEL), (2, BET),
      (1, ALEF)]"

text \<open>\<open>while (rest >= v) { out += c; rest -= v; }\<close>\<close>

partial_function (option) sub_loop :: "int \<Rightarrow> 16 word \<Rightarrow> int \<Rightarrow> jsstr \<Rightarrow> (int \<times> jsstr) option"
where
  "sub_loop v c rest out =
     (if v \<le> rest then sub_loop v c (rest - v) (out @ [c]) else Some (rest, out))"

declare sub_loop.simps [code]

text \<open>\<open>for (const [v, c] of table) { while ... }\<close>\<close>

fun tier_loop :: "(int \<times> 16 word) list \<Rightarrow> int \<Rightarrow> jsstr \<Rightarrow> (int \<times> jsstr) option" where
  "tier_loop [] rest out = Some (rest, out)"
| "tier_loop ((v, c) # t) rest out = Option.bind (sub_loop v c rest out) (\<lambda>(r, w). tier_loop t r w)"

text \<open>\<open>out.replace(/pat$/, rep)\<close>: the pattern anchored at the end of the string.\<close>

definition ends_with :: "jsstr \<Rightarrow> jsstr \<Rightarrow> bool" where
  "ends_with pat s \<longleftrightarrow> length pat \<le> length s \<and> drop (length s - length pat) s = pat"

definition replace_end :: "jsstr \<Rightarrow> jsstr \<Rightarrow> jsstr \<Rightarrow> jsstr" where
  "replace_end pat rep s = (if ends_with pat s then take (length s - length pat) s @ rep else s)"

text \<open>\<open>if (s.length >= 2) s = s.slice(0, -1) + '"' + s.slice(-1)\<close> (lines 67 and 75).\<close>

definition add_gershayim :: "jsstr \<Rightarrow> jsstr" where
  "add_gershayim s = (if 2 \<le> length s then js_slice_init s @ [QUOTE] @ js_slice_last s else s)"

definition hebrewYearGematria :: "int \<Rightarrow> jsstr option" where
  "hebrewYearGematria n =
     (let y = js_rem n 1000 in
      Option.bind (tier_loop year_hundreds y []) (\<lambda>(r1, o1).
      Option.bind (tier_loop year_tens r1 o1) (\<lambda>(r2, o2).
      Option.bind (tier_loop year_ones r2 o2) (\<lambda>(r3, o3).
        (let out = replace_end [YOD, VAV] [TET, QUOTE, ZAYIN]
                     (replace_end [YOD, HE] [TET, QUOTE, VAV] o3)
         in Some ([HE, APOS] @ add_gershayim out))))))"

subsection \<open>The day encoder\<close>

definition day_ones :: "jsstr list" where
  [gem_simps]: "day_ones = [[], [ALEF], [BET], [GIMEL], [DALET], [HE], [VAV], [ZAYIN], [HET], [TET]]"

definition day_tens :: "jsstr list" where
  [gem_simps]: "day_tens = [[], [YOD], [KAF], [LAMED], [MEM], [NUN], [SAMEKH], [AYIN], [PE], [TSADI]]"

definition hebrewDayGematria :: "int \<Rightarrow> jsstr" where
  "hebrewDayGematria num =
     (if num = 15 then [TET, QUOTE, VAV]
      else if num = 16 then [TET, QUOTE, ZAYIN]
      else
        (let t = num div 10; od = js_rem num 10;
             s = (if 0 < t then js_index day_tens t else []) @ (if 0 < od then js_index day_ones od else []);
             s = add_gershayim s
         in if s = [] then [ALEF] else s))"

subsection \<open>Reference: the greedy decomposition in closed form\<close>

fun tier_ref :: "(int \<times> 16 word) list \<Rightarrow> int \<Rightarrow> int \<times> jsstr" where
  "tier_ref [] rest = (rest, [])"
| "tier_ref ((v, c) # t) rest =
     (let k = nat (rest div v); (r, w) = tier_ref t (rest - v * int k) in (r, replicate k c @ w))"

definition year_fix :: "jsstr \<Rightarrow> jsstr" where
  "year_fix s = replace_end [YOD, VAV] [TET, QUOTE, ZAYIN] (replace_end [YOD, HE] [TET, QUOTE, VAV] s)"

text \<open>Spelling conventions the numerals are meant to follow.\<close>

definition no_quote :: "jsstr \<Rightarrow> jsstr" where
  "no_quote s = filter (\<lambda>c. c \<noteq> QUOTE) s"

definition avoids_names :: "jsstr \<Rightarrow> bool" where
  "avoids_names s \<longleftrightarrow> \<not> ends_with [YOD, HE] (no_quote s) \<and> \<not> ends_with [YOD, VAV] (no_quote s)"

definition day_punctuated :: "jsstr \<Rightarrow> bool" where
  "day_punctuated s = (case s of
     [c] \<Rightarrow> c \<noteq> QUOTE
   | [a, q, b] \<Rightarrow> q = QUOTE \<and> a \<noteq> QUOTE \<and> b \<noteq> QUOTE
   | _ \<Rightarrow> False)"

definition year_ref :: "int \<Rightarrow> jsstr" where
  "year_ref n = [HE, APOS] @ add_gershayim (year_fix
     (snd (tier_ref (year_hundreds @ year_tens @ year_ones) (js_rem n 1000))))"

subsection \<open>The loops terminate and compute the closed form\<close>

lemma sub_loop_closed:
  assumes v: "0 < v"
  shows "sub_loop v c rest out =
           Some (rest - v * int (nat (rest div v)), out @ replicate (nat (rest div v)) c)"
proof (induction "nat rest" arbitrary: rest out rule: less_induct)
  case less
  show ?case
  proof (cases "v \<le> rest")
    case True
    have dec: "nat (rest - v) < nat rest" using v True by simp
    have q: "rest div v = (rest - v) div v + 1"
      using v by (simp add: div_add_self2 [symmetric])
    have nn: "0 \<le> (rest - v) div v" using True v by (simp add: pos_imp_zdiv_nonneg_iff)
    have k: "nat (rest div v) = Suc (nat ((rest - v) div v))"
      unfolding q using nn by (simp add: nat_add_distrib)
    show ?thesis
      using less [OF dec, of "out @ [c]"] True k
      by (simp add: sub_loop.simps [of v c rest] algebra_simps)
  next
    case False
    then have "rest div v \<le> 0" using v zdiv_mono1 [of rest "v - 1" v] by simp
    with False show ?thesis by (simp add: sub_loop.simps [of v c rest])
  qed
qed

lemma tier_loop_closed:
  "\<forall>(v, c) \<in> set t. 0 < v \<Longrightarrow>
   tier_loop t rest out = Some (fst (tier_ref t rest), out @ snd (tier_ref t rest))"
  by (induction t rest out rule: tier_loop.induct)
     (simp_all add: sub_loop_closed split: prod.splits)

lemma tier_ref_append:
  "tier_ref (t1 @ t2) rest =
     (let (r1, o1) = tier_ref t1 rest; (r2, o2) = tier_ref t2 r1 in (r2, o1 @ o2))"
  by (induction t1 rest rule: tier_ref.induct) (simp_all split: prod.splits)


lemma tables_positive:
  "\<forall>(v, c) \<in> set year_hundreds. 0 < v" "\<forall>(v, c) \<in> set year_tens. 0 < v"
  "\<forall>(v, c) \<in> set year_ones. 0 < v"
  by (simp_all add: gem_simps)

lemma tier_loop_tables:
  "tier_loop year_hundreds r w = Some (fst (tier_ref year_hundreds r), w @ snd (tier_ref year_hundreds r))"
  "tier_loop year_tens r w = Some (fst (tier_ref year_tens r), w @ snd (tier_ref year_tens r))"
  "tier_loop year_ones r w = Some (fst (tier_ref year_ones r), w @ snd (tier_ref year_ones r))"
  by (simp_all add: tier_loop_closed tables_positive)

lemma rest_step: "0 \<le> r \<Longrightarrow> 0 < v \<Longrightarrow> r - v * int (nat (r div v)) = r mod v"
  by (simp add: minus_mult_div_eq_mod pos_imp_zdiv_nonneg_iff)

lemma tier_ref_step:
  assumes "0 \<le> r" "0 < v"
  shows "tier_ref ((v, c) # t) r =
           (fst (tier_ref t (r mod v)), replicate (nat (r div v)) c @ snd (tier_ref t (r mod v)))"
proof -
  have "r - v * int (nat (r div v)) = r mod v" using assms by (rule rest_step)
  then show ?thesis by (simp only: tier_ref.simps Let_def) (simp split: prod.splits)
qed

lemma tier_ref_fst_step: "0 \<le> r \<Longrightarrow> 0 < v \<Longrightarrow> fst (tier_ref ((v, c) # t) r) = fst (tier_ref t (r mod v))"
  by (simp only: tier_ref_step fst_conv)

lemma tier_ref_append_fst: "fst (tier_ref (t1 @ t2) r) = fst (tier_ref t2 (fst (tier_ref t1 r)))"
  by (simp add: tier_ref_append split: prod.splits)

lemma tier_ref_append_snd:
  "snd (tier_ref (t1 @ t2) r) = snd (tier_ref t1 r) @ snd (tier_ref t2 (fst (tier_ref t1 r)))"
  by (simp add: tier_ref_append split: prod.splits)

lemma tier_ref_letters: "c \<in> set (snd (tier_ref t r)) \<Longrightarrow> \<exists>v. (v, c) \<in> set t"
  by (induction t r rule: tier_ref.induct) (auto split: prod.splits if_splits)

lemma gem_value_Nil [simp]: "gem_value [] = 0"
  by (simp add: gem_value_def)

lemma gem_value_append [simp]: "gem_value (xs @ ys) = gem_value xs + gem_value ys"
  by (simp add: gem_value_def)

lemma gem_value_replicate [simp]: "gem_value (replicate k c) = int k * letter_value c"
  by (induction k) (simp_all add: gem_value_def algebra_simps)

lemma tier_ref_value:
  "\<forall>(v, c) \<in> set t. letter_value c = v \<Longrightarrow> gem_value (snd (tier_ref t r)) + fst (tier_ref t r) = r"
  by (induction t r rule: tier_ref.induct) (auto split: prod.splits simp: algebra_simps)

subsection \<open>The hundreds tier\<close>

lemma hundreds_rest: "0 \<le> y \<Longrightarrow> fst (tier_ref year_hundreds y) = y mod 100"
proof -
  assume y: "0 \<le> y"
  have "fst (tier_ref year_hundreds y) = y mod 400 mod 300 mod 200 mod 100"
    using y unfolding year_hundreds_def
    by (simp only: tier_ref_fst_step pos_mod_sign zero_less_numeral tier_ref.simps(1) fst_conv)
  also have "\<dots> = y mod 400 mod 300 mod 100" by (rule mod_mod_cancel) simp
  also have "\<dots> = y mod 400 mod 100" by (rule mod_mod_cancel) simp
  also have "\<dots> = y mod 100" by (rule mod_mod_cancel) simp
  finally show ?thesis .
qed

lemma hundreds_value: "0 \<le> y \<Longrightarrow> gem_value (snd (tier_ref year_hundreds y)) = y - y mod 100"
proof -
  assume y: "0 \<le> y"
  have "\<forall>(v, c) \<in> set year_hundreds. letter_value c = v"
    by (simp add: year_hundreds_def letter_value_def letter_values_def)
  from tier_ref_value [OF this, of y] y show ?thesis by (simp add: hundreds_rest)
qed

lemma hundreds_letters:
  "YOD \<notin> set (snd (tier_ref year_hundreds y)) \<and> QUOTE \<notin> set (snd (tier_ref year_hundreds y))"
proof -
  have "\<forall>v. (v, YOD) \<notin> set year_hundreds \<and> (v, QUOTE) \<notin> set year_hundreds"
    by (simp add: year_hundreds_def)
  then show ?thesis by (metis tier_ref_letters)
qed

subsection \<open>The end-anchored rewrites and the gershayim\<close>

lemma ends_with_suffix: "ends_with pat s = suffix pat s"
proof
  assume "ends_with pat s"
  then have "s = take (length s - length pat) s @ pat"
    by (metis ends_with_def append_take_drop_id)
  then show "suffix pat s" by (metis suffix_def)
next
  assume "suffix pat s"
  then obtain u where "s = u @ pat" by (auto simp: suffix_def)
  then show "ends_with pat s" by (simp add: ends_with_def)
qed

lemma ends_with_append_no_yod:
  assumes "YOD \<notin> set h"
  shows "ends_with [YOD, x] (h @ w) = ends_with [YOD, x] w"
proof -
  have "\<not> suffix xs h" if "xs \<noteq> []" "hd xs = YOD" for xs
  proof
    assume "suffix xs h"
    then have "set xs \<subseteq> set h" by (rule set_mono_suffix)
    with that assms show False by (metis hd_in_set subsetD)
  qed
  then show ?thesis
    unfolding ends_with_suffix suffix_append
    by (auto simp: Cons_eq_append_conv)
qed

lemma replace_end_append_no_yod:
  assumes "YOD \<notin> set h"
  shows "replace_end [YOD, x] rep (h @ w) = h @ replace_end [YOD, x] rep w"
proof (cases "ends_with [YOD, x] w")
  case True
  then have "2 \<le> length w" by (simp add: ends_with_def)
  with True assms show ?thesis
    by (simp add: replace_end_def ends_with_append_no_yod numeral_2_eq_2)
next
  case False
  with assms show ?thesis by (simp add: replace_end_def ends_with_append_no_yod)
qed

lemma year_fix_append: "YOD \<notin> set h \<Longrightarrow> year_fix (h @ w) = h @ year_fix w"
  by (simp add: year_fix_def replace_end_append_no_yod)

lemma letter_value_quote [simp]: "letter_value QUOTE = 0"
  by (simp add: letter_value_def letter_values_def)

lemma add_gershayim_long:
  assumes "2 \<le> length s"
  shows "add_gershayim s = butlast s @ [QUOTE, last s]" and "s = butlast s @ [last s]"
proof -
  from assms have ne: "s \<noteq> []" by auto
  then show "add_gershayim s = butlast s @ [QUOTE, last s]"
    using assms by (simp add: add_gershayim_def)
  from ne show "s = butlast s @ [last s]" by simp
qed

lemma add_gershayim_value [simp]: "gem_value (add_gershayim s) = gem_value s"
proof (cases "2 \<le> length s")
  case True
  then have "gem_value s = gem_value (butlast s) + gem_value [last s]"
    by (metis gem_value_append add_gershayim_long(2))
  with True show ?thesis by (simp add: add_gershayim_long(1) gem_value_def)
qed (simp add: add_gershayim_def)

lemma add_gershayim_count:
  "count_list (add_gershayim s) QUOTE = count_list s QUOTE + (if 2 \<le> length s then 1 else 0)"
proof (cases "2 \<le> length s")
  case True
  then have "count_list s QUOTE = count_list (butlast s) QUOTE + count_list [last s] QUOTE"
    by (metis count_list_append add_gershayim_long(2))
  with True show ?thesis by (simp add: add_gershayim_long(1))
qed (simp add: add_gershayim_def)

lemma no_quote_add_gershayim [simp]: "no_quote (add_gershayim s) = no_quote s"
proof (cases "2 \<le> length s")
  case True
  then have "no_quote s = no_quote (butlast s) @ no_quote [last s]"
    by (metis filter_append no_quote_def add_gershayim_long(2))
  with True show ?thesis by (simp add: add_gershayim_long(1) no_quote_def)
qed (simp add: add_gershayim_def)

lemma year_ref_split:
  assumes "0 \<le> js_rem n 1000"
  shows "year_ref n = [HE, APOS] @ add_gershayim (snd (tier_ref year_hundreds (js_rem n 1000))
           @ year_fix (snd (tier_ref (year_tens @ year_ones) (js_rem n 1000 mod 100))))"
  using hundreds_rest [OF assms] hundreds_letters [of "js_rem n 1000"]
  by (simp add: year_ref_def tier_ref_append_snd year_fix_append)

subsection \<open>The tens and ones tiers, on every remainder below 100\<close>

definition tens_ones_ok :: "int \<Rightarrow> jsstr \<Rightarrow> bool" where
  "tens_ones_ok r w \<longleftrightarrow> gem_value (year_fix w) = r
     \<and> count_list (year_fix w) QUOTE = (if r \<in> {15, 16} then 1 else 0)
     \<and> (r \<in> {15, 16} \<longrightarrow> length (year_fix w) = 3)
     \<and> avoids_names (year_fix w)"

lemma tens_ones_table:
  "\<forall>r \<in> set [0..99]. case_option False (\<lambda>(rr, w). tens_ones_ok r w) (tier_loop (year_tens @ year_ones) r [])"
  by code_simp

lemma tens_ones_tier:
  assumes "0 \<le> r" "r < 100"
  shows "tens_ones_ok r (snd (tier_ref (year_tens @ year_ones) r))"
proof -
  have pos: "\<forall>(v, c) \<in> set (year_tens @ year_ones). 0 < v" using tables_positive by auto
  from assms have "r \<in> set [0..99]" by simp
  with tens_ones_table have "case_option False (\<lambda>(rr, w). tens_ones_ok r w) (tier_loop (year_tens @ year_ones) r [])"
    by blast
  then show ?thesis by (simp only: tier_loop_closed [OF pos] option.case prod.case append_Nil)
qed


lemma year_rem: "0 \<le> n \<Longrightarrow> js_rem n 1000 = n mod 1000 \<and> js_rem n 1000 mod 100 = n mod 100"
  by (simp add: js_rem_nonneg mod_mod_cancel)

lemma no_quote_append: "no_quote (xs @ ys) = no_quote xs @ no_quote ys"
  by (simp add: no_quote_def)

lemma no_quote_hundreds: "no_quote (snd (tier_ref year_hundreds y)) = snd (tier_ref year_hundreds y)"
  using hundreds_letters [of y] by (auto simp: no_quote_def filter_id_conv)

lemma day_table:
  "\<forall>n \<in> set [1..30]. gem_value (hebrewDayGematria n) = n
     \<and> day_punctuated (hebrewDayGematria n) \<and> avoids_names (hebrewDayGematria n)"
  by code_simp

lemma day_in_table: "1 \<le> n \<Longrightarrow> n \<le> 30 \<Longrightarrow> n \<in> set [1..30]"
  by simp

subsection \<open>Properties of the year encoder\<close>

text \<open>
  C9. The year encoder always returns (each of its \<open>while\<close> loops stops) and computes
  the greedy decomposition in closed form.
\<close>

theorem hebrewYearGematria_ref: "hebrewYearGematria n = Some (year_ref n)"
  by (simp add: hebrewYearGematria_def year_ref_def year_fix_def tier_loop_tables
      tier_ref_append split: prod.splits)

text \<open>
  C10. For a non-negative year the result is the prefix \<open>[HE, APOS]\<close> (he-geresh) followed by letters whose
  values add up to the year modulo 1000 (the millennium is dropped, nothing else is lost).
\<close>

theorem hebrewYearGematria_value:
  assumes "0 \<le> n"
  shows "\<exists>s. hebrewYearGematria n = Some s \<and> take 2 s = [HE, APOS] \<and> gem_value (drop 2 s) = n mod 1000"
proof -
  let ?y = "js_rem n 1000"
  from year_rem [OF assms] have y: "?y = n mod 1000" "?y mod 100 = n mod 100" by blast+
  then have y0: "0 \<le> ?y" by simp
  have "tens_ones_ok (?y mod 100) (snd (tier_ref (year_tens @ year_ones) (?y mod 100)))"
    by (rule tens_ones_tier) simp_all
  then have "gem_value (drop 2 (year_ref n)) = gem_value (snd (tier_ref year_hundreds ?y)) + ?y mod 100"
    by (simp add: year_ref_split [OF y0] tens_ones_ok_def)
  then show ?thesis using hundreds_value [OF y0] y by (simp add: hebrewYearGematria_ref year_ref_def)
qed

text \<open>
  C28. A year ending in 15 or 16 gets two gershayim marks: the substitutes \<open>[TET, QUOTE, VAV]\<close> and
  \<open>[TET, QUOTE, ZAYIN]\<close> already carry one, and the general rule inserts a second before the last letter.
\<close>

theorem hebrewYearGematria_double_gershayim:
  assumes "0 \<le> n" and "n mod 100 \<in> {15, 16}"
  shows "map_option (\<lambda>s. count_list s QUOTE) (hebrewYearGematria n) = Some 2"
proof -
  let ?y = "js_rem n 1000"
  let ?f = "year_fix (snd (tier_ref (year_tens @ year_ones) (?y mod 100)))"
  from year_rem [OF assms(1)] have y: "?y mod 100 = n mod 100" "?y = n mod 1000" by blast+
  then have y0: "0 \<le> ?y" by simp
  have "tens_ones_ok (?y mod 100) (snd (tier_ref (year_tens @ year_ones) (?y mod 100)))"
    by (rule tens_ones_tier) simp_all
  with assms(2) y have f: "count_list ?f QUOTE = 1" "length ?f = 3" by (simp_all add: tens_ones_ok_def)
  have "QUOTE \<notin> set (snd (tier_ref year_hundreds ?y))" using hundreds_letters by blast
  then have "count_list (snd (tier_ref year_hundreds ?y)) QUOTE = 0" by (simp add: count_list_0_iff)
  with f show ?thesis
    by (simp add: hebrewYearGematria_ref year_ref_split [OF y0] add_gershayim_count)
qed

text \<open>
  C12. No year numeral spells the divine-name combinations \<open>[YOD, HE]\<close> or \<open>[YOD, VAV]\<close> at its end
  (the gershayim marks aside).
\<close>

theorem hebrewYearGematria_avoids_names:
  assumes "0 \<le> n"
  shows "\<exists>s. hebrewYearGematria n = Some s \<and> avoids_names (drop 2 s)"
proof -
  let ?y = "js_rem n 1000"
  let ?h = "snd (tier_ref year_hundreds ?y)"
  let ?f = "year_fix (snd (tier_ref (year_tens @ year_ones) (?y mod 100)))"
  from year_rem [OF assms] have "?y = n mod 1000" by blast
  then have y: "0 \<le> ?y" by simp
  have "tens_ones_ok (?y mod 100) (snd (tier_ref (year_tens @ year_ones) (?y mod 100)))"
    by (rule tens_ones_tier) simp_all
  then have f: "avoids_names ?f" by (simp add: tens_ones_ok_def)
  have h: "YOD \<notin> set ?h" using hundreds_letters by blast
  have "no_quote (add_gershayim (?h @ ?f)) = ?h @ no_quote ?f"
    by (simp add: no_quote_append no_quote_hundreds)
  with f h have "avoids_names (add_gershayim (?h @ ?f))"
    by (simp add: avoids_names_def ends_with_append_no_yod)
  then show ?thesis by (simp add: hebrewYearGematria_ref year_ref_split [OF y])
qed

subsection \<open>Properties of the day encoder\<close>

text \<open>C11. On the days of a month, 1 to 30, the letters of the day numeral add up to the day.\<close>

theorem hebrewDayGematria_value:
  "1 \<le> n \<Longrightarrow> n \<le> 30 \<Longrightarrow> gem_value (hebrewDayGematria n) = n"
  using day_table day_in_table by blast

text \<open>
  On the days 1 to 30 the day numeral is one letter without a mark, or two letters with
  the gershayim between them, and never ends in \<open>[YOD, HE]\<close> or \<open>[YOD, VAV]\<close>.
\<close>

lemma hebrewDayGematria_form:
  "1 \<le> n \<Longrightarrow> n \<le> 30 \<Longrightarrow>
   day_punctuated (hebrewDayGematria n) \<and> avoids_names (hebrewDayGematria n)"
  using day_table day_in_table by blast

text \<open>Day 0 is rendered like day 1: the fallback \<open>s || ALEF\<close> of an empty numeral.\<close>

lemma hebrewDayGematria_zero: "hebrewDayGematria 0 = hebrewDayGematria 1"
  by (simp add: hebrewDayGematria_def js_rem_def add_gershayim_def js_index_def day_ones_def)


text \<open>The spec's example: 5785 is written \<open>[HE, APOS, TAV, SHIN, PE, QUOTE, HE]\<close> (400 + 300 + 80 + 5).\<close>

lemma hebrewYearGematria_5785:
  "hebrewYearGematria 5785 = Some [HE, APOS, TAV, SHIN, PE, QUOTE, HE]"
  by code_simp

subsection \<open>Witnesses\<close>

lemma hebrewYearGematria_value_witness:
  "\<exists>s. hebrewYearGematria 5785 = Some s \<and> take 2 s = [HE, APOS] \<and> gem_value (drop 2 s) = 785"
  using hebrewYearGematria_value [of 5785] by simp

lemma hebrewYearGematria_double_gershayim_witness:
  "map_option (\<lambda>s. count_list s QUOTE) (hebrewYearGematria 5715) = Some 2"
  using hebrewYearGematria_double_gershayim [of 5715] by simp

lemma hebrewYearGematria_avoids_names_witness:
  "\<exists>s. hebrewYearGematria 5716 = Some s \<and> avoids_names (drop 2 s)"
  using hebrewYearGematria_avoids_names [of 5716] by simp

lemma hebrewDayGematria_value_witness: "gem_value (hebrewDayGematria 29) = 29"
  using hebrewDayGematria_value [of 29] by simp

lemma hebrewDayGematria_form_witness:
  "day_punctuated (hebrewDayGematria 16) \<and> avoids_names (hebrewDayGematria 16)"
  using hebrewDayGematria_form [of 16] by simp

end
