(* ===== verification/CalendarConverter.thy ===== *)
theory CalendarConverter
  imports Prelude
begin

text \<open>
  The calendar oracle and \<open>getHebParts\<close> (\<^verbatim>\<open>src/components/HomePanel.tsx\<close>, lines 47--56 and
  78--81). The host's \<open>Intl.DateTimeFormat\<close> objects are the record \<open>intl\<close>: a weekday
  formatter and a \<open>formatToParts\<close> function from a civil day to its list of
  \<open>(type, value)\<close> parts. \<open>getHebParts\<close> collects the parts with \<open>Object.fromEntries\<close> and
  reads \<open>day\<close> and \<open>year\<close> through \<open>Number\<close>.

  The contract \<open>cal_ok\<close> is what a correct Hebrew calendar promises about the parts: the day
  of the month is a number from 1 to 30; the next civil day is either the next day of the same
  month, or day 1 of a differently named month after a day 29 or 30. It is the abstract
  specification the month search of the other theories relies on. \<open>demo_fmt\<close> is a
  formatter that meets it (alternating months of 30 and 29 days), used by the witnesses.
\<close>

record heb_parts =
  day :: jsnum
  monthName :: "jsstr option"
  year :: jsnum
  weekday :: "jsstr option"

type_synonym formatter = "day \<Rightarrow> (jsstr \<times> jsstr) list"

record intl =
  fmtWeekdayHeb :: "day \<Rightarrow> jsstr"
  fmtPartsLatn :: formatter

definition getHebParts :: "formatter \<Rightarrow> day \<Rightarrow> heb_parts" where
  "getHebParts fmt d =
     (let parts = from_entries (fmt d) in
      \<lparr>day = js_number (parts (js_str ''day'')), monthName = parts (js_str ''month''),
       year = js_number (parts (js_str ''year'')), weekday = parts (js_str ''weekday'')\<rparr>)"

subsection \<open>The contract of a correct calendar\<close>

definition heb_day :: "formatter \<Rightarrow> day \<Rightarrow> int" where
  "heb_day fmt d = (case day (getHebParts fmt d) of Num k \<Rightarrow> k | NaN \<Rightarrow> 0)"

definition heb_month :: "formatter \<Rightarrow> day \<Rightarrow> jsstr option" where
  "heb_month fmt d = monthName (getHebParts fmt d)"

definition cal_ok :: "formatter \<Rightarrow> bool" where
  "cal_ok fmt \<longleftrightarrow> (\<forall>d. day (getHebParts fmt d) = Num (heb_day fmt d)
     \<and> 1 \<le> heb_day fmt d \<and> heb_day fmt d \<le> 30
     \<and> (heb_day fmt (d + 1) = heb_day fmt d + 1 \<and> heb_month fmt (d + 1) = heb_month fmt d
        \<or> heb_day fmt (d + 1) = 1 \<and> 29 \<le> heb_day fmt d \<and> heb_month fmt (d + 1) \<noteq> heb_month fmt d))"

subsection \<open>A formatter that meets the contract\<close>

definition demo_month :: "int \<Rightarrow> jsstr" where
  "demo_month r = (if r < 30 then js_str ''Adar'' else js_str ''Nisan'')"

definition demo_day :: "int \<Rightarrow> int" where
  "demo_day r = (if r < 30 then r + 1 else r - 29)"

definition demo_fmt :: formatter where
  "demo_fmt d =
     [(js_str ''weekday'', js_str ''Monday''), (js_str ''literal'', js_str '', ''),
      (js_str ''day'', dec_digits (nat (demo_day (d mod 59)))), (js_str ''literal'', js_str '' ''),
      (js_str ''month'', demo_month (d mod 59)), (js_str ''literal'', js_str '' ''),
      (js_str ''year'', dec_digits 5785)]"

subsection \<open>Consequences of the contract\<close>

lemma cal_okD:
  assumes "cal_ok fmt"
  shows cal_ok_day: "day (getHebParts fmt d) = Num (heb_day fmt d)"
    and cal_ok_bounds: "1 \<le> heb_day fmt d" "heb_day fmt d \<le> 30"
    and cal_ok_next: "heb_day fmt (d + 1) = heb_day fmt d + 1 \<and> heb_month fmt (d + 1) = heb_month fmt d
        \<or> heb_day fmt (d + 1) = 1 \<and> 29 \<le> heb_day fmt d \<and> heb_month fmt (d + 1) \<noteq> heb_month fmt d"
  using assms by (simp_all add: cal_ok_def)

lemma cal_ok_day_one_iff: "cal_ok fmt \<Longrightarrow> day (getHebParts fmt d) = Num 1 \<longleftrightarrow> heb_day fmt d = 1"
  by (simp add: cal_ok_day)

text \<open>Walking back inside a month: the day of the month drops by one, the month stays.\<close>

lemma cal_ok_prev:
  assumes "cal_ok fmt" "heb_day fmt d \<noteq> 1"
  shows "heb_day fmt (d - 1) = heb_day fmt d - 1 \<and> heb_month fmt (d - 1) = heb_month fmt d"
  using cal_ok_next [OF assms(1), of "d - 1"] assms(2) by auto

lemma cal_ok_back:
  assumes "cal_ok fmt" "int j < heb_day fmt d"
  shows "heb_day fmt (d - int j) = heb_day fmt d - int j \<and> heb_month fmt (d - int j) = heb_month fmt d"
  using assms(2)
proof (induction j)
  case 0
  then show ?case by simp
next
  case (Suc j)
  then have ih: "heb_day fmt (d - int j) = heb_day fmt d - int j"
      "heb_month fmt (d - int j) = heb_month fmt d" by simp_all
  with Suc.prems have "heb_day fmt (d - int j) \<noteq> 1" by simp
  from cal_ok_prev [OF assms(1) this] ih show ?case by (simp add: algebra_simps)
qed

subsection \<open>The demonstration formatter is a correct calendar\<close>

lemma demo_parts:
  "getHebParts demo_fmt d =
     \<lparr>day = Num (demo_day (d mod 59)), monthName = Some (demo_month (d mod 59)),
      year = Num 5785, weekday = Some (js_str ''Monday'')\<rparr>"
proof -
  have "0 \<le> demo_day (d mod 59)" by (simp add: demo_day_def)
  then show ?thesis
    by (simp add: getHebParts_def demo_fmt_def from_entries_def js_str_def js_number_dec_digits)
qed

lemma demo_heb_day: "heb_day demo_fmt d = demo_day (d mod 59)"
  by (simp add: heb_day_def demo_parts)

lemma demo_heb_month: "heb_month demo_fmt d = Some (demo_month (d mod 59))"
  by (simp add: heb_month_def demo_parts)

lemma demo_next_rem: "((d::int) + 1) mod 59 = (if d mod 59 = 58 then 0 else d mod 59 + 1)"
proof -
  have e: "(d + 1) mod 59 = (d mod 59 + 1) mod 59" by (simp add: mod_add_left_eq)
  have "0 \<le> d mod 59" "d mod 59 < 59" by simp_all
  then show ?thesis unfolding e by (auto simp: mod_pos_pos_trivial)
qed

lemma demo_names_differ: "js_str ''Adar'' \<noteq> js_str ''Nisan''"
  by (simp add: js_str_def)

lemma demo_step:
  assumes "0 \<le> r" "r < 59"
  defines "r' \<equiv> if r = 58 then 0 else r + 1"
  shows "demo_day r' = demo_day r + 1 \<and> demo_month r' = demo_month r
     \<or> demo_day r' = 1 \<and> 29 \<le> demo_day r \<and> demo_month r' \<noteq> demo_month r"
proof -
  consider "r < 29" | "r = 29" | "30 \<le> r \<and> r < 58" | "r = 58" using assms by linarith
  then show ?thesis
  proof cases
    case 1 then show ?thesis by (simp add: r'_def demo_day_def demo_month_def)
  next
    case 2 then show ?thesis by (simp add: r'_def demo_day_def demo_month_def demo_names_differ demo_names_differ [symmetric])
  next
    case 3 then show ?thesis by (simp add: r'_def demo_day_def demo_month_def)
  next
    case 4 then show ?thesis by (simp add: r'_def demo_day_def demo_month_def demo_names_differ demo_names_differ [symmetric])
  qed
qed

lemma cal_ok_demo: "cal_ok demo_fmt"
  unfolding cal_ok_def
proof
  fix d :: int
  have r: "0 \<le> d mod 59" "d mod 59 < 59" by simp_all
  then have "1 \<le> demo_day (d mod 59) \<and> demo_day (d mod 59) \<le> 30" by (auto simp: demo_day_def)
  with demo_step [OF r] show "day (getHebParts demo_fmt d) = Num (heb_day demo_fmt d)
     \<and> 1 \<le> heb_day demo_fmt d \<and> heb_day demo_fmt d \<le> 30
     \<and> (heb_day demo_fmt (d + 1) = heb_day demo_fmt d + 1 \<and> heb_month demo_fmt (d + 1) = heb_month demo_fmt d
        \<or> heb_day demo_fmt (d + 1) = 1 \<and> 29 \<le> heb_day demo_fmt d \<and> heb_month demo_fmt (d + 1) \<noteq> heb_month demo_fmt d)"
    by (simp only: demo_heb_day demo_heb_month demo_next_rem demo_parts heb_parts.simps option.inject)
qed

end
