(* ===== verification/MonthBoundary.thy ===== *)
theory MonthBoundary
  imports CalendarConverter
begin

text \<open>
  \<open>findHebMonthStart\<close> (\<^verbatim>\<open>src/components/HomePanel.tsx\<close>, lines 82--86): walk back one civil
  day at a time from the anchor until the parts report day 1, at most 40 times
  (\<open>while (guard++ < 40)\<close>). The loop is a \<^theory_text>\<open>function\<close> whose measure is the guard's
  distance to 40; a search that exhausts the guard is \<open>None\<close>, and the code then returns the
  anchor itself. Under the contract \<open>cal_ok\<close> a day 1 is at most 29 days back, so the
  guard of 40 is never exhausted, and the result is the latest month start at or before the
  anchor.
\<close>

abbreviation guard_limit :: nat where "guard_limit \<equiv> 40"

function findHebMonthStart_loop :: "formatter \<Rightarrow> nat \<Rightarrow> day \<Rightarrow> day option" where
  "findHebMonthStart_loop fmt guard d =
     (if guard < guard_limit then
        (if day (getHebParts fmt d) = Num 1 then Some d
         else findHebMonthStart_loop fmt (Suc guard) (d - 1))
      else None)"
  by pat_completeness auto
termination
  by (relation "measure (\<lambda>(fmt, guard, d). guard_limit - guard)") auto

declare findHebMonthStart_loop.simps [simp del]

definition findHebMonthStart :: "formatter \<Rightarrow> day \<Rightarrow> day" where
  "findHebMonthStart fmt base =
     (case findHebMonthStart_loop fmt 0 base of Some d \<Rightarrow> d | None \<Rightarrow> base)"

subsection \<open>The loop\<close>

lemma find_loop_finds:
  "cal_ok fmt \<Longrightarrow> heb_day fmt d \<le> int (guard_limit - guard) \<Longrightarrow>
   findHebMonthStart_loop fmt guard d = Some (d - heb_day fmt d + 1)"
proof (induction fmt guard d rule: findHebMonthStart_loop.induct)
  case (1 fmt guard d)
  have g: "guard < guard_limit" using "1.prems" cal_ok_bounds(1) [OF "1.prems"(1), of d] by linarith
  show ?case
  proof (cases "heb_day fmt d = 1")
    case True
    with g "1.prems"(1) show ?thesis
      by (simp add: findHebMonthStart_loop.simps [of fmt guard d] cal_ok_day_one_iff)
  next
    case False
    have prev: "heb_day fmt (d - 1) = heb_day fmt d - 1" using cal_ok_prev [OF "1.prems"(1) False] by simp
    with "1.prems" have "heb_day fmt (d - 1) \<le> int (guard_limit - Suc guard)" using g by linarith
    with "1.IH" g False "1.prems"(1) have "findHebMonthStart_loop fmt (Suc guard) (d - 1) = Some (d - heb_day fmt d + 1)"
      by (simp add: cal_ok_day_one_iff prev)
    with g False "1.prems"(1) show ?thesis
      by (simp add: findHebMonthStart_loop.simps [of fmt guard d] cal_ok_day_one_iff)
  qed
qed

lemma find_loop_day_one:
  "findHebMonthStart_loop fmt guard d = Some s \<Longrightarrow> day (getHebParts fmt s) = Num 1"
proof (induction fmt guard d rule: findHebMonthStart_loop.induct)
  case (1 fmt guard d)
  then show ?case
    by (auto simp: findHebMonthStart_loop.simps [of fmt guard d] split: if_splits)
qed

lemma find_loop_none:
  "\<forall>j < guard_limit - guard. day (getHebParts fmt (d - int j)) \<noteq> Num 1 \<Longrightarrow>
   findHebMonthStart_loop fmt guard d = None"
proof (induction fmt guard d rule: findHebMonthStart_loop.induct)
  case (1 fmt guard d)
  show ?case
  proof (cases "guard < guard_limit")
    case True
    then have "0 < guard_limit - guard" by simp
    with "1.prems" have "day (getHebParts fmt (d - int 0)) \<noteq> Num 1" by blast
    then have d: "day (getHebParts fmt d) \<noteq> Num 1" by simp
    have rest: "\<forall>j < guard_limit - Suc guard. day (getHebParts fmt (d - 1 - int j)) \<noteq> Num 1"
    proof (intro allI impI)
      fix j assume "j < guard_limit - Suc guard"
      then have "Suc j < guard_limit - guard" by simp
      with "1.prems" have "day (getHebParts fmt (d - int (Suc j))) \<noteq> Num 1" by blast
      then show "day (getHebParts fmt (d - 1 - int j)) \<noteq> Num 1" by (simp add: algebra_simps)
    qed
    have "findHebMonthStart_loop fmt (Suc guard) (d - 1) = None" by (rule "1.IH" [OF True d rest])
    with True d show ?thesis by (simp add: findHebMonthStart_loop.simps [of fmt guard d])
  next
    case False
    then show ?thesis by (simp add: findHebMonthStart_loop.simps [of fmt guard d])
  qed
qed


lemma find_eq: "cal_ok fmt \<Longrightarrow> findHebMonthStart fmt b = b - heb_day fmt b + 1"
  using find_loop_finds [of fmt b 0] cal_ok_bounds(2) [of fmt b] by (simp add: findHebMonthStart_def)

lemma find_start_props:
  assumes "cal_ok fmt"
  shows "heb_day fmt (b - heb_day fmt b + 1) = 1 \<and> heb_month fmt (b - heb_day fmt b + 1) = heb_month fmt b"
proof -
  have j: "int (nat (heb_day fmt b - 1)) < heb_day fmt b" "int (nat (heb_day fmt b - 1)) = heb_day fmt b - 1"
    using cal_ok_bounds(1) [OF assms, of b] by simp_all
  from cal_ok_back [OF assms j(1)] j(2) show ?thesis by (simp add: algebra_simps)
qed

lemma find_no_later_start:
  assumes "cal_ok fmt" "b - heb_day fmt b + 1 < d" "d \<le> b"
  shows "heb_day fmt d \<noteq> 1"
proof -
  have j: "int (nat (b - d)) < heb_day fmt b" "int (nat (b - d)) = b - d" using assms(2,3) by simp_all
  from cal_ok_back [OF assms(1) j(1)] j(2) assms(2,3) show ?thesis by simp
qed

lemma find_of_start: "cal_ok fmt \<Longrightarrow> heb_day fmt s = 1 \<Longrightarrow> findHebMonthStart fmt s = s"
  by (simp add: find_eq)

subsection \<open>Properties of the month-start search\<close>

text \<open>
  C2. Under a correct calendar the backward search finds a day 1 before its guard of 40
  steps runs out: the loop returns \<open>Some\<close>, the date \<open>day - 1\<close> civil days back.
\<close>

theorem findHebMonthStart_loop_finds:
  "cal_ok fmt \<Longrightarrow> findHebMonthStart_loop fmt 0 b = Some (b - heb_day fmt b + 1)"
  using find_loop_finds [of fmt b 0] cal_ok_bounds(2) [of fmt b] by simp

text \<open>
  C1. \<open>findHebMonthStart\<close> returns the latest month start at or before the anchor: a day 1 of
  the anchor's own month, less than 30 days back, with no day 1 after it up to the anchor.
\<close>

theorem findHebMonthStart_spec:
  assumes "cal_ok fmt"
  shows "findHebMonthStart fmt b \<le> b \<and> b - findHebMonthStart fmt b < 30
    \<and> heb_day fmt (findHebMonthStart fmt b) = 1 \<and> heb_month fmt (findHebMonthStart fmt b) = heb_month fmt b
    \<and> (\<forall>d. findHebMonthStart fmt b < d \<and> d \<le> b \<longrightarrow> heb_day fmt d \<noteq> 1)"
  using find_start_props [OF assms, of b] cal_ok_bounds [OF assms, of b] find_no_later_start [OF assms, of b]
  by (simp add: find_eq [OF assms])

text \<open>
  The search is idempotent on every formatter, correct or not: a found start reports
  day 1, so searching from it returns it at once; an exhausted search returned the anchor,
  and searching from it again is exhausted again.
\<close>

lemma findHebMonthStart_idem:
  "findHebMonthStart fmt (findHebMonthStart fmt b) = findHebMonthStart fmt b"
proof (cases "findHebMonthStart_loop fmt 0 b")
  case None
  then show ?thesis by (simp add: findHebMonthStart_def)
next
  case (Some s)
  then have "day (getHebParts fmt s) = Num 1" by (rule find_loop_day_one)
  then have "findHebMonthStart_loop fmt 0 s = Some s" by (simp add: findHebMonthStart_loop.simps)
  with Some show ?thesis by (simp add: findHebMonthStart_def)
qed

text \<open>
  C30. When no day 1 is reported within 40 days back (a formatter whose parts do not parse, for
  instance), the search does not fail: it silently returns the anchor as the month start.
\<close>

theorem findHebMonthStart_exhausted:
  "\<forall>j < guard_limit. day (getHebParts fmt (b - int j)) \<noteq> Num 1 \<Longrightarrow> findHebMonthStart fmt b = b"
  using find_loop_none [of 0 fmt b] by (simp add: findHebMonthStart_def)

subsection \<open>Witnesses\<close>

lemma findHebMonthStart_loop_finds_witness:
  "cal_ok demo_fmt \<and> findHebMonthStart_loop demo_fmt 0 100 = Some 89"
  using cal_ok_demo findHebMonthStart_loop_finds [OF cal_ok_demo, of 100]
  by (simp add: demo_heb_day demo_day_def)

lemma findHebMonthStart_spec_witness:
  "cal_ok demo_fmt \<and> findHebMonthStart demo_fmt 100 = 89 \<and> heb_day demo_fmt 89 = 1"
proof -
  have "findHebMonthStart demo_fmt 100 = 89"
    by (simp add: find_eq [OF cal_ok_demo] demo_heb_day demo_day_def)
  with findHebMonthStart_spec [OF cal_ok_demo, of 100] cal_ok_demo show ?thesis by simp
qed

lemma findHebMonthStart_exhausted_witness: "findHebMonthStart (\<lambda>_. []) 100 = 100"
  by (rule findHebMonthStart_exhausted)
     (simp add: getHebParts_def from_entries_def js_number_def)

end
