(* ===== verification/MonthGrid.thy ===== *)
theory MonthGrid
  imports MonthBoundary
begin

text \<open>
  \<open>buildHebMonthDays\<close> and \<open>monthLength\<close> (\<^verbatim>\<open>src/components/HomePanel.tsx\<close>, lines 87--91
  and 96): from a month start, push the day, step one civil day forward and stop at the
  first day that reports day 1 under another month name, at most 40 times. The loop is a
  \<^theory_text>\<open>function\<close> with the guard's distance to 40 as measure; an exhausted guard returns
  the 40 days collected so far, as the code does. Under \<open>cal_ok\<close> the grid of a month start
  is the 29 or 30 consecutive days of its month, numbered 1, 2, ... in order, and the day
  after the grid is day 1 of the next month.
\<close>

function buildHebMonthDays_loop :: "formatter \<Rightarrow> jsstr option \<Rightarrow> nat \<Rightarrow> day \<Rightarrow> day list \<Rightarrow> day list" where
  "buildHebMonthDays_loop fmt m guard d arr =
     (if guard < guard_limit then
        (let arr' = arr @ [d]; d' = d + 1; p = getHebParts fmt d' in
         if day p = Num 1 \<and> monthName p \<noteq> m then arr'
         else buildHebMonthDays_loop fmt m (Suc guard) d' arr')
      else arr)"
  by pat_completeness auto
termination
  by (relation "measure (\<lambda>(fmt, m, guard, d, arr). guard_limit - guard)") auto

declare buildHebMonthDays_loop.simps [simp del]

definition buildHebMonthDays :: "formatter \<Rightarrow> day \<Rightarrow> day list" where
  "buildHebMonthDays fmt start =
     buildHebMonthDays_loop fmt (monthName (getHebParts fmt start)) 0 start []"

definition monthLength :: "formatter \<Rightarrow> day \<Rightarrow> nat" where
  "monthLength fmt base = length (buildHebMonthDays fmt (findHebMonthStart fmt base))"

text \<open>The \<open>n\<close> consecutive civil days from \<open>d\<close>: the shape of a month grid.\<close>

primrec days_from :: "day \<Rightarrow> nat \<Rightarrow> day list" where
  "days_from d 0 = []"
| "days_from d (Suc n) = d # days_from (d + 1) n"

subsection \<open>Consecutive days\<close>

lemma length_days_from [simp]: "length (days_from d n) = n"
  by (induction n arbitrary: d) simp_all

lemma set_days_from: "set (days_from d n) = {d ..< d + int n}"
  by (induction n arbitrary: d) auto

lemma nth_days_from: "i < n \<Longrightarrow> days_from d n ! i = d + int i"
  by (induction n arbitrary: d i) (auto simp: nth_Cons split: nat.splits)

subsection \<open>The forward loop under the contract\<close>

lemma build_loop_spec:
  assumes "cal_ok fmt" "heb_month fmt d = m" "int guard \<le> 9 + heb_day fmt d"
  shows "\<exists>n. 0 < n \<and> buildHebMonthDays_loop fmt m guard d arr = arr @ days_from d n
     \<and> heb_day fmt (d + int n) = 1 \<and> heb_month fmt (d + int n) \<noteq> m
     \<and> 29 \<le> heb_day fmt d + int n - 1
     \<and> (\<forall>i<n. heb_day fmt (d + int i) = heb_day fmt d + int i \<and> heb_month fmt (d + int i) = m)"
  using assms
proof (induction fmt m guard d arr rule: buildHebMonthDays_loop.induct)
  case (1 fmt m guard d arr)
  note ok = "1.prems"(1)
  have g: "guard < guard_limit" using "1.prems"(3) cal_ok_bounds(2) [OF ok, of d] by linarith
  have brk: "(day (getHebParts fmt (d + 1)) = Num 1 \<and> monthName (getHebParts fmt (d + 1)) \<noteq> m)
      \<longleftrightarrow> heb_day fmt (d + 1) = 1 \<and> heb_month fmt (d + 1) \<noteq> m"
    by (simp add: cal_ok_day_one_iff [OF ok] heb_month_def)
  from cal_ok_next [OF ok, of d] show ?case
  proof
    assume same: "heb_day fmt (d + 1) = heb_day fmt d + 1 \<and> heb_month fmt (d + 1) = heb_month fmt d"
    have nb: "\<not> (day (getHebParts fmt (d + 1)) = Num 1 \<and> monthName (getHebParts fmt (d + 1)) \<noteq> m)"
      using brk same cal_ok_bounds(1) [OF ok, of d] by simp
    have pre: "heb_month fmt (d + 1) = m" "int (Suc guard) \<le> 9 + heb_day fmt (d + 1)"
      using same "1.prems"(2,3) by simp_all
    obtain n where n: "0 < n"
      "buildHebMonthDays_loop fmt m (Suc guard) (d + 1) (arr @ [d]) = (arr @ [d]) @ days_from (d + 1) n"
      "heb_day fmt (d + 1 + int n) = 1" "heb_month fmt (d + 1 + int n) \<noteq> m"
      "29 \<le> heb_day fmt (d + 1) + int n - 1"
      "\<forall>i<n. heb_day fmt (d + 1 + int i) = heb_day fmt (d + 1) + int i \<and> heb_month fmt (d + 1 + int i) = m"
      using "1.IH" [OF g refl refl refl nb ok pre] by blast
    have loop: "buildHebMonthDays_loop fmt m guard d arr = arr @ days_from d (Suc n)"
      using g nb n(2) by (auto simp: buildHebMonthDays_loop.simps [of fmt m guard d arr] Let_def)
    have all: "\<forall>i<Suc n. heb_day fmt (d + int i) = heb_day fmt d + int i \<and> heb_month fmt (d + int i) = m"
    proof (intro allI impI)
      fix i assume "i < Suc n"
      then show "heb_day fmt (d + int i) = heb_day fmt d + int i \<and> heb_month fmt (d + int i) = m"
      proof (cases i)
        case 0
        then show ?thesis using "1.prems"(2) by simp
      next
        case (Suc i')
        with \<open>i < Suc n\<close> n(6) same have "heb_day fmt (d + 1 + int i') = heb_day fmt d + 1 + int i'"
            "heb_month fmt (d + 1 + int i') = m" by simp_all
        with Suc show ?thesis by (simp add: algebra_simps)
      qed
    qed
    show ?thesis
      using loop n(3,4,5) all same by (intro exI [of _ "Suc n"]) (simp add: add.assoc)
  next
    assume new: "heb_day fmt (d + 1) = 1 \<and> 29 \<le> heb_day fmt d \<and> heb_month fmt (d + 1) \<noteq> heb_month fmt d"
    then have "buildHebMonthDays_loop fmt m guard d arr = arr @ days_from d 1"
      using g brk "1.prems"(2) by (simp add: buildHebMonthDays_loop.simps [of fmt m guard d arr])
    with new "1.prems"(2) show ?thesis by (intro exI [of _ 1]) simp
  qed
qed


lemma build_start:
  assumes "cal_ok fmt" "heb_day fmt s = 1"
  shows "\<exists>L. 29 \<le> L \<and> L \<le> 30 \<and> buildHebMonthDays fmt s = days_from s L
     \<and> heb_day fmt (s + int L) = 1 \<and> heb_month fmt (s + int L) \<noteq> heb_month fmt s
     \<and> (\<forall>i<L. heb_day fmt (s + int i) = 1 + int i \<and> heb_month fmt (s + int i) = heb_month fmt s)"
proof -
  have m: "heb_month fmt s = monthName (getHebParts fmt s)" by (simp add: heb_month_def)
  obtain n where n: "0 < n" "buildHebMonthDays fmt s = days_from s n"
    "heb_day fmt (s + int n) = 1" "heb_month fmt (s + int n) \<noteq> heb_month fmt s"
    "29 \<le> heb_day fmt s + int n - 1"
    "\<forall>i<n. heb_day fmt (s + int i) = heb_day fmt s + int i \<and> heb_month fmt (s + int i) = heb_month fmt s"
    using build_loop_spec [OF assms(1) m, of 0 "[]"] assms(2)
    by (auto simp: buildHebMonthDays_def heb_month_def)
  have "n - 1 < n" using n(1) by simp
  with n(6) have "heb_day fmt (s + int (n - 1)) = heb_day fmt s + int (n - 1)" by blast
  moreover have "int (n - 1) = int n - 1" using n(1) by simp
  ultimately have "n \<le> 30" using cal_ok_bounds(2) [OF assms(1), of "s + int (n - 1)"] assms(2) by simp
  with n assms(2) show ?thesis by (intro exI [of _ n]) simp
qed

lemma monthLength_start: "cal_ok fmt \<Longrightarrow> heb_day fmt s = 1 \<Longrightarrow> monthLength fmt s = length (buildHebMonthDays fmt s)"
  by (simp add: monthLength_def find_of_start)

lemma month_of_start:
  assumes "cal_ok fmt" "heb_day fmt s = 1"
  shows "29 \<le> monthLength fmt s \<and> monthLength fmt s \<le> 30
     \<and> heb_day fmt (s + int (monthLength fmt s)) = 1
     \<and> heb_month fmt (s + int (monthLength fmt s)) \<noteq> heb_month fmt s
     \<and> (\<forall>i<monthLength fmt s. heb_day fmt (s + int i) = 1 + int i \<and> heb_month fmt (s + int i) = heb_month fmt s)"
  using build_start [OF assms] monthLength_start [OF assms] by auto

lemma find_inside:
  assumes "cal_ok fmt" "heb_day fmt s = 1" "i < monthLength fmt s"
  shows "findHebMonthStart fmt (s + int i) = s"
  using month_of_start [OF assms(1,2)] assms(3) by (simp add: find_eq [OF assms(1)])

lemma prev_start:
  assumes "cal_ok fmt" "heb_day fmt s = 1"
  shows "heb_day fmt (findHebMonthStart fmt (s - 1)) = 1
     \<and> findHebMonthStart fmt (s - 1) + int (monthLength fmt (findHebMonthStart fmt (s - 1))) = s"
proof -
  let ?k = "heb_day fmt (s - 1)"
  let ?p = "findHebMonthStart fmt (s - 1)"
  have p: "?p = s - ?k" "heb_day fmt ?p = 1"
    using find_eq [OF assms(1), of "s - 1"] find_start_props [OF assms(1), of "s - 1"] by simp_all
  have k: "29 \<le> ?k" using cal_ok_next [OF assms(1), of "s - 1"] assms(2) cal_ok_bounds(1) [OF assms(1), of "s - 1"] by auto
  let ?L = "monthLength fmt ?p"
  have L: "29 \<le> ?L" "heb_day fmt (?p + int ?L) = 1"
    "\<forall>i<?L. heb_day fmt (?p + int i) = 1 + int i"
    using month_of_start [OF assms(1) p(2)] by auto
  have "\<not> int ?L < ?k"
  proof
    assume less: "int ?L < ?k"
    have "heb_day fmt (?p + int ?L) \<noteq> 1"
      by (rule find_no_later_start [OF assms(1), of "s - 1"]) (use less L(1) p(1) in simp_all)
    with L(2) show False by simp
  qed
  moreover have "\<not> ?k < int ?L"
  proof
    assume more: "?k < int ?L"
    then have "nat ?k < ?L" using k by linarith
    with L(3) have "heb_day fmt (?p + int (nat ?k)) = 1 + int (nat ?k)" by blast
    with p(1) k assms(2) show False by simp
  qed
  ultimately have "int ?L = ?k" by linarith
  with p show ?thesis by simp
qed

lemma anchor_day_bound:
  assumes "cal_ok fmt"
  shows "heb_day fmt b \<le> int (monthLength fmt b)"
proof -
  let ?s = "findHebMonthStart fmt b"
  have s: "?s = b - heb_day fmt b + 1" "heb_day fmt ?s = 1"
    using find_eq [OF assms] find_start_props [OF assms, of b] by simp_all
  obtain L where L: "29 \<le> L" "buildHebMonthDays fmt ?s = days_from ?s L" "heb_day fmt (?s + int L) = 1"
    using build_start [OF assms s(2)] by blast
  have "heb_day fmt b \<le> int L"
  proof (rule ccontr)
    assume "\<not> heb_day fmt b \<le> int L"
    then have "heb_day fmt (?s + int L) \<noteq> 1"
      using L(1) s(1) by (intro find_no_later_start [OF assms, of b]) simp_all
    with L(3) show False by simp
  qed
  with L(2) show ?thesis by (simp add: monthLength_def)
qed

lemma grid_of_anchor:
  assumes "cal_ok fmt"
  shows "\<exists>L. buildHebMonthDays fmt (findHebMonthStart fmt b) = days_from (findHebMonthStart fmt b) L
    \<and> findHebMonthStart fmt b \<le> b \<and> b < findHebMonthStart fmt b + int L"
proof -
  let ?s = "findHebMonthStart fmt b"
  have s: "?s = b - heb_day fmt b + 1" "heb_day fmt ?s = 1"
    using find_eq [OF assms] find_start_props [OF assms, of b] by simp_all
  obtain L where L: "buildHebMonthDays fmt ?s = days_from ?s L"
    using build_start [OF assms s(2)] by blast
  then have "monthLength fmt b = L" by (simp add: monthLength_def)
  with anchor_day_bound [OF assms, of b] s(1) cal_ok_bounds(1) [OF assms, of b] L show ?thesis by auto
qed

subsection \<open>Properties of the month grid\<close>

text \<open>
  C3. From a month start, the grid is the 29 or 30 consecutive civil days of the month, the
  \<open>i\<close>-th of them reporting day \<open>i + 1\<close> of the start's month, and the day after the grid
  is day 1 of a differently named month.
\<close>

theorem buildHebMonthDays_spec:
  assumes "cal_ok fmt" "heb_day fmt s = 1"
  shows "\<exists>L. 29 \<le> L \<and> L \<le> 30 \<and> buildHebMonthDays fmt s = days_from s L
     \<and> heb_day fmt (s + int L) = 1 \<and> heb_month fmt (s + int L) \<noteq> heb_month fmt s
     \<and> (\<forall>i<L. heb_day fmt (s + int i) = 1 + int i \<and> heb_month fmt (s + int i) = heb_month fmt s)"
  using build_start [OF assms] .

text \<open>
  C4. The month length the view computes is the length of the anchor's own month: counted from
  the anchor's month start, the anchor lies within it, every one of its 29 or 30 days carries the
  anchor's month, and the day after it is day 1 of the next month.
\<close>

theorem monthLength_bounds:
  assumes "cal_ok fmt"
  shows "29 \<le> monthLength fmt b \<and> monthLength fmt b \<le> 30
    \<and> findHebMonthStart fmt b \<le> b \<and> b < findHebMonthStart fmt b + int (monthLength fmt b)
    \<and> heb_day fmt (findHebMonthStart fmt b + int (monthLength fmt b)) = 1
    \<and> (\<forall>i<monthLength fmt b. heb_month fmt (findHebMonthStart fmt b + int i) = heb_month fmt b)"
proof -
  let ?s = "findHebMonthStart fmt b"
  have s: "heb_day fmt ?s = 1" "heb_month fmt ?s = heb_month fmt b"
    using find_eq [OF assms] find_start_props [OF assms, of b] by simp_all
  obtain L where L: "buildHebMonthDays fmt ?s = days_from ?s L" "?s \<le> b" "b < ?s + int L"
    using grid_of_anchor [OF assms] by blast
  obtain L' where L': "29 \<le> L'" "L' \<le> 30" "buildHebMonthDays fmt ?s = days_from ?s L'"
      "heb_day fmt (?s + int L') = 1" "\<forall>i<L'. heb_month fmt (?s + int i) = heb_month fmt ?s"
    using build_start [OF assms s(1)] by blast
  have "L = L'" using L(1) L'(3) length_days_from [of ?s L] length_days_from [of ?s L'] by metis
  moreover have "monthLength fmt b = L'" using L'(3) by (simp add: monthLength_def)
  ultimately show ?thesis using L L' s(2) by simp
qed

text \<open>
  C5. The anchor sits in the grid the view builds for it at the index of its Hebrew day: the
  grid starts on day 1 of the anchor's month, and its \<open>(d - 1)\<close>-th cell is the anchor when the
  anchor is day \<open>d\<close>.
\<close>

theorem anchor_in_grid:
  assumes "cal_ok fmt"
  shows "buildHebMonthDays fmt (findHebMonthStart fmt b) ! nat (heb_day fmt b - 1) = b
    \<and> heb_day fmt (hd (buildHebMonthDays fmt (findHebMonthStart fmt b))) = 1"
proof -
  let ?s = "findHebMonthStart fmt b"
  have s: "?s = b - heb_day fmt b + 1" "heb_day fmt ?s = 1"
    using find_eq [OF assms] find_start_props [OF assms, of b] by simp_all
  obtain L where L: "buildHebMonthDays fmt ?s = days_from ?s L" "?s \<le> b" "b < ?s + int L"
    using grid_of_anchor [OF assms] by blast
  have d: "1 \<le> heb_day fmt b" using cal_ok_bounds(1) [OF assms] .
  then have i: "nat (heb_day fmt b - 1) < L" using L(3) s(1) by simp
  have "days_from ?s L ! nat (heb_day fmt b - 1) = b" using nth_days_from [OF i] s(1) d by simp
  moreover have "hd (days_from ?s L) = ?s" using nth_days_from [of 0 L ?s] i hd_conv_nth [of "days_from ?s L"]
    by (cases L) simp_all
  ultimately show ?thesis using L(1) s(2) by simp
qed

text \<open>
  When no day 1 of another month is reported within 40 days (a formatter whose parts do
  not parse, for instance), the grid silently has 40 days.
\<close>

lemma buildHebMonthDays_exhausted:
  assumes "\<forall>j < guard_limit. \<not> (day (getHebParts fmt (s + 1 + int j)) = Num 1
              \<and> monthName (getHebParts fmt (s + 1 + int j)) \<noteq> monthName (getHebParts fmt s))"
  shows "buildHebMonthDays fmt s = days_from s guard_limit"
proof -
  have "buildHebMonthDays_loop fmt m g d arr = arr @ days_from d (guard_limit - g)"
    if "\<forall>j < guard_limit - g. \<not> (day (getHebParts fmt (d + 1 + int j)) = Num 1
              \<and> monthName (getHebParts fmt (d + 1 + int j)) \<noteq> m)" for m g d arr
    using that
  proof (induction fmt m g d arr rule: buildHebMonthDays_loop.induct)
    case (1 fmt m guard d arr)
    show ?case
    proof (cases "guard < guard_limit")
      case True
      then have "0 < guard_limit - guard" by simp
      with "1.prems" have "\<not> (day (getHebParts fmt (d + 1 + int 0)) = Num 1
          \<and> monthName (getHebParts fmt (d + 1 + int 0)) \<noteq> m)" by blast
      then have nb: "\<not> (day (getHebParts fmt (d + 1)) = Num 1 \<and> monthName (getHebParts fmt (d + 1)) \<noteq> m)"
        by simp
      have rest: "\<forall>j < guard_limit - Suc guard. \<not> (day (getHebParts fmt (d + 1 + 1 + int j)) = Num 1
              \<and> monthName (getHebParts fmt (d + 1 + 1 + int j)) \<noteq> m)"
      proof (intro allI impI)
        fix j assume "j < guard_limit - Suc guard"
        then have "Suc j < guard_limit - guard" by simp
        with "1.prems" have "\<not> (day (getHebParts fmt (d + 1 + int (Suc j))) = Num 1
              \<and> monthName (getHebParts fmt (d + 1 + int (Suc j))) \<noteq> m)" by blast
        then show "\<not> (day (getHebParts fmt (d + 1 + 1 + int j)) = Num 1
              \<and> monthName (getHebParts fmt (d + 1 + 1 + int j)) \<noteq> m)" by (simp add: algebra_simps)
      qed
      have "guard_limit - guard = Suc (guard_limit - Suc guard)" using True by simp
      then show ?thesis
        using "1.IH" [OF True refl refl refl nb rest] True nb
        by (auto simp: buildHebMonthDays_loop.simps [of fmt m guard d arr] Let_def)
    next
      case False
      then show ?thesis by (simp add: buildHebMonthDays_loop.simps [of fmt m guard d arr])
    qed
  qed
  from this [where m = "monthName (getHebParts fmt s)" and g = 0 and d = s and arr = "[]"] assms show ?thesis by (simp add: buildHebMonthDays_def)
qed


text \<open>
  The spec's scenario: from the first day of a 29-day month (day 30 of the demonstration
  calendar, the first of its Nisan) the grid has exactly 29 days, the last reporting day 29,
  and the day after it is day 1 of the following month.
\<close>

lemma buildHebMonthDays_29_day_month:
  "buildHebMonthDays demo_fmt 30 = days_from 30 29 \<and> heb_day demo_fmt 58 = 29
   \<and> heb_day demo_fmt 59 = 1 \<and> heb_month demo_fmt 59 \<noteq> heb_month demo_fmt 58"
proof -
  have s: "heb_day demo_fmt 30 = 1" by (simp add: demo_heb_day demo_day_def)
  obtain L where L: "29 \<le> L" "L \<le> 30" "buildHebMonthDays demo_fmt 30 = days_from 30 L"
      "heb_day demo_fmt (30 + int L) = 1"
    using build_start [OF cal_ok_demo s] by blast
  have "L = 29"
  proof (rule ccontr)
    assume "L \<noteq> 29"
    with L(1,2) have "L = 30" by simp
    with L(4) show False by (simp add: demo_heb_day demo_day_def)
  qed
  with L(3) show ?thesis
    by (simp add: demo_heb_day demo_heb_month demo_day_def demo_month_def demo_names_differ)
qed

subsection \<open>Witnesses\<close>

lemma buildHebMonthDays_spec_witness:
  "\<exists>L. 29 \<le> L \<and> L \<le> 30 \<and> buildHebMonthDays demo_fmt 30 = days_from 30 L
     \<and> heb_day demo_fmt (30 + int L) = 1 \<and> heb_month demo_fmt (30 + int L) \<noteq> heb_month demo_fmt 30
     \<and> (\<forall>i<L. heb_day demo_fmt (30 + int i) = 1 + int i \<and> heb_month demo_fmt (30 + int i) = heb_month demo_fmt 30)"
  using buildHebMonthDays_spec [OF cal_ok_demo, of 30] by (simp add: demo_heb_day demo_day_def)

lemma monthLength_bounds_witness:
  "29 \<le> monthLength demo_fmt 100 \<and> findHebMonthStart demo_fmt 100 \<le> 100
   \<and> 100 < findHebMonthStart demo_fmt 100 + int (monthLength demo_fmt 100)"
  using monthLength_bounds [OF cal_ok_demo, of 100] by simp

lemma anchor_in_grid_witness:
  "buildHebMonthDays demo_fmt (findHebMonthStart demo_fmt 100) ! nat (heb_day demo_fmt 100 - 1) = 100"
  using anchor_in_grid [OF cal_ok_demo, of 100] by simp

lemma buildHebMonthDays_exhausted_witness: "buildHebMonthDays (\<lambda>_. []) 5 = days_from 5 guard_limit"
  by (rule buildHebMonthDays_exhausted) (simp add: getHebParts_def from_entries_def js_number_def)

end
