(* ===== verification/MonthNavigator.thy ===== *)
theory MonthNavigator
  imports MonthGrid
begin

text \<open>
  \<open>shiftHebMonth\<close> (\<^verbatim>\<open>src/components/HomePanel.tsx\<close>, lines 97--105), the month navigation
  behind the two arrow buttons (lines 146--148). The \<open>for\<close> loop runs \<open>Math.abs(delta)\<close>
  times; each pass either jumps from the current month's start past its \<open>monthLength\<close> days
  (forward) or re-searches the month start of the day before the current start (backward).
  Under \<open>cal_ok\<close> the month starts form a chain on which one forward step and one backward
  step are inverse, so shifting by \<open>n\<close> and then by \<open>-n\<close> returns the start of the anchor's
  month; a shift by 0 leaves the anchor untouched, not normalised to its month start.
\<close>

definition shiftHebMonth_step :: "formatter \<Rightarrow> int \<Rightarrow> day \<Rightarrow> day" where
  "shiftHebMonth_step fmt delta d =
     (if 0 < delta then
        (let start = findHebMonthStart fmt d in start + int (monthLength fmt start))
      else
        (let start = findHebMonthStart fmt d; prev = start - 1 in findHebMonthStart fmt prev))"

function shiftHebMonth_loop :: "formatter \<Rightarrow> int \<Rightarrow> nat \<Rightarrow> day \<Rightarrow> day" where
  "shiftHebMonth_loop fmt delta i d =
     (if int i < \<bar>delta\<bar> then shiftHebMonth_loop fmt delta (Suc i) (shiftHebMonth_step fmt delta d)
      else d)"
  by pat_completeness auto
termination
  by (relation "measure (\<lambda>(fmt, delta, i, d). nat \<bar>delta\<bar> - i)") auto

declare shiftHebMonth_loop.simps [simp del]

definition shiftHebMonth :: "formatter \<Rightarrow> day \<Rightarrow> int \<Rightarrow> day" where
  "shiftHebMonth fmt base delta = shiftHebMonth_loop fmt delta 0 base"

text \<open>The forward and backward moves between month starts.\<close>

definition next_start :: "formatter \<Rightarrow> day \<Rightarrow> day" where
  "next_start fmt s = s + int (monthLength fmt s)"

definition prev_start_of :: "formatter \<Rightarrow> day \<Rightarrow> day" where
  "prev_start_of fmt s = findHebMonthStart fmt (s - 1)"

text \<open>
  The navigator as its contract describes it: each forward pass advances by the month's length
  and re-finds the month start there, each backward pass finds the start of the month of the
  day before the current start, and a shift by 0 returns the anchor's month start.
\<close>

definition spec_shift_step :: "formatter \<Rightarrow> int \<Rightarrow> day \<Rightarrow> day" where
  "spec_shift_step fmt delta d =
     (let start = findHebMonthStart fmt d in
      if 0 < delta then findHebMonthStart fmt (start + int (monthLength fmt start))
      else findHebMonthStart fmt (start - 1))"

definition spec_shift :: "formatter \<Rightarrow> day \<Rightarrow> int \<Rightarrow> day" where
  "spec_shift fmt anchor delta =
     (if delta = 0 then findHebMonthStart fmt anchor
      else (spec_shift_step fmt delta ^^ nat \<bar>delta\<bar>) anchor)"

subsection \<open>The loop is an iteration of the step\<close>

lemma shift_loop_funpow:
  "int i \<le> \<bar>delta\<bar> \<Longrightarrow>
   shiftHebMonth_loop fmt delta i d = (shiftHebMonth_step fmt delta ^^ (nat \<bar>delta\<bar> - i)) d"
proof (induction fmt delta i d rule: shiftHebMonth_loop.induct)
  case (1 fmt delta i d)
  show ?case
  proof (cases "int i < \<bar>delta\<bar>")
    case True
    then have "nat \<bar>delta\<bar> - i = Suc (nat \<bar>delta\<bar> - Suc i)" by linarith
    with True "1.IH" show ?thesis
      by (simp add: shiftHebMonth_loop.simps [of fmt delta i d] funpow_Suc_right del: funpow.simps)
  next
    case False
    with "1.prems" have "nat \<bar>delta\<bar> - i = 0" by linarith
    with False show ?thesis by (simp add: shiftHebMonth_loop.simps [of fmt delta i d])
  qed
qed

lemma shift_funpow: "shiftHebMonth fmt b delta = (shiftHebMonth_step fmt delta ^^ nat \<bar>delta\<bar>) b"
  using shift_loop_funpow [of 0 delta fmt b] by (simp add: shiftHebMonth_def)

subsection \<open>Month starts under the contract\<close>

definition is_start :: "formatter \<Rightarrow> day \<Rightarrow> bool" where
  "is_start fmt s \<longleftrightarrow> heb_day fmt s = 1"

lemma start_find: "cal_ok fmt \<Longrightarrow> is_start fmt (findHebMonthStart fmt d)"
  using find_start_props [of fmt d] by (simp add: is_start_def find_eq)

lemma find_start_id: "cal_ok fmt \<Longrightarrow> is_start fmt s \<Longrightarrow> findHebMonthStart fmt s = s"
  by (simp add: is_start_def find_of_start)

lemma start_next: "cal_ok fmt \<Longrightarrow> is_start fmt s \<Longrightarrow> is_start fmt (next_start fmt s)"
  using month_of_start [of fmt s] by (simp add: is_start_def next_start_def)

lemma start_prev: "cal_ok fmt \<Longrightarrow> is_start fmt s \<Longrightarrow> is_start fmt (prev_start_of fmt s)"
  using prev_start [of fmt s] by (simp add: is_start_def prev_start_of_def)

lemma prev_next: "cal_ok fmt \<Longrightarrow> is_start fmt s \<Longrightarrow> prev_start_of fmt (next_start fmt s) = s"
proof -
  assume a: "cal_ok fmt" "is_start fmt s"
  then have L: "29 \<le> monthLength fmt s" using month_of_start [of fmt s] by (simp add: is_start_def)
  then have e: "next_start fmt s - 1 = s + int (monthLength fmt s - 1)" by (simp add: next_start_def)
  have "findHebMonthStart fmt (s + int (monthLength fmt s - 1)) = s"
    by (rule find_inside) (use a L in \<open>simp_all add: is_start_def\<close>)
  then show ?thesis by (simp only: prev_start_of_def e)
qed

lemma next_prev: "cal_ok fmt \<Longrightarrow> is_start fmt s \<Longrightarrow> next_start fmt (prev_start_of fmt s) = s"
  using prev_start [of fmt s] by (simp add: is_start_def prev_start_of_def next_start_def)

lemma step_fwd: "cal_ok fmt \<Longrightarrow> 0 < delta \<Longrightarrow> shiftHebMonth_step fmt delta d = next_start fmt (findHebMonthStart fmt d)"
  by (simp add: shiftHebMonth_step_def next_start_def Let_def)

lemma step_bwd: "cal_ok fmt \<Longrightarrow> delta \<le> 0 \<Longrightarrow> shiftHebMonth_step fmt delta d = prev_start_of fmt (findHebMonthStart fmt d)"
  by (simp add: shiftHebMonth_step_def prev_start_of_def)

lemma starts_iter:
  assumes "cal_ok fmt" "is_start fmt s"
  shows "is_start fmt ((next_start fmt ^^ n) s) \<and> is_start fmt ((prev_start_of fmt ^^ n) s)"
  by (induction n) (simp_all add: assms start_next start_prev)

lemma prev_next_iter: "cal_ok fmt \<Longrightarrow> is_start fmt s \<Longrightarrow> (prev_start_of fmt ^^ n) ((next_start fmt ^^ n) s) = s"
proof (induction n)
  case 0
  then show ?case by simp
next
  case (Suc n)
  then have "prev_start_of fmt (next_start fmt ((next_start fmt ^^ n) s)) = (next_start fmt ^^ n) s"
    using prev_next starts_iter by blast
  moreover have "(prev_start_of fmt ^^ Suc n) y = (prev_start_of fmt ^^ n) (prev_start_of fmt y)" for y
    by (simp only: funpow_Suc_right comp_apply)
  ultimately show ?case using Suc by simp
qed

lemma next_prev_iter: "cal_ok fmt \<Longrightarrow> is_start fmt s \<Longrightarrow> (next_start fmt ^^ n) ((prev_start_of fmt ^^ n) s) = s"
proof (induction n)
  case 0
  then show ?case by simp
next
  case (Suc n)
  then have "next_start fmt (prev_start_of fmt ((prev_start_of fmt ^^ n) s)) = (prev_start_of fmt ^^ n) s"
    using next_prev starts_iter by blast
  moreover have "(next_start fmt ^^ Suc n) y = (next_start fmt ^^ n) (next_start fmt y)" for y
    by (simp only: funpow_Suc_right comp_apply)
  ultimately show ?case using Suc by simp
qed

text \<open>Iterating the step from any anchor: the first pass normalises to the month start, every
  later pass starts from a month start.\<close>

lemma step_iter:
  assumes "cal_ok fmt"
  shows "0 < delta \<Longrightarrow> (shiftHebMonth_step fmt delta ^^ Suc n) b = (next_start fmt ^^ Suc n) (findHebMonthStart fmt b)"
    and "delta \<le> 0 \<Longrightarrow> (shiftHebMonth_step fmt delta ^^ Suc n) b = (prev_start_of fmt ^^ Suc n) (findHebMonthStart fmt b)"
proof -
  assume d: "0 < delta"
  show "(shiftHebMonth_step fmt delta ^^ Suc n) b = (next_start fmt ^^ Suc n) (findHebMonthStart fmt b)"
  proof (induction n)
    case 0
    then show ?case using step_fwd [OF assms d] by simp
  next
    case (Suc n)
    have "is_start fmt ((next_start fmt ^^ Suc n) (findHebMonthStart fmt b))"
      using starts_iter [OF assms start_find [OF assms]] by blast
    with Suc show ?case using step_fwd [OF assms d] find_start_id [OF assms] by simp
  qed
next
  assume d: "delta \<le> 0"
  show "(shiftHebMonth_step fmt delta ^^ Suc n) b = (prev_start_of fmt ^^ Suc n) (findHebMonthStart fmt b)"
  proof (induction n)
    case 0
    then show ?case using step_bwd [OF assms d] by simp
  next
    case (Suc n)
    have "is_start fmt ((prev_start_of fmt ^^ Suc n) (findHebMonthStart fmt b))"
      using starts_iter [OF assms start_find [OF assms]] by blast
    with Suc show ?case using step_bwd [OF assms d] find_start_id [OF assms] by simp
  qed
qed

lemma shift_pos: "cal_ok fmt \<Longrightarrow> 0 < n \<Longrightarrow> shiftHebMonth fmt b (int n) = (next_start fmt ^^ n) (findHebMonthStart fmt b)"
  using step_iter(1) [of fmt "int n" "n - 1" b] by (simp add: shift_funpow)

lemma shift_neg: "cal_ok fmt \<Longrightarrow> 0 < n \<Longrightarrow> shiftHebMonth fmt b (- int n) = (prev_start_of fmt ^^ n) (findHebMonthStart fmt b)"
  using step_iter(2) [of fmt "- int n" "n - 1" b] by (simp add: shift_funpow)

lemma spec_step_eq: "cal_ok fmt \<Longrightarrow> spec_shift_step fmt delta d = shiftHebMonth_step fmt delta d"
  using start_next [of fmt "findHebMonthStart fmt d"] start_find [of fmt d] find_start_id [of fmt]
  by (simp add: spec_shift_step_def shiftHebMonth_step_def next_start_def Let_def)

lemma shift_int_cases:
  obtains (pos) n where "0 < n" "delta = int n" | (neg) n where "0 < n" "delta = - int n" | (zero) "delta = 0"
  by (metis neg_0_less_iff_less nat_0_less_mult_iff int_cases3 of_nat_0_less_iff)

subsection \<open>Properties of the navigator\<close>

text \<open>
  C7. Refinement: for every non-zero delta the code's loop computes the navigator of the
  contract, although its forward pass does not re-find the month start after advancing.
\<close>

theorem shiftHebMonth_refines_spec:
  assumes "cal_ok fmt" "delta \<noteq> 0"
  shows "shiftHebMonth fmt b delta = spec_shift fmt b delta"
proof -
  have "spec_shift_step fmt delta = shiftHebMonth_step fmt delta"
    using spec_step_eq [OF assms(1)] by blast
  with assms(2) show ?thesis by (simp add: spec_shift_def shift_funpow)
qed

text \<open>
  C6. Round trip: shifting by \<open>n\<close> months and back by \<open>n\<close> (in either order, \<open>n > 0\<close>)
  returns the first day of the anchor's own month, not the anchor.
\<close>

theorem shiftHebMonth_roundtrip:
  assumes "cal_ok fmt" "0 < n"
  shows "shiftHebMonth fmt (shiftHebMonth fmt b (int n)) (- int n) = findHebMonthStart fmt b
     \<and> shiftHebMonth fmt (shiftHebMonth fmt b (- int n)) (int n) = findHebMonthStart fmt b"
proof -
  have s: "is_start fmt (findHebMonthStart fmt b)" by (rule start_find [OF assms(1)])
  let ?f = "(next_start fmt ^^ n) (findHebMonthStart fmt b)"
  let ?p = "(prev_start_of fmt ^^ n) (findHebMonthStart fmt b)"
  have "findHebMonthStart fmt ?f = ?f" "findHebMonthStart fmt ?p = ?p"
    using starts_iter [OF assms(1) s] find_start_id [OF assms(1)] by blast+
  with assms show ?thesis
    by (simp add: shift_pos shift_neg prev_next_iter next_prev_iter s)
qed

text \<open>
  C8. Every non-zero shift lands on day 1 of a Hebrew month.
\<close>

theorem shiftHebMonth_lands_on_start:
  assumes "cal_ok fmt" "delta \<noteq> 0"
  shows "heb_day fmt (shiftHebMonth fmt b delta) = 1"
proof -
  have s: "is_start fmt (findHebMonthStart fmt b)" by (rule start_find [OF assms(1)])
  from assms(2) show ?thesis
  proof (cases delta rule: shift_int_cases)
    case (pos n)
    then show ?thesis using starts_iter [OF assms(1) s, of n] shift_pos [OF assms(1)] by (simp add: is_start_def)
  next
    case (neg n)
    then show ?thesis using starts_iter [OF assms(1) s, of n] shift_neg [OF assms(1)] by (simp add: is_start_def)
  qed simp
qed

text \<open>
  One month forward is the anchor's month start plus that month's length: the first day
  of a differently named month, 1 to 30 civil days after the anchor.
\<close>

lemma shiftHebMonth_forward:
  assumes "cal_ok fmt"
  shows "shiftHebMonth fmt b 1 = findHebMonthStart fmt b + int (monthLength fmt b)
     \<and> heb_month fmt (shiftHebMonth fmt b 1) \<noteq> heb_month fmt b
     \<and> b < shiftHebMonth fmt b 1 \<and> shiftHebMonth fmt b 1 \<le> b + 30"
proof -
  let ?s = "findHebMonthStart fmt b"
  have s: "heb_day fmt ?s = 1" "heb_month fmt ?s = heb_month fmt b" "b - ?s < heb_day fmt b"
    using find_start_props [OF assms, of b] find_eq [OF assms, of b] by simp_all
  have L: "monthLength fmt b = monthLength fmt ?s" using find_of_start [OF assms s(1)] by (simp add: monthLength_def)
  have "29 \<le> monthLength fmt ?s" "monthLength fmt ?s \<le> 30"
    "heb_month fmt (?s + int (monthLength fmt ?s)) \<noteq> heb_month fmt ?s"
    using month_of_start [OF assms s(1)] by simp_all
  moreover have "b - heb_day fmt b + 1 = ?s" "1 \<le> heb_day fmt b" "heb_day fmt b \<le> int (monthLength fmt ?s)"
    using find_eq [OF assms, of b] cal_ok_bounds [OF assms, of b] anchor_day_bound [OF assms, of b] L by simp_all
  ultimately show ?thesis using shift_pos [OF assms, of 1] s L by (simp add: next_start_def)
qed

text \<open>
  One month back is the first day of the previous, differently named month, which ends
  exactly where the anchor's month starts.
\<close>

lemma shiftHebMonth_backward:
  assumes "cal_ok fmt"
  shows "heb_day fmt (shiftHebMonth fmt b (-1)) = 1
     \<and> shiftHebMonth fmt b (-1) + int (monthLength fmt (shiftHebMonth fmt b (-1))) = findHebMonthStart fmt b
     \<and> heb_month fmt (shiftHebMonth fmt b (-1)) \<noteq> heb_month fmt b"
proof -
  let ?s = "findHebMonthStart fmt b"
  have s: "heb_day fmt ?s = 1" "heb_month fmt ?s = heb_month fmt b"
    using find_start_props [OF assms, of b] find_eq [OF assms, of b] by simp_all
  have e: "shiftHebMonth fmt b (-1) = prev_start_of fmt ?s" using shift_neg [OF assms, of 1 b] by simp
  let ?p = "prev_start_of fmt ?s"
  have p: "heb_day fmt ?p = 1" "?p + int (monthLength fmt ?p) = ?s"
    using prev_start [OF assms s(1)] by (simp_all add: prev_start_of_def)
  have "heb_month fmt (?p + int (monthLength fmt ?p)) \<noteq> heb_month fmt ?p"
    using month_of_start [OF assms p(1)] by simp
  with p s(2) show ?thesis unfolding e by simp
qed

text \<open>
  Shifts in one direction compose: shifting by \<open>m\<close> and then by \<open>n\<close> months
  (both positive, or both negative) is shifting by \<open>m + n\<close>.
\<close>

lemma shiftHebMonth_additive:
  assumes "cal_ok fmt" "0 < m" "0 < n"
  shows "shiftHebMonth fmt (shiftHebMonth fmt b (int m)) (int n) = shiftHebMonth fmt b (int (m + n))
     \<and> shiftHebMonth fmt (shiftHebMonth fmt b (- int m)) (- int n) = shiftHebMonth fmt b (- int (m + n))"
proof -
  have s: "is_start fmt (findHebMonthStart fmt b)" by (rule start_find [OF assms(1)])
  let ?f = "(next_start fmt ^^ m) (findHebMonthStart fmt b)"
  let ?p = "(prev_start_of fmt ^^ m) (findHebMonthStart fmt b)"
  have "findHebMonthStart fmt ?f = ?f" "findHebMonthStart fmt ?p = ?p"
    using starts_iter [OF assms(1) s] find_start_id [OF assms(1)] by blast+
  with assms show ?thesis
    by (simp add: shift_pos shift_neg funpow_add add.commute [of m n] del: of_nat_add)
qed

text \<open>
  C29. A shift by 0 passes the raw anchor through, while the contract normalises it to its
  month start: on every anchor that is not a day 1 the two differ.
\<close>

theorem shiftHebMonth_zero:
  assumes "cal_ok fmt" "heb_day fmt b \<noteq> 1"
  shows "shiftHebMonth fmt b 0 = b \<and> spec_shift fmt b 0 \<noteq> b"
  using assms find_eq [OF assms(1), of b]
  by (simp add: shiftHebMonth_def shiftHebMonth_loop.simps spec_shift_def)

subsection \<open>Witnesses\<close>

lemma shiftHebMonth_refines_spec_witness: "shiftHebMonth demo_fmt 100 (-2) = spec_shift demo_fmt 100 (-2)"
  using shiftHebMonth_refines_spec [OF cal_ok_demo, of "-2" 100] by simp

lemma shiftHebMonth_roundtrip_witness:
  "shiftHebMonth demo_fmt (shiftHebMonth demo_fmt 100 1) (-1) = 89"
proof -
  have "findHebMonthStart demo_fmt 100 = 89" by (simp add: find_eq [OF cal_ok_demo] demo_heb_day demo_day_def)
  with shiftHebMonth_roundtrip [OF cal_ok_demo, of 1 100] show ?thesis by simp
qed

lemma shiftHebMonth_lands_on_start_witness: "heb_day demo_fmt (shiftHebMonth demo_fmt 100 (-3)) = 1"
  using shiftHebMonth_lands_on_start [OF cal_ok_demo, of "-3" 100] by simp

lemma shiftHebMonth_forward_witness:
  "shiftHebMonth demo_fmt 100 1 = 89 + int (monthLength demo_fmt 100) \<and> 100 < shiftHebMonth demo_fmt 100 1"
proof -
  have "findHebMonthStart demo_fmt 100 = 89" by (simp add: find_eq [OF cal_ok_demo] demo_heb_day demo_day_def)
  with shiftHebMonth_forward [OF cal_ok_demo, of 100] show ?thesis by simp
qed

lemma shiftHebMonth_backward_witness: "heb_day demo_fmt (shiftHebMonth demo_fmt 100 (-1)) = 1"
  using shiftHebMonth_backward [OF cal_ok_demo, of 100] by simp

lemma shiftHebMonth_additive_witness:
  "shiftHebMonth demo_fmt (shiftHebMonth demo_fmt 100 1) 2 = shiftHebMonth demo_fmt 100 3"
  using shiftHebMonth_additive [OF cal_ok_demo, of 1 2 100] by simp

lemma shiftHebMonth_zero_witness:
  "shiftHebMonth demo_fmt 100 0 = 100 \<and> spec_shift demo_fmt 100 0 = 89"
proof -
  have "heb_day demo_fmt 100 = 12" by (simp add: demo_heb_day demo_day_def)
  with shiftHebMonth_zero [OF cal_ok_demo, of 100] show ?thesis
    by (simp add: spec_shift_def find_eq [OF cal_ok_demo])
qed

end
