(* ===== verification/EventStore.thy ===== *)
theory EventStore
  imports Prelude "HOL-Library.List_Lexorder" "HOL-Library.Multiset"
begin

text \<open>
  The event store of the Hebrew calendar (\<^verbatim>\<open>src/components/HomePanel.tsx\<close>, lines 42--45 and
  120--141; the event type of \<^verbatim>\<open>src/types.ts\<close>, lines 11--15). The React state of the form and
  of the persisted list is the record \<open>event_form\<close>; each handler returns the updated record,
  and \<open>addEventHandler\<close>, whose \<open>alert\<close> and early \<open>return\<close> leave the state alone, returns an
  error value on that branch. The month's list filters by membership in the month's ISO dates
  and sorts stably by \<open>date + time\<close>; \<open>localeCompare\<close> on these strings of ASCII digits,
  dashes and colons is taken as the lexicographic order of their code units.
\<close>

record calendar_event =
  date :: jsstr
  time :: jsstr
  title :: jsstr

record event_form =
  events :: "calendar_event list"
  newEventDate :: jsstr
  newEventTime :: jsstr
  newEventTitle :: jsstr

datatype ui_error = MissingDateOrTitle

definition addEventHandler :: "'a event_form_scheme \<Rightarrow> ui_error + 'a event_form_scheme" where
  "addEventHandler st =
     (if newEventDate st = [] \<or> js_trim (newEventTitle st) = [] then Inl MissingDateOrTitle
      else Inr (st\<lparr>events := events st @ [\<lparr>date = newEventDate st, time = newEventTime st,
                                             title = js_trim (newEventTitle st)\<rparr>],
                  newEventTitle := []\<rparr>))"

definition deleteEventHandler :: "jsstr \<Rightarrow> jsstr \<Rightarrow> 'a event_form_scheme \<Rightarrow> 'a event_form_scheme" where
  "deleteEventHandler d t st = st\<lparr>events := filter (\<lambda>e. \<not> (date e = d \<and> title e = t)) (events st)\<rparr>"

text \<open>\<open>clearAllEvents\<close>: \<open>confirmed\<close> is the answer to \<open>window.confirm\<close>.\<close>

definition clearAllEvents :: "bool \<Rightarrow> 'a event_form_scheme \<Rightarrow> 'a event_form_scheme" where
  "clearAllEvents confirmed st = (if confirmed then st\<lparr>events := []\<rparr> else st)"

definition event_key :: "calendar_event \<Rightarrow> jsstr" where
  "event_key e = date e @ time e"

definition currentMonthEvents :: "jsstr list \<Rightarrow> calendar_event list \<Rightarrow> calendar_event list" where
  "currentMonthEvents monthISO evs = sort_key event_key (filter (\<lambda>e. date e \<in> set monthISO) evs)"

text \<open>The events of one grid cell (line 167), shown as the cell's dot.\<close>

definition dayEvents :: "jsstr \<Rightarrow> calendar_event list \<Rightarrow> calendar_event list" where
  "dayEvents cellISO evs = filter (\<lambda>e. date e = cellISO) evs"

subsection \<open>The store as a state machine\<close>

text \<open>The user's actions on the store and the form: the buttons and the three inputs.\<close>

datatype ev_action = AddEvent | DeleteEvent jsstr jsstr | ClearAll bool
  | SetDate jsstr | SetTime jsstr | SetTitle jsstr

fun ev_step :: "ev_action \<Rightarrow> 'a event_form_scheme \<Rightarrow> ui_error + 'a event_form_scheme" where
  "ev_step AddEvent st = addEventHandler st"
| "ev_step (DeleteEvent d t) st = Inr (deleteEventHandler d t st)"
| "ev_step (ClearAll c) st = Inr (clearAllEvents c st)"
| "ev_step (SetDate v) st = Inr (st\<lparr>newEventDate := v\<rparr>)"
| "ev_step (SetTime v) st = Inr (st\<lparr>newEventTime := v\<rparr>)"
| "ev_step (SetTitle v) st = Inr (st\<lparr>newEventTitle := v\<rparr>)"

text \<open>An action that raises an alert leaves the state as it was.\<close>

definition ev_apply :: "ev_action \<Rightarrow> 'a event_form_scheme \<Rightarrow> 'a event_form_scheme" where
  "ev_apply a st = (case ev_step a st of Inl _ \<Rightarrow> st | Inr st' \<Rightarrow> st')"

text \<open>States reachable from an empty store (\<open>useLocalStorage\<close>'s default \<open>[]\<close>) by actions.\<close>

inductive reachable_store :: "'a event_form_scheme \<Rightarrow> bool" where
  init: "events st = [] \<Longrightarrow> reachable_store st"
| step: "reachable_store st \<Longrightarrow> reachable_store (ev_apply a st)"

definition event_ok :: "calendar_event \<Rightarrow> bool" where
  "event_ok e \<longleftrightarrow> date e \<noteq> [] \<and> title e \<noteq> [] \<and> js_trim (title e) = title e"

definition events_ok :: "calendar_event list \<Rightarrow> bool" where
  "events_ok evs \<longleftrightarrow> list_all event_ok evs"

subsection \<open>Lemmas on the handlers\<close>

lemma add_Inl_iff: "addEventHandler st = Inl err \<longleftrightarrow> newEventDate st = [] \<or> js_trim (newEventTitle st) = []"
  by (cases err) (simp add: addEventHandler_def)

lemma add_InrD:
  assumes "addEventHandler st = Inr st'"
  shows "newEventDate st \<noteq> [] \<and> js_trim (newEventTitle st) \<noteq> []
    \<and> events st' = events st @ [\<lparr>date = newEventDate st, time = newEventTime st, title = js_trim (newEventTitle st)\<rparr>]
    \<and> newEventTitle st' = [] \<and> newEventDate st' = newEventDate st \<and> newEventTime st' = newEventTime st"
  using assms by (auto simp: addEventHandler_def split: if_splits)

lemma events_ok_append [simp]: "events_ok (xs @ ys) \<longleftrightarrow> events_ok xs \<and> events_ok ys"
  by (simp add: events_ok_def)

lemma events_ok_filter: "events_ok xs \<Longrightarrow> events_ok (filter P xs)"
  by (simp add: events_ok_def list_all_iff)

lemma ev_apply_events_ok: "events_ok (events st) \<Longrightarrow> events_ok (events (ev_apply a st))"
proof (cases a)
  case AddEvent
  assume ok: "events_ok (events st)"
  show ?thesis
  proof (cases "addEventHandler st")
    case (Inl err)
    with AddEvent ok show ?thesis by (simp add: ev_apply_def)
  next
    case (Inr st')
    with add_InrD [OF Inr] AddEvent ok show ?thesis
      by (simp add: ev_apply_def events_ok_def event_ok_def)
  qed
qed (simp_all add: ev_apply_def deleteEventHandler_def clearAllEvents_def events_ok_filter,
     simp_all add: events_ok_def)

lemma filter_sort_key: "filter P (sort_key f xs) = sort_key f (filter P xs)"
  by (induction xs) (simp_all add: filter_insort filter_insort_triv)

subsection \<open>Properties of the store\<close>

text \<open>
  The month's list holds exactly the stored events dated on a day of the month, with
  their multiplicities, in ascending order of \<open>date + time\<close>; it never shows an event of
  another month.
\<close>

lemma currentMonthEvents_contents:
  "mset (currentMonthEvents monthISO evs) = filter_mset (\<lambda>e. date e \<in> set monthISO) (mset evs)
   \<and> sorted (map event_key (currentMonthEvents monthISO evs))"
  by (simp add: currentMonthEvents_def)

text \<open>
  The sort is stable: events with the same \<open>date + time\<close> keep the order in which they
  were added.
\<close>

lemma currentMonthEvents_stable:
  "filter (\<lambda>e. event_key e = k) (currentMonthEvents monthISO evs)
     = filter (\<lambda>e. event_key e = k \<and> date e \<in> set monthISO) evs"
  by (simp add: currentMonthEvents_def sort_key_stable conj_commute)

text \<open>
  The list below the grid and the dots of the grid's cells show the same events: an event
  is listed exactly when it is among the events of one of the month's cells.
\<close>

lemma currentMonthEvents_cells:
  "set (currentMonthEvents monthISO evs) = (\<Union>c \<in> set monthISO. set (dayEvents c evs))"
  by (auto simp: currentMonthEvents_def dayEvents_def)

text \<open>
  C14. Adding an event and deleting it by its date and title removes it again and leaves every
  event with another date or title as it was.
\<close>

theorem add_then_delete:
  assumes "addEventHandler st = Inr st'"
  shows "\<lparr>date = newEventDate st, time = newEventTime st, title = js_trim (newEventTitle st)\<rparr> \<in> set (events st')
    \<and> events (deleteEventHandler (newEventDate st) (js_trim (newEventTitle st)) st')
        = filter (\<lambda>e. \<not> (date e = newEventDate st \<and> title e = js_trim (newEventTitle st))) (events st)"
  using add_InrD [OF assms] by (simp add: deleteEventHandler_def)

text \<open>
  C25. A missing date or a title of white space only is refused: the handler takes its error
  branch (the alert) and the state stays as it was.
\<close>

theorem addEventHandler_rejects:
  assumes "newEventDate st = [] \<or> js_trim (newEventTitle st) = []"
  shows "addEventHandler st = Inl MissingDateOrTitle \<and> ev_apply AddEvent st = st"
  using assms by (simp add: addEventHandler_def ev_apply_def)

text \<open>
  A valid form appends one event, with the title trimmed, and clears only the title.
\<close>

lemma addEventHandler_appends:
  assumes "newEventDate st \<noteq> []" "js_trim (newEventTitle st) \<noteq> []"
  shows "\<exists>st'. addEventHandler st = Inr st'
    \<and> events st' = events st @ [\<lparr>date = newEventDate st, time = newEventTime st, title = js_trim (newEventTitle st)\<rparr>]
    \<and> event_ok (last (events st'))
    \<and> newEventTitle st' = [] \<and> newEventDate st' = newEventDate st \<and> newEventTime st' = newEventTime st"
  using assms by (simp add: addEventHandler_def event_ok_def)

text \<open>
  Deleting by a date and title removes every event with that pair, duplicates included,
  and nothing else: the length drops by the number of matching events.
\<close>

lemma deleteEventHandler_collapses:
  "filter (\<lambda>e. date e = d \<and> title e = t) (events (deleteEventHandler d t st)) = []
   \<and> length (events (deleteEventHandler d t st)) + length (filter (\<lambda>e. date e = d \<and> title e = t) (events st))
      = length (events st)"
  using sum_length_filter_compl [of "\<lambda>e. date e = d \<and> title e = t" "events st"]
  by (simp add: deleteEventHandler_def filter_filter)

text \<open>
  A confirmed "delete all" leaves no event in the list of any month; a cancelled one
  changes nothing.
\<close>

lemma clearAllEvents_empties:
  "currentMonthEvents monthISO (events (clearAllEvents True st)) = [] \<and> clearAllEvents False st = st"
  by (simp add: clearAllEvents_def currentMonthEvents_def)

text \<open>
  C15. Invariant of the store: in every state reached from an empty store by the user's
  actions, each stored event has a date and a non-empty, trimmed title.
\<close>

theorem reachable_store_events_ok: "reachable_store st \<Longrightarrow> events_ok (events st)"
proof (induction rule: reachable_store.induct)
  case (init st)
  then show ?case by (simp add: events_ok_def)
next
  case (step st a)
  from step.IH show ?case by (rule ev_apply_events_ok)
qed

text \<open>
  The spec's scenario: a timed Meeting and an untimed Birthday on the same day are listed
  Birthday first, since the empty time sorts before any \<open>HH:MM\<close>.
\<close>

lemma currentMonthEvents_birthday_first:
  "currentMonthEvents [js_str ''2025-03-09'', js_str ''2025-03-10'', js_str ''2025-03-11'']
     [\<lparr>date = js_str ''2025-03-10'', time = js_str ''09:00'', title = js_str ''Meeting''\<rparr>,
      \<lparr>date = js_str ''2025-03-10'', time = [], title = js_str ''Birthday''\<rparr>]
   = [\<lparr>date = js_str ''2025-03-10'', time = [], title = js_str ''Birthday''\<rparr>,
      \<lparr>date = js_str ''2025-03-10'', time = js_str ''09:00'', title = js_str ''Meeting''\<rparr>]"
  by code_simp

subsection \<open>Witnesses\<close>

lemma add_then_delete_witness:
  "events (deleteEventHandler (js_str ''2025-03-10'') (js_str ''Birthday'')
     (projr (addEventHandler \<lparr>events = [], newEventDate = js_str ''2025-03-10'', newEventTime = [],
                                newEventTitle = js_str '' Birthday ''\<rparr>))) = []"
proof -
  let ?st = "\<lparr>events = [], newEventDate = js_str ''2025-03-10'', newEventTime = [],
              newEventTitle = js_str '' Birthday ''\<rparr>"
  have t: "js_trim (newEventTitle ?st) = js_str ''Birthday''" by code_simp
  have d: "newEventDate ?st \<noteq> []" by (simp add: js_str_def)
  obtain st' where a: "addEventHandler ?st = Inr st'" using t d by (simp add: addEventHandler_def js_str_def)
  from add_then_delete [OF a] a t show ?thesis by simp
qed

lemma addEventHandler_rejects_witness:
  "addEventHandler \<lparr>events = [], newEventDate = js_str ''2025-03-10'', newEventTime = [],
                     newEventTitle = js_str ''   ''\<rparr> = Inl MissingDateOrTitle"
proof -
  have "js_trim (js_str ''   '') = []" by code_simp
  with addEventHandler_rejects [of "\<lparr>events = [], newEventDate = js_str ''2025-03-10'', newEventTime = [],
                     newEventTitle = js_str ''   ''\<rparr>"] show ?thesis by simp
qed

lemma addEventHandler_appends_witness:
  "\<exists>st'. addEventHandler \<lparr>events = [], newEventDate = js_str ''2025-03-10'', newEventTime = [],
                     newEventTitle = js_str ''Birthday''\<rparr> = Inr st' \<and> newEventTitle st' = []"
proof -
  have "js_trim (js_str ''Birthday'') = js_str ''Birthday''" by code_simp
  with addEventHandler_appends [of "\<lparr>events = [], newEventDate = js_str ''2025-03-10'', newEventTime = [],
                     newEventTitle = js_str ''Birthday''\<rparr>"] show ?thesis by (auto simp: js_str_def)
qed

lemma reachable_store_events_ok_witness:
  "events_ok (events (ev_apply AddEvent \<lparr>events = [], newEventDate = js_str ''2025-03-10'', newEventTime = [],
                     newEventTitle = js_str ''Birthday''\<rparr>))"
  by (rule reachable_store_events_ok) (intro reachable_store.step reachable_store.init, simp)

end
