(* ===== verification/CalendarView.thy ===== *)
theory CalendarView
  imports Gematria MonthNavigator EventStore
begin

text \<open>
  The rendering and the handlers of the \<open>HebrewCalendar\<close> component
  (\<^verbatim>\<open>src/components/HomePanel.tsx\<close>, lines 40--209) over the components of the other
  theories. A JS \<open>Date\<close> is an instant, counted in local minutes since 1970-01-01 00:00;
  \<open>midnight d\<close> is the instant the code builds with \<open>new Date(y, m, d)\<close>. \<open>utc_offset\<close> is
  the zone's offset in minutes, local time minus UTC (\<open>-getTimezoneOffset()\<close>, taken as
  fixed). \<open>toISO\<close> (line 106) is \<open>toISOString().slice(0, 10)\<close>: the UTC calendar date of the
  instant, computed by the proleptic Gregorian conversion \<open>civil_from_days\<close> that
  \<open>Date.prototype.toISOString\<close> uses, printed as \<open>YYYY-MM-DD\<close> (years 0 to 9999).
\<close>

subsection \<open>Instants and ISO dates\<close>

type_synonym instant = int

definition midnight :: "day \<Rightarrow> instant" where
  "midnight d = d * 1440"

text \<open>Days since 1970-01-01 to the proleptic Gregorian \<open>(year, month, day)\<close>.\<close>

definition civil_from_days :: "int \<Rightarrow> int \<times> int \<times> int" where
  "civil_from_days z =
     (let z1 = z + 719468; era = z1 div 146097; doe = z1 mod 146097;
          yoe = (doe - doe div 1460 + doe div 36524 - doe div 146096) div 365;
          y = yoe + era * 400; doy = doe - (365 * yoe + yoe div 4 - yoe div 100);
          mp = (5 * doy + 2) div 153; d = doy - (153 * mp + 2) div 5 + 1;
          m = (if mp < 10 then mp + 3 else mp - 9)
      in (if m \<le> 2 then y + 1 else y, m, d))"

definition pad_to :: "nat \<Rightarrow> jsstr \<Rightarrow> jsstr" where
  "pad_to k s = replicate (k - length s) (digit_unit 0) @ s"

definition iso_of_civil :: "int \<times> int \<times> int \<Rightarrow> jsstr" where
  "iso_of_civil ymd = (case ymd of (y, m, d) \<Rightarrow>
     pad_to 4 (dec_digits (nat y)) @ js_str ''-'' @ pad_to 2 (dec_digits (nat m)) @ js_str ''-''
     @ pad_to 2 (dec_digits (nat d)))"

definition utc_day :: "int \<Rightarrow> instant \<Rightarrow> int" where
  "utc_day utc_offset t = (t - utc_offset) div 1440"

definition toISO :: "int \<Rightarrow> instant \<Rightarrow> jsstr" where
  "toISO utc_offset t = iso_of_civil (civil_from_days (utc_day utc_offset t))"

text \<open>\<open>Date.prototype.getDay\<close> of a local midnight: 1970-01-01 was a Thursday (4).\<close>

definition getDay :: "day \<Rightarrow> nat" where
  "getDay d = nat ((d + 4) mod 7)"

subsection \<open>The strings of the view\<close>

text \<open>A template literal prints a missing part as \<open>undefined\<close>.\<close>

definition js_template_opt :: "jsstr option \<Rightarrow> jsstr" where
  "js_template_opt v = (case v of Some s \<Rightarrow> s | None \<Rightarrow> js_str ''undefined'')"

text \<open>
  \<open>hebrewYearGematria(p.year)\<close>: for \<open>NaN\<close> every comparison in the loops is false and the
  result is the bare prefix \<open>[HE, APOS]\<close>.
\<close>

definition year_text :: "jsnum \<Rightarrow> jsstr" where
  "year_text y = (case y of
     Num n \<Rightarrow> (case hebrewYearGematria n of Some s \<Rightarrow> s | None \<Rightarrow> [])
   | NaN \<Rightarrow> [HE, APOS])"

text \<open>
  \<open>hebrewDayGematria(p.day)\<close>: for \<open>NaN\<close> the code falls through to \<open>[ALEF]\<close>, which is
  \<open>hebrewDayGematria 0\<close>, so the day is read as \<open>heb_day\<close> (\<open>NaN\<close> as 0).
\<close>

definition formatFullHebrew :: "intl \<Rightarrow> day \<Rightarrow> jsstr" where
  "formatFullHebrew u d =
     (let p = getHebParts (fmtPartsLatn u) d in
      fmtWeekdayHeb u d @ js_str '', '' @ hebrewDayGematria (heb_day (fmtPartsLatn u) d) @ [BET]
      @ js_template_opt (monthName p) @ js_str '', '' @ year_text (year p))"

subsection \<open>The month grid as rendered\<close>

record cell =
  cellDate :: day
  cellLabel :: jsstr
  cellToday :: bool
  cellISO :: jsstr
  cellEvents :: "calendar_event list"

definition grid_cell ::
  "formatter \<Rightarrow> int \<Rightarrow> instant \<Rightarrow> calendar_event list \<Rightarrow> day list \<Rightarrow> nat \<Rightarrow> nat \<Rightarrow> nat \<Rightarrow> cell option" where
  "grid_cell fmt utc_offset now evs days firstWeekday weekIndex dayIndex =
     (let dayOfMonthIndex = int (weekIndex * 7 + dayIndex) - int firstWeekday in
      if dayOfMonthIndex < 0 \<or> int (length days) \<le> dayOfMonthIndex then None
      else (let gd = days ! nat dayOfMonthIndex; iso = toISO utc_offset (midnight gd) in
            Some \<lparr>cellDate = gd, cellLabel = hebrewDayGematria (heb_day fmt gd),
                  cellToday = (toISO utc_offset (midnight gd) = toISO utc_offset now),
                  cellISO = iso, cellEvents = dayEvents iso evs\<rparr>))"

definition month_grid ::
  "formatter \<Rightarrow> int \<Rightarrow> instant \<Rightarrow> calendar_event list \<Rightarrow> day list \<Rightarrow> nat \<Rightarrow> cell option list list" where
  "month_grid fmt utc_offset now evs days firstWeekday =
     map (\<lambda>w. map (grid_cell fmt utc_offset now evs days firstWeekday w) [0..<7])
       [0..<(length days + firstWeekday + 6) div 7]"

record month_view =
  header :: jsstr
  todayText :: jsstr
  grid :: "cell option list list"
  monthEvents :: "calendar_event list"

record cal_state = event_form +
  viewAnchor :: day

datatype render_error = CalendarUnsupported

text \<open>
  The render (lines 110--141): when building the formatters threw (\<open>hebrewDateUtils\<close> is
  \<open>null\<close>, lines 48--55; \<open>utils = None\<close>) only the unsupported message; otherwise the header, today's date, the
  grid and the month's events. The code builds the month's start and grid twice (lines 113 and
  136); both are the same value.
\<close>

definition render ::
  "intl option \<Rightarrow> int \<Rightarrow> instant \<Rightarrow> 'a cal_state_scheme \<Rightarrow> render_error + month_view" where
  "render utils utc_offset now st =
     (case utils of
        None \<Rightarrow> Inl CalendarUnsupported
      | Some u \<Rightarrow>
          (let fmt = fmtPartsLatn u; start = findHebMonthStart fmt (viewAnchor st);
               days = buildHebMonthDays fmt start; ps = getHebParts fmt start;
               monthISO = map (\<lambda>d. toISO utc_offset (midnight d)) days
           in Inr \<lparr>header = js_template_opt (monthName ps) @ js_str '' '' @ year_text (year ps),
                   todayText = formatFullHebrew u (now div 1440),
                   grid = month_grid fmt utc_offset now (events st) days (getDay start),
                   monthEvents = currentMonthEvents monthISO (events st)\<rparr>))"

subsection \<open>The handlers of the view\<close>

datatype view_action = PrevMonth | NextMonth | ClickDay day | FormAction ev_action

fun view_step :: "formatter \<Rightarrow> int \<Rightarrow> view_action \<Rightarrow> 'a cal_state_scheme \<Rightarrow> 'a cal_state_scheme" where
  "view_step fmt utc_offset PrevMonth st = st\<lparr>viewAnchor := shiftHebMonth fmt (viewAnchor st) (-1)\<rparr>"
| "view_step fmt utc_offset NextMonth st = st\<lparr>viewAnchor := shiftHebMonth fmt (viewAnchor st) 1\<rparr>"
| "view_step fmt utc_offset (ClickDay gd) st = st\<lparr>newEventDate := toISO utc_offset (midnight gd)\<rparr>"
| "view_step fmt utc_offset (FormAction a) st = ev_apply a st"

text \<open>The initial state (lines 41--45): today as anchor and as the form's date.\<close>

definition init_state :: "int \<Rightarrow> instant \<Rightarrow> calendar_event list \<Rightarrow> cal_state" where
  "init_state utc_offset now stored =
     \<lparr>events = stored, newEventDate = toISO utc_offset now, newEventTime = [], newEventTitle = [],
      viewAnchor = now div 1440\<rparr>"

inductive reachable_view :: "formatter \<Rightarrow> int \<Rightarrow> cal_state \<Rightarrow> bool" where
  init: "reachable_view fmt utc_offset (init_state utc_offset now [])"
| step: "reachable_view fmt utc_offset st \<Longrightarrow> reachable_view fmt utc_offset (view_step fmt utc_offset a st)"

subsection \<open>Lemmas on instants\<close>

lemma div_1440_offset: "0 \<le> r \<Longrightarrow> r < 1440 \<Longrightarrow> (r + k * 1440) div 1440 = (k::int)"
  by simp

lemma utc_day_midnight:
  assumes "0 \<le> 1440 * k - off" "1440 * k - off < 1440"
  shows "utc_day off (midnight d) = d - k"
proof -
  have e: "midnight d - off = (1440 * k - off) + (d - k) * 1440" by (simp add: midnight_def algebra_simps)
  show ?thesis unfolding utc_day_def e by (rule div_1440_offset [OF assms])
qed

lemma utc_day_east: "0 < off \<Longrightarrow> off < 1440 \<Longrightarrow> utc_day off (midnight d) = d - 1"
  using utc_day_midnight [of 1 off d] by simp

lemma utc_day_west: "- 1440 < off \<Longrightarrow> off \<le> 0 \<Longrightarrow> utc_day off (midnight d) = d"
  using utc_day_midnight [of 0 off d] by simp

lemma utc_day_now:
  assumes "off \<le> now mod 1440" "now mod 1440 < 1440 + off"
  shows "utc_day off now = now div 1440"
proof -
  have e: "now - off = (now mod 1440 - off) + (now div 1440) * 1440" by simp
  have "0 \<le> now mod 1440 - off" "now mod 1440 - off < 1440" using assms by simp_all
  then show ?thesis unfolding utc_day_def e by (rule div_1440_offset)
qed

lemma iso_of_civil_nonempty [simp]: "iso_of_civil ymd \<noteq> []"
  by (cases ymd) (simp add: iso_of_civil_def js_str_def)

lemma toISO_nonempty [simp]: "toISO off t \<noteq> []"
  by (simp add: toISO_def)

subsection \<open>Lemmas on the grid layout\<close>

lemma month_grid_shape:
  "length (month_grid fmt off now evs days fw) = (length days + fw + 6) div 7
   \<and> (\<forall>row \<in> set (month_grid fmt off now evs days fw). length row = 7)"
  by (auto simp: month_grid_def)

lemma month_grid_nth:
  "w < (length days + fw + 6) div 7 \<Longrightarrow> i < 7 \<Longrightarrow>
   month_grid fmt off now evs days fw ! w ! i = grid_cell fmt off now evs days fw w i"
  by (simp add: month_grid_def)

lemma grid_cell_at:
  assumes "w * 7 + i = k"
  shows "grid_cell fmt off now evs days fw w i =
    (if k < fw \<or> length days \<le> k - fw then None
     else Some \<lparr>cellDate = days ! (k - fw), cellLabel = hebrewDayGematria (heb_day fmt (days ! (k - fw))),
             cellToday = (toISO off (midnight (days ! (k - fw))) = toISO off now),
             cellISO = toISO off (midnight (days ! (k - fw))),
             cellEvents = dayEvents (toISO off (midnight (days ! (k - fw)))) evs\<rparr>)"
proof -
  have "nat (int k - int fw) = k - fw" by simp
  then show ?thesis unfolding grid_cell_def Let_def assms by auto
qed

lemma grid_cell_Some:
  "grid_cell fmt off now evs days fw w i = Some c \<Longrightarrow>
   fw \<le> w * 7 + i \<and> w * 7 + i - fw < length days \<and> cellDate c = days ! (w * 7 + i - fw)
   \<and> cellISO c = toISO off (midnight (cellDate c)) \<and> cellEvents c = dayEvents (cellISO c) evs
   \<and> cellToday c = (toISO off (midnight (cellDate c)) = toISO off now)"
  using grid_cell_at [of w i "w * 7 + i" fmt off now evs days fw] by (auto split: if_splits)

lemma grid_cell_of_index:
  assumes "k < length days"
  shows "grid_cell fmt off now evs days fw ((k + fw) div 7) ((k + fw) mod 7)
     = Some \<lparr>cellDate = days ! k, cellLabel = hebrewDayGematria (heb_day fmt (days ! k)),
             cellToday = (toISO off (midnight (days ! k)) = toISO off now),
             cellISO = toISO off (midnight (days ! k)), cellEvents = dayEvents (toISO off (midnight (days ! k))) evs\<rparr>"
  using grid_cell_at [of "(k + fw) div 7" "(k + fw) mod 7" "k + fw" fmt off now evs days fw] assms by simp

lemma getDay_add: "getDay (s + int k) = (getDay s + k) mod 7"
proof -
  have "(s + int k + 4) mod 7 = (int k + (s + 4) mod 7) mod 7"
    by (simp add: mod_add_right_eq add.commute add.left_commute add.assoc)
  then show ?thesis unfolding getDay_def by (simp add: nat_mod_distrib nat_add_distrib add.commute)
qed

subsection \<open>Lemmas on the view's handlers\<close>

lemma view_step_events_ok: "events_ok (events st) \<Longrightarrow> events_ok (events (view_step fmt off a st))"
  by (cases a) (simp_all add: ev_apply_events_ok)

lemma render_Some:
  "render (Some u) off now st = Inr
     \<lparr>header = js_template_opt (monthName (getHebParts (fmtPartsLatn u) (findHebMonthStart (fmtPartsLatn u) (viewAnchor st))))
               @ js_str '' '' @ year_text (year (getHebParts (fmtPartsLatn u) (findHebMonthStart (fmtPartsLatn u) (viewAnchor st)))),
      todayText = formatFullHebrew u (now div 1440),
      grid = month_grid (fmtPartsLatn u) off now (events st)
               (buildHebMonthDays (fmtPartsLatn u) (findHebMonthStart (fmtPartsLatn u) (viewAnchor st)))
               (getDay (findHebMonthStart (fmtPartsLatn u) (viewAnchor st))),
      monthEvents = currentMonthEvents (map (\<lambda>d. toISO off (midnight d))
               (buildHebMonthDays (fmtPartsLatn u) (findHebMonthStart (fmtPartsLatn u) (viewAnchor st)))) (events st)\<rparr>"
  by (simp add: render_def Let_def)

lemma month_length_range:
  assumes "cal_ok fmt"
  shows "29 \<le> length (buildHebMonthDays fmt (findHebMonthStart fmt b))
    \<and> length (buildHebMonthDays fmt (findHebMonthStart fmt b)) \<le> 30"
  using month_of_start [OF assms, of "findHebMonthStart fmt b"] start_find [OF assms, of b]
    monthLength_start [OF assms, of "findHebMonthStart fmt b"] by (simp add: is_start_def)

subsection \<open>Properties of the view\<close>

text \<open>
  C31. In a time zone east of UTC (Israel is 120 or 180 minutes ahead), \<open>toISO\<close> of a grid
  day's local midnight is the ISO date of the previous civil day: every cell's date key, the
  date a click puts in the form, and the month's ISO list are one day early.
\<close>

theorem toISO_east_previous_day:
  assumes "0 < off" "off < 1440"
  shows "toISO off (midnight d) = toISO 0 (midnight (d - 1))"
  using utc_day_east [OF assms, of d] utc_day_west [of 0 "d - 1"] by (simp add: toISO_def)

text \<open>
  At UTC and west of it (offsets up to a day behind) the key of a grid day is its own date.
\<close>

lemma toISO_west_same_day:
  assumes "- 1440 < off" "off \<le> 0"
  shows "toISO off (midnight d) = toISO 0 (midnight d)"
  using utc_day_west [OF assms, of d] utc_day_west [of 0 d] by (simp add: toISO_def)

text \<open>
  East of UTC, from the local hour equal to the offset onwards (02:00 or 03:00 in Israel)
  the cell marked as today is tomorrow's: its key equals \<open>toISO(now)\<close>.
\<close>

lemma today_highlight_east:
  assumes "0 < off" "off < 1440" "off \<le> now mod 1440"
  shows "toISO off (midnight (now div 1440 + 1)) = toISO off now"
proof -
  have "now mod 1440 < 1440 + off" using assms(1) by simp
  with utc_day_now [OF assms(3)] utc_day_east [OF assms(1,2), of "now div 1440 + 1"]
  show ?thesis by (simp add: toISO_def)
qed

text \<open>
  C27. Clicking a day of the displayed month and adding a titled event shows that event in the
  month's list and on the clicked day's cell.
\<close>

theorem click_then_add_lists_event:
  assumes "cal_ok (fmtPartsLatn u)" "js_trim (newEventTitle st) \<noteq> []"
    and "findHebMonthStart (fmtPartsLatn u) gd = findHebMonthStart (fmtPartsLatn u) (viewAnchor st)"
    and "st' = view_step (fmtPartsLatn u) off (FormAction AddEvent) (view_step (fmtPartsLatn u) off (ClickDay gd) st)"
  shows "\<exists>v e. render (Some u) off now st' = Inr v \<and> e \<in> set (monthEvents v)
     \<and> e \<in> set (dayEvents (toISO off (midnight gd)) (events st'))
     \<and> date e = toISO off (midnight gd) \<and> title e = js_trim (newEventTitle st)"
proof -
  let ?fmt = "fmtPartsLatn u"
  let ?e = "\<lparr>date = toISO off (midnight gd), time = newEventTime st, title = js_trim (newEventTitle st)\<rparr>"
  have ev: "events st' = events st @ [?e]" "viewAnchor st' = viewAnchor st"
    using assms(2,4) by (simp_all add: ev_apply_def addEventHandler_def)
  obtain L where "buildHebMonthDays ?fmt (findHebMonthStart ?fmt gd) = days_from (findHebMonthStart ?fmt gd) L"
      "findHebMonthStart ?fmt gd \<le> gd" "gd < findHebMonthStart ?fmt gd + int L"
    using grid_of_anchor [OF assms(1)] by blast
  then have "gd \<in> set (buildHebMonthDays ?fmt (findHebMonthStart ?fmt (viewAnchor st)))"
    using assms(3) by (simp add: set_days_from)
  then show ?thesis using ev
    by (auto simp: render_Some currentMonthEvents_def dayEvents_def)
qed

text \<open>
  The arrows compose: "next month" and then "previous month" bring the view to the first
  day of the month it showed, and touch neither the events nor the form.
\<close>

lemma view_next_prev:
  assumes "cal_ok fmt"
  shows "viewAnchor (view_step fmt off PrevMonth (view_step fmt off NextMonth st)) = findHebMonthStart fmt (viewAnchor st)
    \<and> events (view_step fmt off PrevMonth (view_step fmt off NextMonth st)) = events st
    \<and> newEventDate (view_step fmt off PrevMonth (view_step fmt off NextMonth st)) = newEventDate st"
proof -
  let ?s = "findHebMonthStart fmt (viewAnchor st)"
  have s: "is_start fmt ?s" by (rule start_find [OF assms])
  have n: "shiftHebMonth fmt (viewAnchor st) 1 = next_start fmt ?s" using shift_pos [OF assms, of 1] by simp
  have "findHebMonthStart fmt (next_start fmt ?s) = next_start fmt ?s"
    using start_next [OF assms s] find_start_id [OF assms] by blast
  then have "shiftHebMonth fmt (next_start fmt ?s) (-1) = ?s"
    using shift_neg [OF assms, of 1] prev_next [OF assms s] by simp
  with n show ?thesis by simp
qed

text \<open>
  Invariant of the view: in every state reached from the initial state with an empty store,
  by navigation, day clicks and form actions, each stored event has a date and a non-empty,
  trimmed title.
\<close>

lemma reachable_view_events_ok: "reachable_view fmt off st \<Longrightarrow> events_ok (events st)"
proof (induction rule: reachable_view.induct)
  case (init fmt off now)
  then show ?case by (simp add: init_state_def events_ok_def)
next
  case (step fmt off st a)
  from step.IH show ?case by (rule view_step_events_ok)
qed

text \<open>
  The view fails closed on a missing formatter: it renders the unsupported-calendar message
  exactly when \<open>hebrewDateUtils\<close> is \<open>null\<close>, that is when building the formatters threw.
\<close>

lemma render_fails_closed:
  "(\<exists>e. render utils off now st = Inl e) \<longleftrightarrow> utils = None"
  by (cases utils) (simp_all add: render_Some, simp add: render_def)

text \<open>
  C26. Under a correct calendar the rendered grid has 5 or 6 weeks of 7 cells, and the anchor's
  day is in it, in the column of its weekday.
\<close>

theorem render_grid_shape:
  assumes "cal_ok (fmtPartsLatn u)" "render (Some u) off now st = Inr v"
  shows "5 \<le> length (grid v) \<and> length (grid v) \<le> 6 \<and> (\<forall>row \<in> set (grid v). length row = 7)
    \<and> (\<exists>w i c. w < length (grid v) \<and> i < 7 \<and> grid v ! w ! i = Some c
         \<and> cellDate c = viewAnchor st \<and> getDay (cellDate c) = i)"
proof -
  let ?fmt = "fmtPartsLatn u"
  let ?s = "findHebMonthStart ?fmt (viewAnchor st)"
  let ?days = "buildHebMonthDays ?fmt ?s"
  let ?fw = "getDay ?s"
  have g: "grid v = month_grid ?fmt off now (events st) ?days ?fw" using assms(2) by (auto simp: render_Some)
  obtain L where L: "?days = days_from ?s L" "?s \<le> viewAnchor st" "viewAnchor st < ?s + int L"
    using grid_of_anchor [OF assms(1)] by blast
  have len: "29 \<le> length ?days" "length ?days \<le> 30" using month_length_range [OF assms(1)] by simp_all
  have fw: "?fw < 7" by (simp add: getDay_def nat_less_iff)
  define k where "k = nat (viewAnchor st - ?s)"
  have k: "k < length ?days" "?days ! k = viewAnchor st" using L by (simp_all add: k_def nth_days_from)
  have "(k + ?fw + 7) div 7 \<le> (length ?days + ?fw + 6) div 7" by (rule div_le_mono) (use k(1) in simp)
  then have rows: "(k + ?fw) div 7 < (length ?days + ?fw + 6) div 7" by simp
  have cell: "grid v ! ((k + ?fw) div 7) ! ((k + ?fw) mod 7) = grid_cell ?fmt off now (events st) ?days ?fw ((k + ?fw) div 7) ((k + ?fw) mod 7)"
    using month_grid_nth [OF rows] g by simp
  have wd: "getDay (viewAnchor st) = (k + ?fw) mod 7"
    using getDay_add [of ?s k] L(2) by (simp add: k_def add.commute)
  show ?thesis
  proof (intro conjI)
    show "5 \<le> length (grid v)" "length (grid v) \<le> 6" using g len fw month_grid_shape by simp_all
    show "\<forall>row \<in> set (grid v). length row = 7" using g month_grid_shape by simp
    show "\<exists>w i c. w < length (grid v) \<and> i < 7 \<and> grid v ! w ! i = Some c \<and> cellDate c = viewAnchor st \<and> getDay (cellDate c) = i"
    proof -
      obtain c where c: "grid v ! ((k + ?fw) div 7) ! ((k + ?fw) mod 7) = Some c" "cellDate c = viewAnchor st"
        using cell grid_cell_of_index [OF k(1)] k(2) by auto
      have "(k + ?fw) div 7 < length (grid v)" using rows g month_grid_shape by simp
      with c wd show ?thesis by (intro exI [of _ "(k + ?fw) div 7"] exI [of _ "(k + ?fw) mod 7"] exI [of _ c]) simp
    qed
  qed
qed

text \<open>
  The cells of a grid show, together, the events dated on its days: an event is in some cell
  exactly when its date is the key of one of the days.
\<close>

lemma month_grid_events:
  "(\<exists>row\<in>set (month_grid fmt off now evs days fw). \<exists>c. Some c \<in> set row \<and> e \<in> set (cellEvents c))
   \<longleftrightarrow> (\<exists>d\<in>set days. e \<in> set (dayEvents (toISO off (midnight d)) evs))"
proof
  assume "\<exists>row\<in>set (month_grid fmt off now evs days fw). \<exists>c. Some c \<in> set row \<and> e \<in> set (cellEvents c)"
  then obtain w i c where "grid_cell fmt off now evs days fw w i = Some c" "e \<in> set (cellEvents c)"
    by (auto simp: month_grid_def) (metis (no_types))
  with grid_cell_Some [of fmt off now evs days fw w i c] show "\<exists>d\<in>set days. e \<in> set (dayEvents (toISO off (midnight d)) evs)"
    by (metis nth_mem)
next
  assume "\<exists>d\<in>set days. e \<in> set (dayEvents (toISO off (midnight d)) evs)"
  then obtain k where k: "k < length days" "e \<in> set (dayEvents (toISO off (midnight (days ! k))) evs)"
    by (metis in_set_conv_nth)
  have "(k + fw + 7) div 7 \<le> (length days + fw + 6) div 7" by (rule div_le_mono) (use k(1) in simp)
  then have rows: "(k + fw) div 7 < (length days + fw + 6) div 7" by simp
  let ?row = "month_grid fmt off now evs days fw ! ((k + fw) div 7)"
  have "?row \<in> set (month_grid fmt off now evs days fw)" using rows month_grid_shape by simp
  moreover obtain c where c: "grid_cell fmt off now evs days fw ((k + fw) div 7) ((k + fw) mod 7) = Some c"
      "cellEvents c = dayEvents (toISO off (midnight (days ! k))) evs"
    using grid_cell_of_index [OF k(1), of fmt off now evs fw] by simp
  moreover have "?row ! ((k + fw) mod 7) = grid_cell fmt off now evs days fw ((k + fw) div 7) ((k + fw) mod 7)"
    using month_grid_nth [OF rows] by simp
  moreover have "length ?row = 7" using rows by (simp add: month_grid_def)
  ultimately have "?row \<in> set (month_grid fmt off now evs days fw) \<and> Some c \<in> set ?row \<and> e \<in> set (cellEvents c)"
    using nth_mem [of "(k + fw) mod 7" ?row] k(2) by simp
  then show "\<exists>row\<in>set (month_grid fmt off now evs days fw). \<exists>c. Some c \<in> set row \<and> e \<in> set (cellEvents c)"
    by blast
qed

text \<open>
  C13. The month's event list and the grid agree: in every rendered view an event is listed
  under the month exactly when it is shown in one of the grid's cells, although the list and the
  cells select events by different code (membership in the month's list of ISO keys, and
  equality with the cell's key), and the list is sorted by date and time.
\<close>

theorem month_list_matches_cells:
  assumes "render utils off now st = Inr v"
  shows "set (monthEvents v) = {e. \<exists>row\<in>set (grid v). \<exists>c. Some c \<in> set row \<and> e \<in> set (cellEvents c)}
    \<and> sorted (map event_key (monthEvents v))"
proof -
  obtain u where u: "utils = Some u" using assms by (cases utils) (simp_all add: render_def)
  let ?fmt = "fmtPartsLatn u"
  let ?days = "buildHebMonthDays ?fmt (findHebMonthStart ?fmt (viewAnchor st))"
  have v: "grid v = month_grid ?fmt off now (events st) ?days (getDay (findHebMonthStart ?fmt (viewAnchor st)))"
    "monthEvents v = currentMonthEvents (map (\<lambda>d. toISO off (midnight d)) ?days) (events st)"
    using assms u by (auto simp: render_Some)
  have "set (monthEvents v) = {e. \<exists>d\<in>set ?days. e \<in> set (dayEvents (toISO off (midnight d)) (events st))}"
    unfolding v by (auto simp: currentMonthEvents_cells)
  then have "set (monthEvents v) = {e. \<exists>row\<in>set (grid v). \<exists>c. Some c \<in> set row \<and> e \<in> set (cellEvents c)}"
    unfolding v(1) by (simp only: month_grid_events)
  moreover have "sorted (map event_key (monthEvents v))" unfolding v by (simp add: currentMonthEvents_def)
  ultimately show ?thesis by simp
qed

text \<open>
  Every cell of a grid over consecutive days sits in the column of its day's weekday
  (Sunday first, as the headers), and shows a day of the month.
\<close>

lemma grid_columns_weekday:
  assumes "month_grid fmt off now evs (days_from s n) (getDay s) ! w ! i = Some c"
    and "w < length (month_grid fmt off now evs (days_from s n) (getDay s))" "i < 7"
  shows "getDay (cellDate c) = i \<and> cellDate c \<in> set (days_from s n)"
proof -
  let ?fw = "getDay s"
  have "grid_cell fmt off now evs (days_from s n) ?fw w i = Some c"
    using assms month_grid_nth month_grid_shape by metis
  from grid_cell_Some [OF this]
  have c: "?fw \<le> w * 7 + i" "w * 7 + i - ?fw < n" "cellDate c = s + int (w * 7 + i - ?fw)"
    by (simp_all add: nth_days_from)
  have "getDay (cellDate c) = (?fw + (w * 7 + i - ?fw)) mod 7" using c(3) getDay_add by simp
  also have "\<dots> = i" using c(1) assms(3) by simp
  finally show ?thesis using c by (simp add: set_days_from)
qed

subsection \<open>Witnesses\<close>

lemma toISO_east_previous_day_witness:
  "toISO 120 (midnight 20157) = toISO 0 (midnight 20156) \<and> toISO 0 (midnight 20156) = js_str ''2025-03-09''"
proof -
  have "toISO 0 (midnight 20156) = js_str ''2025-03-09''" by code_simp
  with toISO_east_previous_day [of 120 20157] show ?thesis by simp
qed

lemma toISO_west_same_day_witness: "toISO (-300) (midnight 20157) = toISO 0 (midnight 20157)"
  using toISO_west_same_day [of "-300" 20157] by simp

lemma today_highlight_east_witness:
  "toISO 120 (midnight 20158) = toISO 120 (midnight 20157 + 600)"
proof -
  have "(midnight 20157 + 600) div 1440 = 20157" "120 \<le> (midnight 20157 + 600) mod 1440"
    by (simp_all add: midnight_def)
  with today_highlight_east [of 120 "midnight 20157 + 600"] show ?thesis by simp
qed

lemma click_then_add_lists_event_witness:
  "\<exists>v e. render (Some \<lparr>fmtWeekdayHeb = \<lambda>_. js_str ''Monday'', fmtPartsLatn = demo_fmt\<rparr>) 120 0
       (view_step demo_fmt 120 (FormAction AddEvent) (view_step demo_fmt 120 (ClickDay 100)
          \<lparr>events = [], newEventDate = [], newEventTime = [], newEventTitle = js_str ''Birthday'', viewAnchor = 100\<rparr>))
     = Inr v \<and> e \<in> set (monthEvents v) \<and> title e = js_str ''Birthday''"
proof -
  have t: "js_trim (js_str ''Birthday'') = js_str ''Birthday''" by code_simp
  have ne: "js_trim (newEventTitle \<lparr>events = [], newEventDate = [], newEventTime = [],
      newEventTitle = js_str ''Birthday'', viewAnchor = 100\<rparr>) \<noteq> []"
    by (simp only: cal_state.simps event_form.simps t) (simp add: js_str_def)
  have c: "cal_ok (fmtPartsLatn \<lparr>fmtWeekdayHeb = \<lambda>_. js_str ''Monday'', fmtPartsLatn = demo_fmt\<rparr>)"
    using cal_ok_demo by simp
  obtain v e where r: "render (Some \<lparr>fmtWeekdayHeb = \<lambda>_. js_str ''Monday'', fmtPartsLatn = demo_fmt\<rparr>) 120 0
       (view_step demo_fmt 120 (FormAction AddEvent) (view_step demo_fmt 120 (ClickDay 100)
          \<lparr>events = [], newEventDate = [], newEventTime = [], newEventTitle = js_str ''Birthday'', viewAnchor = 100\<rparr>))
     = Inr v" "e \<in> set (monthEvents v)" "title e = js_trim (js_str ''Birthday'')"
    using click_then_add_lists_event [OF c ne, of 100 _ 120 0] by auto
  from r(3) have "title e = js_str ''Birthday''" by (simp only: t)
  with r(1,2) show ?thesis by blast
qed

lemma view_next_prev_witness:
  "viewAnchor (view_step demo_fmt 120 PrevMonth (view_step demo_fmt 120 NextMonth
     \<lparr>events = [], newEventDate = [], newEventTime = [], newEventTitle = [], viewAnchor = 100\<rparr>)) = 89"
proof -
  have "findHebMonthStart demo_fmt 100 = 89" by (simp add: find_eq [OF cal_ok_demo] demo_heb_day demo_day_def)
  with view_next_prev [OF cal_ok_demo, of 120
     "\<lparr>events = [], newEventDate = [], newEventTime = [], newEventTitle = [], viewAnchor = 100\<rparr>"]
  show ?thesis by simp
qed

lemma reachable_view_events_ok_witness:
  "events_ok (events (view_step demo_fmt 120 (ClickDay 100) (init_state 120 0 [])))"
  by (rule reachable_view_events_ok [of demo_fmt 120]) (intro reachable_view.step reachable_view.init)

lemma render_fails_closed_witness:
  "\<exists>e. render None 120 0 \<lparr>events = [], newEventDate = [], newEventTime = [], newEventTitle = [], viewAnchor = 100\<rparr> = Inl e"
  using render_fails_closed [of None 120 0 "\<lparr>events = [], newEventDate = [], newEventTime = [], newEventTitle = [], viewAnchor = 100\<rparr>"]
  by simp

lemma render_grid_shape_witness:
  "\<exists>v. render (Some \<lparr>fmtWeekdayHeb = \<lambda>_. js_str ''Monday'', fmtPartsLatn = demo_fmt\<rparr>) 120 0
          \<lparr>events = [], newEventDate = [], newEventTime = [], newEventTitle = [], viewAnchor = 100\<rparr> = Inr v
     \<and> 5 \<le> length (grid v)"
proof -
  have c: "cal_ok (fmtPartsLatn \<lparr>fmtWeekdayHeb = \<lambda>_. js_str ''Monday'', fmtPartsLatn = demo_fmt\<rparr>)"
    using cal_ok_demo by simp
  obtain v where r: "render (Some \<lparr>fmtWeekdayHeb = \<lambda>_. js_str ''Monday'', fmtPartsLatn = demo_fmt\<rparr>) 120 0
          \<lparr>events = [], newEventDate = [], newEventTime = [], newEventTitle = [], viewAnchor = 100\<rparr> = Inr v"
    using render_Some by blast
  from render_grid_shape [OF c r] r show ?thesis by blast
qed

lemma month_list_matches_cells_witness:
  "\<exists>v. render (Some \<lparr>fmtWeekdayHeb = \<lambda>_. js_str ''Monday'', fmtPartsLatn = demo_fmt\<rparr>) 120 0
          \<lparr>events = [], newEventDate = [], newEventTime = [], newEventTitle = [], viewAnchor = 100\<rparr> = Inr v
     \<and> sorted (map event_key (monthEvents v))"
proof -
  obtain v where r: "render (Some \<lparr>fmtWeekdayHeb = \<lambda>_. js_str ''Monday'', fmtPartsLatn = demo_fmt\<rparr>) 120 0
          \<lparr>events = [], newEventDate = [], newEventTime = [], newEventTitle = [], viewAnchor = 100\<rparr> = Inr v"
    using render_Some by blast
  from month_list_matches_cells [OF r] r show ?thesis by blast
qed

lemma grid_columns_weekday_witness:
  "\<exists>c. month_grid (\<lambda>_. []) 0 0 [] (days_from 20157 3) (getDay 20157) ! 0 ! 1 = Some c \<and> getDay (cellDate c) = 1"
proof -
  have fw: "getDay 20157 = 1" by (simp add: getDay_def)
  have "month_grid (\<lambda>_. []) 0 0 [] (days_from 20157 3) 1 ! 0 ! 1 = grid_cell (\<lambda>_. []) 0 0 [] (days_from 20157 3) 1 0 1"
    by (rule month_grid_nth) simp_all
  then obtain c where c: "month_grid (\<lambda>_. []) 0 0 [] (days_from 20157 3) 1 ! 0 ! 1 = Some c"
    using grid_cell_of_index [of 0 "days_from 20157 3" "\<lambda>_. []" 0 0 "[]" 1] by simp
  have "0 < length (month_grid (\<lambda>_. []) 0 0 [] (days_from 20157 3) 1)" by (simp add: month_grid_shape)
  with grid_columns_weekday [of "\<lambda>_. []" 0 0 "[]" 20157 3 0 1 c] c fw show ?thesis by auto
qed

end
