(* ===== verification/UriEncoding.thy ===== *)
theory UriEncoding
  imports Prelude
begin

text \<open>
  The JavaScript builtin \<open>encodeURIComponent\<close> (ECMA-262, \<open>Encode\<close> with the unreserved set
  of \<open>uriAlpha\<close>, \<open>DecimalDigit\<close> and \<open>uriMark\<close>), which the translation, map and search handlers
  use to put user text into a URL. A code unit of the unreserved set is copied; any other code
  point is written as the \<open>%XX\<close> escapes of its UTF-8 octets; a lone surrogate throws
  \<open>URIError\<close>, here \<open>None\<close>. The reference decoder \<open>decodeURIComponent_ref\<close> reads the escapes
  back to octets, decodes UTF-8 and writes UTF-16.
\<close>

subsection \<open>Encoding\<close>

definition uriUnreserved :: "16 word \<Rightarrow> bool" where
  "uriUnreserved c \<longleftrightarrow> (0x41 \<le> c \<and> c \<le> 0x5A) \<or> (0x61 \<le> c \<and> c \<le> 0x7A) \<or> (0x30 \<le> c \<and> c \<le> 0x39)
     \<or> c \<in> set [0x2D, 0x5F, 0x2E, 0x21, 0x7E, 0x2A, 0x27, 0x28, 0x29]"

definition is_lead :: "16 word \<Rightarrow> bool" where
  "is_lead c \<longleftrightarrow> 0xD800 \<le> c \<and> c \<le> 0xDBFF"

definition is_trail :: "16 word \<Rightarrow> bool" where
  "is_trail c \<longleftrightarrow> 0xDC00 \<le> c \<and> c \<le> 0xDFFF"

definition surrogate_pair :: "16 word \<Rightarrow> 16 word \<Rightarrow> nat" where
  "surrogate_pair c d = (unat c - 0xD800) * 0x400 + (unat d - 0xDC00) + 0x10000"

definition utf8_octets :: "nat \<Rightarrow> nat list" where
  "utf8_octets cp =
     (if cp < 0x80 then [cp]
      else if cp < 0x800 then [0xC0 + cp div 64, 0x80 + cp mod 64]
      else if cp < 0x10000 then [0xE0 + cp div 4096, 0x80 + cp div 64 mod 64, 0x80 + cp mod 64]
      else [0xF0 + cp div 262144, 0x80 + cp div 4096 mod 64, 0x80 + cp div 64 mod 64, 0x80 + cp mod 64])"

definition hex_unit :: "nat \<Rightarrow> 16 word" where
  "hex_unit n = of_nat (if n < 10 then 48 + n else 55 + n)"

definition pct_octet :: "nat \<Rightarrow> jsstr" where
  "pct_octet b = [0x25, hex_unit (b div 16), hex_unit (b mod 16)]"

definition pct_cp :: "nat \<Rightarrow> jsstr" where
  "pct_cp cp = concat (map pct_octet (utf8_octets cp))"

fun encodeURIComponent :: "jsstr \<Rightarrow> jsstr option" where
  "encodeURIComponent [] = Some []"
| "encodeURIComponent (c # cs) =
     (if uriUnreserved c then map_option (Cons c) (encodeURIComponent cs)
      else if is_trail c then None
      else if is_lead c then
        (case cs of
           [] \<Rightarrow> None
         | d # ds \<Rightarrow>
             if is_trail d then map_option ((@) (pct_cp (surrogate_pair c d))) (encodeURIComponent ds)
             else None)
      else map_option ((@) (pct_cp (unat c))) (encodeURIComponent cs))"

subsection \<open>The reference decoder\<close>

text \<open>
  The reference reads a string as code points (\<open>None\<close> at a lone surrogate) and
  encodes code point by code point.
\<close>

fun code_points :: "jsstr \<Rightarrow> nat list option" where
  "code_points [] = Some []"
| "code_points (c # cs) =
     (if is_trail c then None
      else if is_lead c then
        (case cs of
           [] \<Rightarrow> None
         | d # ds \<Rightarrow> if is_trail d then map_option (Cons (surrogate_pair c d)) (code_points ds) else None)
      else map_option (Cons (unat c)) (code_points cs))"

definition enc_cp :: "nat \<Rightarrow> jsstr" where
  "enc_cp cp = (if cp < 0x80 \<and> uriUnreserved (of_nat cp) then [of_nat cp] else pct_cp cp)"


definition unhex :: "16 word \<Rightarrow> nat option" where
  "unhex c =
     (if 0x30 \<le> c \<and> c \<le> 0x39 then Some (unat c - 48)
      else if 0x41 \<le> c \<and> c \<le> 0x46 then Some (unat c - 55) else None)"

fun octets_of :: "jsstr \<Rightarrow> nat list option" where
  "octets_of [] = Some []"
| "octets_of (c # cs) =
     (if c = 0x25 then
        (case cs of
           h # l # rest \<Rightarrow>
             (case (unhex h, unhex l) of
                (Some a, Some b) \<Rightarrow> map_option (Cons (16 * a + b)) (octets_of rest)
              | _ \<Rightarrow> None)
         | _ \<Rightarrow> None)
      else if c < 0x80 then map_option (Cons (unat c)) (octets_of cs)
      else None)"

definition cont :: "nat \<Rightarrow> bool" where
  "cont b \<longleftrightarrow> 0x80 \<le> b \<and> b < 0xC0"

fun utf8_decode :: "nat list \<Rightarrow> nat list option" where
  "utf8_decode [] = Some []"
| "utf8_decode (b # bs) =
     (if b < 0x80 then map_option (Cons b) (utf8_decode bs)
      else if 0xC0 \<le> b \<and> b < 0xE0 then
        (case bs of
           b2 # rest \<Rightarrow>
             if cont b2 then map_option (Cons ((b - 0xC0) * 64 + (b2 - 0x80))) (utf8_decode rest) else None
         | _ \<Rightarrow> None)
      else if 0xE0 \<le> b \<and> b < 0xF0 then
        (case bs of
           b2 # b3 # rest \<Rightarrow>
             if cont b2 \<and> cont b3
             then map_option (Cons ((b - 0xE0) * 4096 + (b2 - 0x80) * 64 + (b3 - 0x80))) (utf8_decode rest)
             else None
         | _ \<Rightarrow> None)
      else if 0xF0 \<le> b \<and> b < 0xF8 then
        (case bs of
           b2 # b3 # b4 # rest \<Rightarrow>
             if cont b2 \<and> cont b3 \<and> cont b4
             then map_option (Cons ((b - 0xF0) * 262144 + (b2 - 0x80) * 4096 + (b3 - 0x80) * 64 + (b4 - 0x80)))
                    (utf8_decode rest)
             else None
         | _ \<Rightarrow> None)
      else None)"

definition to_units :: "nat \<Rightarrow> jsstr" where
  "to_units cp =
     (if cp < 0x10000 then [of_nat cp]
      else [of_nat (0xD800 + (cp - 0x10000) div 0x400), of_nat (0xDC00 + (cp - 0x10000) mod 0x400)])"

definition decodeURIComponent_ref :: "jsstr \<Rightarrow> jsstr option" where
  "decodeURIComponent_ref s =
     Option.bind (octets_of s) (\<lambda>bs. map_option (\<lambda>cps. concat (map to_units cps)) (utf8_decode bs))"

subsection \<open>Lemmas\<close>

lemma unhex_hex_units: "\<forall>n\<in>set [0..<16]. unhex (hex_unit n) = Some n"
  by (simp add: upt_rec unhex_def hex_unit_def)

lemma unhex_hex_unit: "n < 16 \<Longrightarrow> unhex (hex_unit n) = Some n"
  using unhex_hex_units by simp

lemma octets_of_pct_octet:
  "b < 256 \<Longrightarrow> octets_of (pct_octet b @ rest) = map_option (Cons b) (octets_of rest)"
  by (simp add: pct_octet_def unhex_hex_unit)

lemma octets_of_pct:
  "\<forall>b\<in>set bs. b < 256 \<Longrightarrow> octets_of (concat (map pct_octet bs) @ rest) = map_option ((@) bs) (octets_of rest)"
proof (induction bs)
  case Nil
  then show ?case by (cases "octets_of rest") simp_all
next
  case (Cons b bs)
  then show ?case by (cases "octets_of rest") (simp_all add: octets_of_pct_octet)
qed

lemma div_64_64: "(cp::nat) div 64 div 64 = cp div 4096" "(cp::nat) div 4096 div 64 = cp div 262144"
  by (simp_all only: div_mult2_eq [symmetric]) simp_all

lemma div_mod_64: "(x::nat) = x div 64 * 64 + x mod 64"
  by simp

lemma digits_3: "(cp::nat) div 4096 * 4096 + cp div 64 mod 64 * 64 + cp mod 64 = cp"
proof -
  have a: "cp div 64 = cp div 4096 * 64 + cp div 64 mod 64"
    using div_mod_64 [of "cp div 64"] by (simp only: div_64_64)
  have "cp div 64 * 64 = cp div 4096 * 4096 + cp div 64 mod 64 * 64"
    by (subst a) simp
  with div_mod_64 [of cp] show ?thesis by linarith
qed

lemma digits_4: "(cp::nat) div 262144 * 262144 + cp div 4096 mod 64 * 4096 + cp div 64 mod 64 * 64 + cp mod 64 = cp"
proof -
  have a: "cp div 4096 = cp div 262144 * 64 + cp div 4096 mod 64"
    using div_mod_64 [of "cp div 4096"] by (simp only: div_64_64)
  have "cp div 4096 * 4096 = cp div 262144 * 262144 + cp div 4096 mod 64 * 4096"
    by (subst a) simp
  with digits_3 [of cp] show ?thesis by linarith
qed

lemma utf8_octets_bytes: "cp < 0x110000 \<Longrightarrow> \<forall>b\<in>set (utf8_octets cp). b < 256"
  by (auto simp: utf8_octets_def)

lemma utf8_decode_octets:
  assumes "cp < 0x110000"
  shows "utf8_decode (utf8_octets cp @ rest) = map_option (Cons cp) (utf8_decode rest)"
proof -
  consider "cp < 0x80" | "0x80 \<le> cp" "cp < 0x800" | "0x800 \<le> cp" "cp < 0x10000" | "0x10000 \<le> cp"
    by linarith
  then show ?thesis
  proof cases
    case 1 then show ?thesis by (simp add: utf8_octets_def)
  next
    case 2
    then have "cp div 64 < 32" "2 \<le> cp div 64" by auto
    with 2 show ?thesis by (simp add: utf8_octets_def cont_def)
  next
    case 3
    then have "cp div 4096 < 16" by auto
    with 3 show ?thesis by (simp add: utf8_octets_def cont_def digits_3)
  next
    case 4
    with assms have "cp div 262144 < 5" by auto
    with 4 assms show ?thesis by (simp add: utf8_octets_def cont_def digits_4)
  qed
qed

lemma uriUnreserved_ascii:
  "uriUnreserved c \<Longrightarrow> \<not> is_lead c \<and> \<not> is_trail c \<and> unat c < 0x80 \<and> c \<noteq> 0x25"
  by (auto simp: uriUnreserved_def is_lead_def is_trail_def word_le_nat_alt)

lemma enc_cp_unreserved: "uriUnreserved c \<Longrightarrow> enc_cp (unat c) = [c]"
  using uriUnreserved_ascii [of c] by (simp add: enc_cp_def)

lemma enc_cp_reserved: "\<not> uriUnreserved c \<Longrightarrow> enc_cp (unat c) = pct_cp (unat c)"
  by (simp add: enc_cp_def)

lemma surrogate_pair_range:
  assumes "is_lead c" "is_trail d"
  shows "0x10000 \<le> surrogate_pair c d \<and> surrogate_pair c d < 0x110000"
proof -
  from assms have "unat c \<le> 0xDBFF" "unat d \<le> 0xDFFF"
    by (simp_all add: is_lead_def is_trail_def word_le_nat_alt)
  then show ?thesis by (simp add: surrogate_pair_def)
qed

lemma enc_cp_pair: "is_lead c \<Longrightarrow> is_trail d \<Longrightarrow> enc_cp (surrogate_pair c d) = pct_cp (surrogate_pair c d)"
  using surrogate_pair_range [of c d] by (simp add: enc_cp_def)

lemma encodeURIComponent_code_points:
  "encodeURIComponent s = map_option (\<lambda>cps. concat (map enc_cp cps)) (code_points s)"
proof (induction s rule: encodeURIComponent.induct)
  case 1
  then show ?case by simp
next
  case (2 c cs)
  show ?case
  proof (cases "uriUnreserved c")
    case True
    with 2 uriUnreserved_ascii [of c] show ?thesis
      by (simp add: enc_cp_unreserved option.map_comp comp_def)
  next
    case False
    then show ?thesis
      using 2 by (cases cs) (auto simp: enc_cp_reserved enc_cp_pair option.map_comp comp_def)
  qed
qed

lemma unat_16_bound: "unat (c :: 16 word) < 65536"
  using unsigned_less [of c] by simp

lemma code_points_range: "code_points s = Some cps \<Longrightarrow> \<forall>cp\<in>set cps. cp < 0x110000"
proof (induction s arbitrary: cps rule: code_points.induct)
  case (2 c cs)
  have "unat c < 0x110000" using unat_16_bound [of c] by simp
  with 2 surrogate_pair_range show ?case
    by (auto split: if_splits list.splits)
qed simp

lemma to_units_unat: "\<not> is_lead c \<Longrightarrow> \<not> is_trail c \<Longrightarrow> to_units (unat c) = [c]"
  using unat_16_bound [of c] by (simp add: to_units_def)

lemma div_mod_1024: "(y :: nat) < 1024 \<Longrightarrow> (x * 1024 + y) div 1024 = x \<and> (x * 1024 + y) mod 1024 = y"
  by simp

lemma to_units_pair:
  assumes "is_lead c" "is_trail d"
  shows "to_units (surrogate_pair c d) = [c, d]"
proof -
  from assms have b: "0xD800 \<le> unat c" "unat c \<le> 0xDBFF" "0xDC00 \<le> unat d" "unat d \<le> 0xDFFF"
    by (simp_all add: is_lead_def is_trail_def word_le_nat_alt)
  define x where "x = unat c - 0xD800"
  define y where "y = unat d - 0xDC00"
  from b have y: "y < 1024" by (simp add: y_def)
  have e: "surrogate_pair c d - 0x10000 = x * 0x400 + y"
    by (simp add: surrogate_pair_def x_def y_def)
  from b have "0xD800 + x = unat c" "0xDC00 + y = unat d" by (simp_all add: x_def y_def)
  with e div_mod_1024 [OF y, of x] surrogate_pair_range [OF assms] show ?thesis
    by (simp add: to_units_def)
qed

lemma code_points_units: "code_points s = Some cps \<Longrightarrow> concat (map to_units cps) = s"
proof (induction s arbitrary: cps rule: code_points.induct)
  case (2 c cs)
  then show ?case
    by (auto simp: to_units_unat to_units_pair split: if_splits list.splits)
qed simp

lemma octets_of_enc_cp:
  assumes "cp < 0x110000"
  shows "octets_of (enc_cp cp @ rest) = map_option ((@) (utf8_octets cp)) (octets_of rest)"
proof (cases "cp < 0x80 \<and> uriUnreserved (of_nat cp)")
  case True
  then have "unat (of_nat cp :: 16 word) = cp" by (simp add: unat_of_nat)
  with True uriUnreserved_ascii [of "of_nat cp"] show ?thesis
    by (cases "octets_of rest") (simp_all add: enc_cp_def utf8_octets_def word_less_nat_alt)
next
  case False
  then have "enc_cp cp = pct_cp cp" by (auto simp: enc_cp_def)
  then show ?thesis
    by (simp only: pct_cp_def) (rule octets_of_pct [OF utf8_octets_bytes [OF assms]])
qed

lemma octets_of_enc:
  "\<forall>cp\<in>set cps. cp < 0x110000 \<Longrightarrow> octets_of (concat (map enc_cp cps)) = Some (concat (map utf8_octets cps))"
proof (induction cps)
  case (Cons cp cps)
  then show ?case using octets_of_enc_cp [of cp "concat (map enc_cp cps)"] by simp
qed simp

lemma utf8_decode_concat:
  "\<forall>cp\<in>set cps. cp < 0x110000 \<Longrightarrow> utf8_decode (concat (map utf8_octets cps)) = Some cps"
proof (induction cps)
  case (Cons cp cps)
  then show ?case using utf8_decode_octets [of cp "concat (map utf8_octets cps)"] by simp
qed simp

lemma encodeURIComponent_roundtrip_core:
  "encodeURIComponent s = Some r \<Longrightarrow> decodeURIComponent_ref r = Some s"
proof -
  assume "encodeURIComponent s = Some r"
  then obtain cps where c: "code_points s = Some cps" and r: "r = concat (map enc_cp cps)"
    by (auto simp: encodeURIComponent_code_points)
  from code_points_range [OF c] have "\<forall>cp\<in>set cps. cp < 0x110000" .
  with r code_points_units [OF c] show ?thesis
    by (simp add: decodeURIComponent_ref_def octets_of_enc utf8_decode_concat)
qed

lemma hex_units_unreserved: "\<forall>n\<in>set [0..<16]. uriUnreserved (hex_unit n)"
  by (simp add: upt_rec uriUnreserved_def hex_unit_def)

lemma pct_octet_chars: "b < 256 \<Longrightarrow> c \<in> set (pct_octet b) \<Longrightarrow> uriUnreserved c \<or> c = 0x25"
  using hex_units_unreserved by (auto simp: pct_octet_def)

lemma enc_cp_chars:
  assumes "cp < 0x110000" "c \<in> set (enc_cp cp)"
  shows "uriUnreserved c \<or> c = 0x25"
proof (cases "cp < 0x80 \<and> uriUnreserved (of_nat cp)")
  case False
  with assms(2) obtain b where "b \<in> set (utf8_octets cp)" "c \<in> set (pct_octet b)"
    by (auto simp: enc_cp_def pct_cp_def)
  moreover from this(1) utf8_octets_bytes [OF assms(1)] have "b < 256" by blast
  ultimately show ?thesis using pct_octet_chars by blast
qed (use assms in \<open>auto simp: enc_cp_def\<close>)

lemma encodeURIComponent_chars:
  "encodeURIComponent s = Some r \<Longrightarrow> \<forall>c\<in>set r. uriUnreserved c \<or> c = 0x25"
proof -
  assume "encodeURIComponent s = Some r"
  then obtain cps where c: "code_points s = Some cps" and r: "r = concat (map enc_cp cps)"
    by (auto simp: encodeURIComponent_code_points)
  from code_points_range [OF c] r show ?thesis using enc_cp_chars by fastforce
qed

lemma encodeURIComponent_fails: "encodeURIComponent s = None \<longleftrightarrow> code_points s = None"
  by (simp add: encodeURIComponent_code_points)

lemma encodeURIComponent_unreserved: "\<forall>c\<in>set s. uriUnreserved c \<Longrightarrow> encodeURIComponent s = Some s"
  by (induction s) simp_all

subsection \<open>The round trip\<close>

text \<open>
  \<open>encodeURIComponent\<close> round trip: whenever it returns (the text has no lone surrogate),
  the reference decoder gives the text back, and the result uses only unreserved characters and
  \<open>%\<close>, so it cannot contain a URL delimiter such as \<open>&\<close>, \<open>=\<close>, \<open>#\<close> or \<open>?\<close>.
\<close>

lemma encodeURIComponent_roundtrip:
  assumes "encodeURIComponent s = Some r"
  shows "decodeURIComponent_ref r = Some s \<and> (\<forall>c\<in>set r. uriUnreserved c \<or> c = 0x25)"
  using encodeURIComponent_roundtrip_core [OF assms] encodeURIComponent_chars [OF assms] by simp

subsection \<open>Witnesses\<close>

lemma encodeURIComponent_roundtrip_witness:
  "decodeURIComponent_ref (js_str ''%D7%90%20A'') = Some [ALEF, 0x20, 0x41]"
proof -
  have "encodeURIComponent [ALEF, 0x20, 0x41] = Some (js_str ''%D7%90%20A'')"
    by (simp add: uriUnreserved_def is_lead_def is_trail_def pct_cp_def utf8_octets_def pct_octet_def
        hex_unit_def js_str_def)
  from encodeURIComponent_roundtrip [OF this] show ?thesis by (rule conjunct1)
qed

end
