(* ===== verification/SearchHistory.thy ===== *)
theory SearchHistory
  imports UriEncoding
begin

text \<open>
  The Google search box of \<open>HomePanel\<close> (\<^verbatim>\<open>src/components/HomePanel.tsx\<close>, lines 335--350
  and 376--391) and the \<open>HistoryPanel\<close> (\<^verbatim>\<open>src/components/OtherPanels.tsx\<close>, lines 414--475),
  which share the persisted list \<open>dashboard_search_history_v1\<close>. A search records a new
  query at the front of the history, keeping at most 50 entries; a query already in the history
  is not moved. Leaving the page (\<open>window.location.href = ...\<close>) is an effect value carrying
  the Google URL built with \<open>encodeURIComponent\<close>; when that throws (a lone surrogate), the
  page stays and the error is uncaught.
\<close>

record search_state =
  searchTerm :: jsstr
  searchHistory :: "jsstr list"

datatype search_effect = NoEffect | GoogleSearch jsstr | SearchURIError

text \<open>\<open>window.location.href = `https://www.google.com/search?q=${encodeURIComponent(q)}`\<close>.\<close>

definition google_search :: "jsstr \<Rightarrow> search_effect" where
  "google_search q =
     (case encodeURIComponent q of
        None \<Rightarrow> SearchURIError
      | Some e \<Rightarrow> GoogleSearch (js_str ''https://www.google.com/search?q='' @ e))"

text \<open>The history is updated before the URL is built, so it is kept even when the encoding throws.\<close>

definition handleSearch :: "'a search_state_scheme \<Rightarrow> 'a search_state_scheme \<times> search_effect" where
  "handleSearch st =
     (let q = js_trim (searchTerm st) in
      if q = [] then (st, NoEffect)
      else if q \<in> set (searchHistory st) then (st, google_search q)
      else (st\<lparr>searchHistory := q # take 49 (searchHistory st)\<rparr>, google_search q))"

definition deleteHistoryItem :: "jsstr \<Rightarrow> 'a search_state_scheme \<Rightarrow> 'a search_state_scheme" where
  "deleteHistoryItem itemToDelete st =
     st\<lparr>searchHistory := filter (\<lambda>item. item \<noteq> itemToDelete) (searchHistory st)\<rparr>"

definition clearAllHistory :: "bool \<Rightarrow> 'a search_state_scheme \<Rightarrow> 'a search_state_scheme" where
  "clearAllHistory confirmed st = (if confirmed then st\<lparr>searchHistory := []\<rparr> else st)"

text \<open>The user's actions: typing, the search button or Enter, and the history panel's buttons.\<close>

datatype search_action = SetSearchTerm jsstr | Search | SearchAgain jsstr | DeleteItem jsstr
  | ClearHistory bool

fun search_step :: "search_action \<Rightarrow> 'a search_state_scheme \<Rightarrow> 'a search_state_scheme \<times> search_effect" where
  "search_step (SetSearchTerm v) st = (st\<lparr>searchTerm := v\<rparr>, NoEffect)"
| "search_step Search st = handleSearch st"
| "search_step (SearchAgain q) st = (st, google_search q)"
| "search_step (DeleteItem q) st = (deleteHistoryItem q st, NoEffect)"
| "search_step (ClearHistory c) st = (clearAllHistory c st, NoEffect)"

inductive reachable_search :: "search_state \<Rightarrow> bool" where
  init: "reachable_search \<lparr>searchTerm = [], searchHistory = []\<rparr>"
| step: "reachable_search st \<Longrightarrow> reachable_search (fst (search_step a st))"

definition history_ok :: "jsstr list \<Rightarrow> bool" where
  "history_ok h \<longleftrightarrow> distinct h \<and> length h \<le> 50 \<and> (\<forall>q \<in> set h. q \<noteq> [] \<and> js_trim q = q)"

subsection \<open>Lemmas\<close>

lemma history_ok_take_cons:
  assumes "history_ok h" "q \<notin> set h" "q \<noteq> []" "js_trim q = q"
  shows "history_ok (q # take 49 h)"
  using assms by (auto simp: history_ok_def dest: in_set_takeD)

lemma history_ok_filter: "history_ok h \<Longrightarrow> history_ok (filter P h)"
  by (auto simp: history_ok_def intro: le_trans [OF length_filter_le])

lemma search_step_ok: "history_ok (searchHistory st) \<Longrightarrow> history_ok (searchHistory (fst (search_step a st)))"
proof (cases a)
  case Search
  assume ok: "history_ok (searchHistory st)"
  then show ?thesis using Search history_ok_take_cons [OF ok, of "js_trim (searchTerm st)"]
    by (simp add: handleSearch_def Let_def)
qed (simp_all add: deleteHistoryItem_def clearAllHistory_def history_ok_filter, simp add: history_ok_def)

subsection \<open>Properties of the search history\<close>

text \<open>
  C32. Invariant of the shared search history: in every state reached from an empty history,
  the entries are distinct, non-empty and trimmed, and there are at most 50 of them.
\<close>

theorem reachable_search_history_ok: "reachable_search st \<Longrightarrow> history_ok (searchHistory st)"
proof (induction rule: reachable_search.induct)
  case init
  then show ?case by (simp add: history_ok_def)
next
  case (step st a)
  from step.IH show ?case by (rule search_step_ok)
qed

text \<open>
  A query that is already in the history is searched but not moved to the front: the history
  is ordered by first use, not by last use.
\<close>

lemma handleSearch_known:
  assumes "js_trim (searchTerm st) \<noteq> []" "js_trim (searchTerm st) \<in> set (searchHistory st)"
  shows "handleSearch st = (st, google_search (js_trim (searchTerm st)))"
  using assms by (auto simp: handleSearch_def Let_def)

text \<open>
  A new query with a lone surrogate is recorded in the history, and then the navigation throws:
  the search never happens, but the query is listed as searched.
\<close>

lemma handleSearch_throws_after_saving:
  assumes "js_trim (searchTerm st) \<noteq> []" "js_trim (searchTerm st) \<notin> set (searchHistory st)"
    "code_points (js_trim (searchTerm st)) = None"
  shows "handleSearch st =
    (st\<lparr>searchHistory := js_trim (searchTerm st) # take 49 (searchHistory st)\<rparr>, SearchURIError)"
  using assms by (simp add: handleSearch_def Let_def google_search_def encodeURIComponent_fails [symmetric])

text \<open>A successful search leaves for the URL whose query decodes back to the trimmed text.\<close>

lemma handleSearch_url:
  "snd (handleSearch st) = GoogleSearch u \<Longrightarrow>
     \<exists>e. u = js_str ''https://www.google.com/search?q='' @ e \<and> decodeURIComponent_ref e = Some (js_trim (searchTerm st))"
  by (auto simp: handleSearch_def Let_def google_search_def dest: encodeURIComponent_roundtrip
      split: if_splits option.splits)

subsection \<open>Witnesses\<close>

lemma reachable_search_history_ok_witness:
  "history_ok (searchHistory (fst (search_step Search
     \<lparr>searchTerm = js_str '' news '', searchHistory = []\<rparr>)))"
  by (rule reachable_search_history_ok)
     (rule reachable_search.step [of "\<lparr>searchTerm = js_str '' news '', searchHistory = []\<rparr>" Search,
         OF reachable_search.step [OF reachable_search.init, of "SetSearchTerm (js_str '' news '')", simplified]])

end
