(* ===== verification/Shortcuts.thy ===== *)
theory Shortcuts
  imports UriEncoding
begin

text \<open>
  The link shortcuts: the type \<open>Shortcut\<close> (\<^verbatim>\<open>src/types.ts\<close>, lines 1--4), the built-in
  \<open>DEFAULT_SHORTCUTS\<close> (\<^verbatim>\<open>src/constants.ts\<close>, lines 3--15), the home grid \<open>ShortcutGrid\<close>
  and the add/export form of \<open>HomePanel\<close> (\<^verbatim>\<open>src/components/HomePanel.tsx\<close>, lines 16--38,
  339--370 and 395--402), and the delete list \<open>AdvancedShortcuts\<close>
  (\<^verbatim>\<open>src/components/OtherPanels.tsx\<close>, lines 239--261). All three read the persisted list
  \<open>dashboard_shortcuts_v3\<close>, here the field \<open>shortcuts\<close>. The alerts are error values, leaving
  the page and the JSON download are effect values (\<open>JSON.stringify\<close> and the favicon's
  \<open>new URL(...)\<close> parse are the browser's).
\<close>

record shortcut =
  shortcut_title :: jsstr
  url :: jsstr

text \<open>The Hebrew parts of the default titles, as code units.\<close>

definition DEFAULT_SHORTCUTS :: "shortcut list" where
  "DEFAULT_SHORTCUTS =
     [\<lparr>shortcut_title = js_str ''Kore - '' @ [HET, DALET, SHIN, VAV, TAV], url = js_str ''https://www.kore.co.il/''\<rparr>,
      \<lparr>shortcut_title = js_str ''Amazon'', url = js_str ''https://www.amazon.com''\<rparr>,
      \<lparr>shortcut_title = js_str ''eBay'', url = js_str ''https://www.ebay.com''\<rparr>,
      \<lparr>shortcut_title = js_str ''Zap'', url = js_str ''https://www.zap.co.il/''\<rparr>,
      \<lparr>shortcut_title = [TSADI, APOS, ALEF, TET] @ js_str '' GPT'', url = js_str ''https://chat.openai.com''\<rparr>,
      \<lparr>shortcut_title = js_str ''Gmail'', url = js_str ''https://mail.google.com''\<rparr>,
      \<lparr>shortcut_title = js_str ''Outlook'', url = js_str ''https://outlook.live.com''\<rparr>,
      \<lparr>shortcut_title = js_str ''Google Drive'', url = js_str ''https://drive.google.com''\<rparr>,
      \<lparr>shortcut_title = js_str ''Dropbox'', url = js_str ''https://www.dropbox.com''\<rparr>,
      \<lparr>shortcut_title = js_str ''YouTube'', url = js_str ''https://www.youtube.com''\<rparr>,
      \<lparr>shortcut_title = [MEM, ZAYIN, GIMEL] @ js_str '' '' @ [ALEF, VAV, VAV, YOD, RESH] @ js_str '' (IMS)'',
       url = js_str ''https://www.ims.gov.il/''\<rparr>]"

record shortcut_form =
  shortcuts :: "shortcut list"
  newShortcutTitle :: jsstr
  newShortcutUrl :: jsstr

datatype shortcut_error = MissingUrl | NothingToExport

datatype shortcut_effect = NoShortcutEffect | DownloadJson "shortcut list" | GoToUrl jsstr

definition handleAddShortcut :: "'a shortcut_form_scheme \<Rightarrow> shortcut_error + 'a shortcut_form_scheme" where
  "handleAddShortcut st =
     (let u = js_trim (newShortcutUrl st) in
      if u = [] then Inl MissingUrl
      else (let t = (if js_trim (newShortcutTitle st) = [] then u else js_trim (newShortcutTitle st)) in
            Inr (st\<lparr>shortcuts := shortcuts st @ [\<lparr>shortcut_title = t, url = u\<rparr>],
                    newShortcutTitle := [], newShortcutUrl := []\<rparr>)))"

definition handleExport :: "'a shortcut_form_scheme \<Rightarrow> shortcut_error + shortcut_effect" where
  "handleExport st = (if shortcuts st = [] then Inl NothingToExport else Inr (DownloadJson (shortcuts st)))"

definition deleteShortcut :: "nat \<Rightarrow> 'a shortcut_form_scheme \<Rightarrow> 'a shortcut_form_scheme" where
  "deleteShortcut index st = st\<lparr>shortcuts := filter_index (\<lambda>i. i \<noteq> index) (shortcuts st)\<rparr>"

text \<open>The home grid shows the defaults and then the user's shortcuts; a card leaves for its URL.\<close>

definition allShortcuts :: "'a shortcut_form_scheme \<Rightarrow> shortcut list" where
  "allShortcuts st = DEFAULT_SHORTCUTS @ shortcuts st"

definition clickShortcut :: "nat \<Rightarrow> 'a shortcut_form_scheme \<Rightarrow> shortcut_effect" where
  "clickShortcut idx st =
     (if idx < length (allShortcuts st) then GoToUrl (url (allShortcuts st ! idx)) else NoShortcutEffect)"

text \<open>
  \<open>getDomainFromUrl\<close> (lines 8--14): the browser's \<open>new URL(url).hostname\<close> is a parameter,
  \<open>None\<close> when the constructor throws, in which case the URL itself is used. The card's icon
  (line 27) asks Google for the domain's favicon; \<open>encodeURIComponent\<close> runs during render, so
  its \<open>URIError\<close> is a failed render. When the image fails to load, \<open>onError\<close> (line 29)
  replaces it by an empty SVG.
\<close>

definition getDomainFromUrl :: "(jsstr \<Rightarrow> jsstr option) \<Rightarrow> jsstr \<Rightarrow> jsstr" where
  "getDomainFromUrl hostname u = (case hostname u of None \<Rightarrow> u | Some h \<Rightarrow> h)"

definition favicon_src :: "(jsstr \<Rightarrow> jsstr option) \<Rightarrow> shortcut \<Rightarrow> jsstr option" where
  "favicon_src hostname s =
     map_option (\<lambda>d. js_str ''https://www.google.com/s2/favicons?sz=64&domain='' @ d)
       (encodeURIComponent (getDomainFromUrl hostname (url s)))"

definition FAVICON_FALLBACK :: jsstr where
  "FAVICON_FALLBACK = js_str ''data:image/svg+xml;utf8,<svg xmlns='' @ [QUOTE] @ js_str ''http://www.w3.org/2000/svg''
     @ [QUOTE] @ js_str '' width='' @ [QUOTE] @ js_str ''56'' @ [QUOTE] @ js_str '' height='' @ [QUOTE]
     @ js_str ''56'' @ [QUOTE] @ js_str ''></svg>''"

text \<open>A rendered card: its shortcut and the current source of its icon.\<close>

definition ShortcutGrid :: "(jsstr \<Rightarrow> jsstr option) \<Rightarrow> 'a shortcut_form_scheme \<Rightarrow> (shortcut \<times> jsstr) list option" where
  "ShortcutGrid hostname st = those (map (\<lambda>s. map_option (Pair s) (favicon_src hostname s)) (allShortcuts st))"

definition icon_onError :: "nat \<Rightarrow> (shortcut \<times> jsstr) list \<Rightarrow> (shortcut \<times> jsstr) list" where
  "icon_onError idx cards =
     (if idx < length cards then cards[idx := (fst (cards ! idx), FAVICON_FALLBACK)] else cards)"

datatype shortcut_action = SetShortcutTitle jsstr | SetShortcutUrl jsstr | AddShortcut | DeleteShortcut nat

fun shortcut_step :: "shortcut_action \<Rightarrow> 'a shortcut_form_scheme \<Rightarrow> 'a shortcut_form_scheme" where
  "shortcut_step (SetShortcutTitle v) st = st\<lparr>newShortcutTitle := v\<rparr>"
| "shortcut_step (SetShortcutUrl v) st = st\<lparr>newShortcutUrl := v\<rparr>"
| "shortcut_step AddShortcut st = (case handleAddShortcut st of Inl _ \<Rightarrow> st | Inr st' \<Rightarrow> st')"
| "shortcut_step (DeleteShortcut i) st = deleteShortcut i st"

inductive reachable_shortcuts :: "shortcut_form \<Rightarrow> bool" where
  init: "reachable_shortcuts \<lparr>shortcuts = [], newShortcutTitle = [], newShortcutUrl = []\<rparr>"
| step: "reachable_shortcuts st \<Longrightarrow> reachable_shortcuts (shortcut_step a st)"

definition shortcut_ok :: "shortcut \<Rightarrow> bool" where
  "shortcut_ok s \<longleftrightarrow> url s \<noteq> [] \<and> js_trim (url s) = url s \<and> shortcut_title s \<noteq> []"

subsection \<open>Lemmas\<close>

lemma shortcut_step_ok:
  "list_all shortcut_ok (shortcuts st) \<Longrightarrow> list_all shortcut_ok (shortcuts (shortcut_step a st))"
proof (cases a)
  case AddShortcut
  assume ok: "list_all shortcut_ok (shortcuts st)"
  with AddShortcut show ?thesis
    by (auto simp: handleAddShortcut_def Let_def shortcut_ok_def split: sum.splits if_splits)
next
  case (DeleteShortcut i)
  assume ok: "list_all shortcut_ok (shortcuts st)"
  from set_filter_index [of "\<lambda>j. j \<noteq> i" "shortcuts st"] ok DeleteShortcut show ?thesis by (auto simp: deleteShortcut_def list_all_iff)
qed simp_all

subsection \<open>Properties of the shortcuts\<close>

text \<open>
  Deleting the \<open>i\<close>-th entry of the management list removes exactly that user shortcut
  (an index past the end removes nothing), and the home grid still starts with the 11 defaults.
\<close>

lemma deleteShortcut_removes_nth:
  "shortcuts (deleteShortcut i st) = take i (shortcuts st) @ drop (Suc i) (shortcuts st)
   \<and> allShortcuts (deleteShortcut i st) = DEFAULT_SHORTCUTS @ take i (shortcuts st) @ drop (Suc i) (shortcuts st)"
  by (simp add: deleteShortcut_def allShortcuts_def filter_index_remove_nth)

text \<open>
  Invariant: every user shortcut reached from an empty list has a non-empty trimmed URL and a
  non-empty title (the URL when the title was left blank).
\<close>

lemma reachable_shortcuts_ok: "reachable_shortcuts st \<Longrightarrow> list_all shortcut_ok (shortcuts st)"
proof (induction rule: reachable_shortcuts.induct)
  case init
  then show ?case by simp
next
  case (step st a)
  from step.IH show ?case by (rule shortcut_step_ok)
qed

lemma handleExport_empty: "handleExport st = Inl NothingToExport \<longleftrightarrow> shortcuts st = []"
  by (simp add: handleExport_def)

text \<open>
  The grid renders unless a user shortcut's URL fails to parse and contains a lone surrogate:
  then \<open>encodeURIComponent\<close> throws while rendering.
\<close>

lemma ShortcutGrid_fails:
  "ShortcutGrid hostname st = None \<longleftrightarrow>
     (\<exists>s\<in>set (allShortcuts st). code_points (getDomainFromUrl hostname (url s)) = None)"
proof -
  have "those (map f xs) = None \<longleftrightarrow> (\<exists>x\<in>set xs. f x = None)" for f :: "shortcut \<Rightarrow> (shortcut \<times> jsstr) option" and xs
    by (induction xs) (auto split: option.split)
  then show ?thesis
    by (simp add: ShortcutGrid_def favicon_src_def encodeURIComponent_fails [symmetric])
qed

lemma length_DEFAULT_SHORTCUTS: "length DEFAULT_SHORTCUTS = 11"
  by (simp add: DEFAULT_SHORTCUTS_def)

subsection \<open>Witnesses\<close>

lemma reachable_shortcuts_ok_witness:
  "list_all shortcut_ok (shortcuts (shortcut_step AddShortcut
     \<lparr>shortcuts = [], newShortcutTitle = [], newShortcutUrl = js_str ''https://example.org''\<rparr>))"
  by (rule reachable_shortcuts_ok)
     (rule reachable_shortcuts.step [OF reachable_shortcuts.step [OF reachable_shortcuts.init,
        of "SetShortcutUrl (js_str ''https://example.org'')", simplified]])

end
