(* ===== verification/PersonalPanel.thy ===== *)
theory PersonalPanel
  imports Prelude
begin

text \<open>
  The personal panel (\<^verbatim>\<open>src/components/OtherPanels.tsx\<close>, lines 174--237): the note pad
  \<open>Notes\<close>, with the persisted text \<open>dashboard_notes_v3\<close> and the edited copy \<open>tempNotes\<close>
  (re-synchronised by the effect of line 177 whenever the stored text changes), and the
  \<open>TodoList\<close> over the persisted \<open>dashboard_todo_v3\<close> (the type \<open>TodoItem\<close>,
  \<^verbatim>\<open>src/types.ts\<close>, lines 6--9). Handlers taking an index use the index filter and map of
  the list the user sees.
\<close>

subsection \<open>Notes\<close>

record notes_state =
  savedNotes :: jsstr
  tempNotes :: jsstr

text \<open>Setting the stored text runs the synchronising effect, which copies it to the editor.\<close>

definition setNotes :: "jsstr \<Rightarrow> 'a notes_state_scheme \<Rightarrow> 'a notes_state_scheme" where
  "setNotes v st = (if v = savedNotes st then st else st\<lparr>savedNotes := v, tempNotes := v\<rparr>)"

datatype notes_action = EditNotes jsstr | SaveNotes | ClearNotes bool

fun notes_step :: "notes_action \<Rightarrow> 'a notes_state_scheme \<Rightarrow> 'a notes_state_scheme" where
  "notes_step (EditNotes v) st = st\<lparr>tempNotes := v\<rparr>"
| "notes_step SaveNotes st = setNotes (tempNotes st) st"
| "notes_step (ClearNotes confirmed) st = (if confirmed then st\<lparr>tempNotes := []\<rparr> else st)"

subsection \<open>The to-do list\<close>

record todo_item =
  todo_txt :: jsstr
  todo_done :: bool

record todo_state =
  todos :: "todo_item list"
  newTodo :: jsstr

definition addTodo :: "'a todo_state_scheme \<Rightarrow> 'a todo_state_scheme" where
  "addTodo st =
     (if js_trim (newTodo st) = [] then st
      else st\<lparr>todos := todos st @ [\<lparr>todo_txt = js_trim (newTodo st), todo_done = False\<rparr>], newTodo := []\<rparr>)"

definition toggleTodo :: "nat \<Rightarrow> 'a todo_state_scheme \<Rightarrow> 'a todo_state_scheme" where
  "toggleTodo index st =
     st\<lparr>todos := map (\<lambda>(todo, i). if i = index then todo\<lparr>todo_done := \<not> todo_done todo\<rparr> else todo)
                     (zip (todos st) [0..<length (todos st)])\<rparr>"

definition deleteTodo :: "nat \<Rightarrow> 'a todo_state_scheme \<Rightarrow> 'a todo_state_scheme" where
  "deleteTodo index st = st\<lparr>todos := filter_index (\<lambda>i. i \<noteq> index) (todos st)\<rparr>"

definition clearDone :: "'a todo_state_scheme \<Rightarrow> 'a todo_state_scheme" where
  "clearDone st = st\<lparr>todos := filter (\<lambda>t. \<not> todo_done t) (todos st)\<rparr>"

definition clearAllTodos :: "bool \<Rightarrow> 'a todo_state_scheme \<Rightarrow> 'a todo_state_scheme" where
  "clearAllTodos confirmed st = (if confirmed then st\<lparr>todos := []\<rparr> else st)"

datatype todo_action = SetNewTodo jsstr | AddTodo | ToggleTodo nat | DeleteTodo nat | ClearDone
  | ClearAllTodos bool

fun todo_step :: "todo_action \<Rightarrow> 'a todo_state_scheme \<Rightarrow> 'a todo_state_scheme" where
  "todo_step (SetNewTodo v) st = st\<lparr>newTodo := v\<rparr>"
| "todo_step AddTodo st = addTodo st"
| "todo_step (ToggleTodo i) st = toggleTodo i st"
| "todo_step (DeleteTodo i) st = deleteTodo i st"
| "todo_step ClearDone st = clearDone st"
| "todo_step (ClearAllTodos c) st = clearAllTodos c st"

inductive reachable_todos :: "todo_state \<Rightarrow> bool" where
  init: "reachable_todos \<lparr>todos = [], newTodo = []\<rparr>"
| step: "reachable_todos st \<Longrightarrow> reachable_todos (todo_step a st)"

definition todo_ok :: "todo_item \<Rightarrow> bool" where
  "todo_ok t \<longleftrightarrow> todo_txt t \<noteq> [] \<and> js_trim (todo_txt t) = todo_txt t"

subsection \<open>Lemmas\<close>

lemma toggle_map_eq:
  "map (\<lambda>(todo, i). if i = index then todo\<lparr>todo_done := \<not> todo_done todo\<rparr> else todo) (zip xs [0..<length xs])
     = (if index < length xs then xs[index := (xs ! index)\<lparr>todo_done := \<not> todo_done (xs ! index)\<rparr>] else xs)"
  by (rule nth_equalityI) (auto simp: nth_list_update)

lemma toggleTodo_todos:
  "todos (toggleTodo index st) =
     (if index < length (todos st)
      then (todos st)[index := (todos st ! index)\<lparr>todo_done := \<not> todo_done (todos st ! index)\<rparr>] else todos st)"
  by (simp add: toggleTodo_def toggle_map_eq)

lemma todo_step_ok: "list_all todo_ok (todos st) \<Longrightarrow> list_all todo_ok (todos (todo_step a st))"
proof (cases a)
  case AddTodo
  assume "list_all todo_ok (todos st)"
  with AddTodo show ?thesis by (simp add: addTodo_def todo_ok_def)
next
  case (ToggleTodo i)
  assume ok: "list_all todo_ok (todos st)"
  have "todo_ok (x\<lparr>todo_done := b\<rparr>) = todo_ok x" for x :: todo_item and b by (simp add: todo_ok_def)
  with ok ToggleTodo show ?thesis
    by (auto simp: toggleTodo_todos list_all_iff dest: set_update_subset_insert [THEN subsetD])
next
  case (DeleteTodo i)
  assume ok: "list_all todo_ok (todos st)"
  with DeleteTodo set_filter_index [of "\<lambda>j. j \<noteq> i" "todos st"] show ?thesis
    by (auto simp: deleteTodo_def list_all_iff)
qed (simp_all add: clearDone_def clearAllTodos_def list_all_iff)

subsection \<open>Properties of the personal panel\<close>

text \<open>
  Ticking a to-do's box twice restores the list; one tick flips the \<open>done\<close> flag of that
  item only and keeps every text and the list's length.
\<close>

lemma toggleTodo_twice:
  "toggleTodo i (toggleTodo i st) = st
   \<and> map todo_txt (todos (toggleTodo i st)) = map todo_txt (todos st)
   \<and> length (todos (toggleTodo i st)) = length (todos st)
   \<and> (\<forall>j < length (todos st). todo_done (todos (toggleTodo i st) ! j) = (if j = i then \<not> todo_done (todos st ! j) else todo_done (todos st ! j)))"
proof -
  have "todos (toggleTodo i (toggleTodo i st)) = todos st"
    by (simp add: toggleTodo_todos list_update_overwrite)
  then have "toggleTodo i (toggleTodo i st) = st" by (simp add: toggleTodo_def)
  moreover have "map todo_txt (todos (toggleTodo i st)) = map todo_txt (todos st)"
    by (simp add: toggleTodo_todos map_update) (metis list_update_id nth_map)
  ultimately show ?thesis by (simp add: toggleTodo_todos nth_list_update)
qed

text \<open>
  Invariant of the to-do list: every item reached from an empty list has a non-empty trimmed text.
\<close>

lemma reachable_todos_ok: "reachable_todos st \<Longrightarrow> list_all todo_ok (todos st)"
proof (induction rule: reachable_todos.induct)
  case init
  then show ?case by simp
next
  case (step st a)
  from step.IH show ?case by (rule todo_step_ok)
qed

text \<open>
  "Clear" in the note pad empties only the editor: the stored note is kept, and the next change
  of the stored text (or a reload) brings the old text back.
\<close>

lemma clear_notes_keeps_saved: "savedNotes (notes_step (ClearNotes c) st) = savedNotes st"
  by simp

lemma save_notes_syncs: "tempNotes (notes_step SaveNotes st) = savedNotes (notes_step SaveNotes st)"
  by (simp add: setNotes_def)

subsection \<open>Witnesses\<close>

lemma reachable_todos_ok_witness:
  "list_all todo_ok (todos (todo_step AddTodo \<lparr>todos = [], newTodo = js_str ''milk''\<rparr>))"
  by (rule reachable_todos_ok)
     (rule reachable_todos.step [OF reachable_todos.step [OF reachable_todos.init, of "SetNewTodo (js_str ''milk'')", simplified]])

lemma toggleTodo_twice_witness:
  "toggleTodo 0 (toggleTodo 0 \<lparr>todos = [\<lparr>todo_txt = js_str ''milk'', todo_done = False\<rparr>], newTodo = []\<rparr>)
     = \<lparr>todos = [\<lparr>todo_txt = js_str ''milk'', todo_done = False\<rparr>], newTodo = []\<rparr>
   \<and> todo_done (todos (toggleTodo 0 \<lparr>todos = [\<lparr>todo_txt = js_str ''milk'', todo_done = False\<rparr>], newTodo = []\<rparr>) ! 0)"
  using toggleTodo_twice [of 0 "\<lparr>todos = [\<lparr>todo_txt = js_str ''milk'', todo_done = False\<rparr>], newTodo = []\<rparr>"]
  by simp

end
