(* ===== verification/ToolsPanel.thy ===== *)
theory ToolsPanel
  imports Prelude
begin

text \<open>
  The tools panel (\<^verbatim>\<open>src/components/OtherPanels.tsx\<close>, lines 8--137): the \<open>Calculator\<close> and
  the \<open>Timer\<close>. The calculator hands a validated expression to the JavaScript engine
  (\<open>Function('"use strict"; return (...)')()\<close>); the engine is the parameter \<open>eval_js\<close>,
  which returns the printed value or \<open>None\<close> when the evaluation throws. The result line's
  messages are the constructors of \<open>calc_result\<close>. The timer is a state machine in
  milliseconds: the effect of lines 86--108 starts an interval of 250 ms whenever \<open>isRunning\<close>,
  \<open>timerMode\<close> or \<open>elapsed\<close> change while running; a tick runs its callback at the start
  time of the interval plus a multiple of 250 ms.
\<close>

subsection \<open>Calculator\<close>

text \<open>The characters \<open>/^[0-9+\-*/().%\s]+$/\<close> accepts (\<open>\s\<close> is the white space of \<open>trim\<close>).\<close>

definition calc_char :: "16 word \<Rightarrow> bool" where
  "calc_char c \<longleftrightarrow> is_digit c \<or> c \<in> set (js_str ''+-*/().%'') \<or> js_is_space c"

definition calc_valid :: "jsstr \<Rightarrow> bool" where
  "calc_valid e \<longleftrightarrow> e \<noteq> [] \<and> list_all calc_char e"

text \<open>\<open>expression.replace(/%/g, '/100')\<close>.\<close>

definition sanitize :: "jsstr \<Rightarrow> jsstr" where
  "sanitize e = concat (map (\<lambda>c. if c = 0x25 then js_str ''/100'' else [c]) e)"

text \<open>\<open>s.split(sep)[0]\<close>: the text before the first occurrence of \<open>sep\<close>.\<close>

fun split_first :: "jsstr \<Rightarrow> jsstr \<Rightarrow> jsstr" where
  "split_first sep [] = []"
| "split_first sep (c # cs) = (if take (length sep) (c # cs) = sep then [] else c # split_first sep cs)"

datatype calc_result = NoResult | InvalidExpression | ResultOf jsstr | CalcFailed

record calc_state =
  expression :: jsstr
  result :: calc_result
  calc_history :: "jsstr list"

definition calculate :: "(jsstr \<Rightarrow> jsstr option) \<Rightarrow> 'a calc_state_scheme \<Rightarrow> 'a calc_state_scheme" where
  "calculate eval_js st =
     (if expression st = [] then st\<lparr>result := NoResult\<rparr>
      else if \<not> calc_valid (expression st) then st\<lparr>result := InvalidExpression\<rparr>
      else (case eval_js (sanitize (expression st)) of
              None \<Rightarrow> st\<lparr>result := CalcFailed\<rparr>
            | Some val \<Rightarrow>
                (let newEntry = expression st @ js_str '' = '' @ val in
                 st\<lparr>result := ResultOf val, calc_history := take 50 (newEntry # calc_history st)\<rparr>)))"

text \<open>Clicking a history entry puts its expression back into the input.\<close>

definition recall :: "jsstr \<Rightarrow> 'a calc_state_scheme \<Rightarrow> 'a calc_state_scheme" where
  "recall item st = st\<lparr>expression := split_first (js_str '' = '') item\<rparr>"

definition clearCalcHistory :: "bool \<Rightarrow> 'a calc_state_scheme \<Rightarrow> 'a calc_state_scheme" where
  "clearCalcHistory confirmed st = (if confirmed then st\<lparr>calc_history := []\<rparr> else st)"

text \<open>The clear button next to "calculate" (line 34) empties the input and the result line.\<close>

definition clearExpression :: "'a calc_state_scheme \<Rightarrow> 'a calc_state_scheme" where
  "clearExpression st = st\<lparr>expression := [], result := NoResult\<rparr>"

text \<open>
  The user's actions (lines 31--57): typing, "calculate" or Enter, clear, clicking or pressing
  Enter or space on the \<open>i\<close>-th history entry, and "clear history" behind \<open>confirm\<close>.
\<close>

datatype calc_action = SetExpression jsstr | Calculate | ClearInput | Recall nat | ClearHistoryCalc bool

fun calc_step :: "(jsstr \<Rightarrow> jsstr option) \<Rightarrow> calc_action \<Rightarrow> calc_state \<Rightarrow> calc_state" where
  "calc_step eval_js (SetExpression v) st = st\<lparr>expression := v\<rparr>"
| "calc_step eval_js Calculate st = calculate eval_js st"
| "calc_step eval_js ClearInput st = clearExpression st"
| "calc_step eval_js (Recall i) st =
     (if i < length (calc_history st) then recall (calc_history st ! i) st else st)"
| "calc_step eval_js (ClearHistoryCalc c) st = clearCalcHistory c st"

inductive reachable_calc :: "(jsstr \<Rightarrow> jsstr option) \<Rightarrow> calc_state \<Rightarrow> bool" for eval_js where
  init: "reachable_calc eval_js \<lparr>expression = [], result = NoResult, calc_history = []\<rparr>"
| step: "reachable_calc eval_js st \<Longrightarrow> reachable_calc eval_js (calc_step eval_js a st)"

definition calc_ok :: "calc_state \<Rightarrow> bool" where
  "calc_ok st \<longleftrightarrow> length (calc_history st) \<le> 50
     \<and> (\<forall>item\<in>set (calc_history st). calc_valid (split_first (js_str '' = '') item))"

subsection \<open>Timer\<close>

text \<open>\<open>formatHMS\<close>: hours, minutes and seconds, each padded to two digits, joined by colons.\<close>

definition pad2 :: "nat \<Rightarrow> jsstr" where
  "pad2 v = (let s = dec_digits v in replicate (2 - length s) (digit_unit 0) @ s)"

definition formatHMS :: "nat \<Rightarrow> jsstr" where
  "formatHMS s = pad2 (s div 3600) @ js_str '':'' @ pad2 (s mod 3600 div 60) @ js_str '':'' @ pad2 (s mod 60)"

datatype timer_mode = Stopwatch | Countdown

text \<open>
  The component's state, with the interval the effect installed: its start \<open>effStart\<close>, the
  ticks it has run, and the \<open>startTime\<close> and \<open>targetTime\<close> it captured; \<open>clock\<close> is
  \<open>Date.now()\<close> and \<open>alerts\<close> counts the completion alerts.
\<close>

record timer_state =
  elapsed :: nat
  isRunning :: bool
  timerMode :: timer_mode
  minutes :: jsstr
  clock :: int
  effStart :: int
  ticks :: nat
  startTime :: int
  targetTime :: int
  alerts :: nat

text \<open>The effect re-runs after a render that changed one of its dependencies.\<close>

definition timer_effect :: "timer_state \<Rightarrow> timer_state" where
  "timer_effect st =
     (if isRunning st then
        st\<lparr>effStart := clock st, ticks := 0,
           startTime := clock st - (if timerMode st = Stopwatch then 1000 * int (elapsed st) else 0),
           targetTime := clock st + 1000 * int (elapsed st)\<rparr>
      else st)"

definition timer_commit :: "timer_state \<Rightarrow> timer_state \<Rightarrow> timer_state" where
  "timer_commit old new =
     (if (isRunning new, timerMode new, elapsed new) = (isRunning old, timerMode old, elapsed old) then new
      else timer_effect new)"

text \<open>\<open>Math.ceil(x / 1000)\<close> on integers.\<close>

definition ceil_div_1000 :: "int \<Rightarrow> int" where
  "ceil_div_1000 x = - ((- x) div 1000)"

text \<open>One tick of the interval (lines 91--103); nothing happens when no interval runs.\<close>

definition timer_tick :: "timer_state \<Rightarrow> timer_state" where
  "timer_tick st =
     (if \<not> isRunning st then st
      else
        (let now = effStart st + 250 * int (Suc (ticks st));
             st1 = st\<lparr>clock := now, ticks := Suc (ticks st)\<rparr>
         in if timerMode st = Stopwatch then
              timer_commit st1 (st1\<lparr>elapsed := nat ((now - startTime st) div 1000)\<rparr>)
            else
              (let remaining = max 0 (ceil_div_1000 (targetTime st - now)) in
               if remaining \<le> 0 then
                 timer_commit st1 (st1\<lparr>isRunning := False, elapsed := 0, alerts := Suc (alerts st)\<rparr>)
               else timer_commit st1 (st1\<lparr>elapsed := nat remaining\<rparr>))))"

text \<open>\<open>parseInt(minutes, 10)\<close> on what an \<open>input type="number"\<close> delivers: optional sign and digits.\<close>

definition js_parseInt :: "jsstr \<Rightarrow> jsnum" where
  "js_parseInt s =
     (let t = dropWhile js_is_space s;
          neg = (t \<noteq> [] \<and> hd t = 0x2D);
          u = (if t \<noteq> [] \<and> (hd t = 0x2D \<or> hd t = 0x2B) then tl t else t);
          ds = takeWhile is_digit u
      in if ds = [] then NaN else Num ((if neg then -1 else 1) * dec_value ds 0))"

definition handleStart :: "timer_state \<Rightarrow> timer_state" where
  "handleStart st = timer_commit st (st\<lparr>timerMode := Stopwatch, isRunning := True\<rparr>)"

definition handlePause :: "timer_state \<Rightarrow> timer_state" where
  "handlePause st = timer_commit st (st\<lparr>isRunning := False\<rparr>)"

definition handleReset :: "timer_state \<Rightarrow> timer_state" where
  "handleReset st = timer_commit st (st\<lparr>isRunning := False, elapsed := 0\<rparr>)"

datatype timer_error = NoMinutes

definition handleStartCountdown :: "timer_state \<Rightarrow> timer_error + timer_state" where
  "handleStartCountdown st =
     (case js_parseInt (minutes st) of
        Num mins \<Rightarrow> if mins \<le> 0 then Inl NoMinutes
                   else Inr (timer_commit st (st\<lparr>timerMode := Countdown, elapsed := nat (mins * 60), isRunning := True\<rparr>))
      | NaN \<Rightarrow> Inl NoMinutes)"

text \<open>
  The timer's inputs: its five controls (the minutes field included), one tick of the interval,
  and time passing while no interval runs (the interval's ticks are the only clock while one does).
\<close>

datatype timer_action = TStart | TPause | TReset | TSetMinutes jsstr | TStartCountdown | TTick | TWait nat

fun timer_step :: "timer_action \<Rightarrow> timer_state \<Rightarrow> timer_state" where
  "timer_step TStart st = handleStart st"
| "timer_step TPause st = handlePause st"
| "timer_step TReset st = handleReset st"
| "timer_step (TSetMinutes v) st = st\<lparr>minutes := v\<rparr>"
| "timer_step TStartCountdown st = (case handleStartCountdown st of Inl _ \<Rightarrow> st | Inr st' \<Rightarrow> st')"
| "timer_step TTick st = timer_tick st"
| "timer_step (TWait d) st = (if isRunning st then st else st\<lparr>clock := clock st + int d\<rparr>)"

text \<open>The mounted timer at time \<open>c\<close>: 00:00:00, stopped, in stopwatch mode, with an empty field.\<close>

definition timer_init :: "int \<Rightarrow> timer_state" where
  "timer_init c = \<lparr>elapsed = 0, isRunning = False, timerMode = Stopwatch, minutes = [], clock = c,
     effStart = c, ticks = 0, startTime = c, targetTime = c, alerts = 0\<rparr>"

inductive reachable_timer :: "timer_state \<Rightarrow> bool" where
  init: "reachable_timer (timer_init c)"
| step: "reachable_timer st \<Longrightarrow> reachable_timer (timer_step a st)"

text \<open>
  The display of a running timer: in stopwatch mode the whole seconds since the start, in
  countdown mode the seconds left rounded up, which stay positive while it runs; the interval's
  ticks are 250 ms apart from the effect's start.
\<close>

definition timer_ok :: "timer_state \<Rightarrow> bool" where
  "timer_ok st \<longleftrightarrow> (isRunning st \<longrightarrow>
     clock st = effStart st + 250 * int (ticks st)
     \<and> (timerMode st = Stopwatch \<longrightarrow> startTime st \<le> effStart st
          \<and> int (elapsed st) = (clock st - startTime st) div 1000)
     \<and> (timerMode st = Countdown \<longrightarrow> 0 < elapsed st
          \<and> int (elapsed st) = ceil_div_1000 (targetTime st - clock st)))"

subsection \<open>Calculator lemmas\<close>

lemma split_first_append:
  assumes "0x3D \<notin> set xs"
  shows "split_first (js_str '' = '') (xs @ js_str '' = '' @ ys) = xs"
  using assms
proof (induction xs)
  case Nil
  then show ?case by (simp add: js_str_def)
next
  case (Cons x xs)
  have h: "take 3 (x # xs @ js_str '' = '' @ ys) \<noteq> js_str '' = ''"
  proof
    assume p: "take 3 (x # xs @ js_str '' = '' @ ys) = js_str '' = ''"
    show False
    proof (cases xs)
      case Nil
      with p show False by (simp add: js_str_def)
    next
      case (Cons y zs)
      with p have "y = 0x3D" by (simp add: js_str_def)
      with Cons \<open>0x3D \<notin> set (x # xs)\<close> show False by simp
    qed
  qed
  have l: "length (js_str '' = '') = 3" by (simp add: js_str_def)
  have "split_first (js_str '' = '') (x # xs @ js_str '' = '' @ ys)
      = x # split_first (js_str '' = '') (xs @ js_str '' = '' @ ys)"
    by (simp only: split_first.simps l if_not_P [OF h] append_Cons)
  with Cons show ?case by simp
qed

lemma calc_valid_no_eq: "calc_valid e \<Longrightarrow> 0x3D \<notin> set e"
  by (auto simp: calc_valid_def list_all_iff calc_char_def is_digit_def js_is_space_def js_str_def)

lemma calc_step_ok: "calc_ok st \<Longrightarrow> calc_ok (calc_step eval_js a st)"
proof (cases a)
  case Calculate
  assume ok: "calc_ok st"
  have "calc_valid (split_first (js_str '' = '') (expression st @ js_str '' = '' @ v))"
    if "calc_valid (expression st)" for v
    using that split_first_append [OF calc_valid_no_eq [OF that]] by simp
  with ok Calculate show ?thesis
    by (auto simp: calculate_def calc_ok_def Let_def dest: in_set_takeD split: option.split)
qed (auto simp: calc_ok_def clearExpression_def recall_def clearCalcHistory_def)

text \<open>
  Invariant of the calculator: at most 50 history entries, and clicking any of them puts back a
  valid expression.
\<close>

lemma reachable_calc_ok: "reachable_calc eval_js st \<Longrightarrow> calc_ok st"
proof (induction rule: reachable_calc.induct)
  case init
  then show ?case by (simp add: calc_ok_def)
next
  case (step st a)
  from step.IH show ?case by (rule calc_step_ok)
qed

subsection \<open>Timer lemmas\<close>

lemma ceil_div_1000_sub: "0 \<le> r \<Longrightarrow> r < 1000 \<Longrightarrow> ceil_div_1000 (1000 * e - r) = e"
proof -
  assume r: "0 \<le> r" "r < 1000"
  have "- (1000 * e - r) = r + (- e) * 1000" by simp
  then have "(- (1000 * e - r)) div 1000 = - e" using r by simp
  then show ?thesis by (simp add: ceil_div_1000_def)
qed

text \<open>A countdown interval that has been running for \<open>j < 3\<close> ticks of a second with
  \<open>e\<close> seconds left: the next tick only advances the clock.\<close>

lemma countdown_tick_wait:
  assumes "isRunning st" "timerMode st = Countdown" "ticks st = j" "j < 3"
    "targetTime st = effStart st + 1000 * int e" "elapsed st = e" "1 \<le> e"
  shows "timer_tick st = st\<lparr>clock := effStart st + 250 * int (Suc j), ticks := Suc j\<rparr>"
proof -
  have "targetTime st - (effStart st + 250 * int (Suc j)) = 1000 * int e - 250 * int (Suc j)"
    using assms(5) by simp
  moreover have "ceil_div_1000 (1000 * int e - 250 * int (Suc j)) = int e"
    by (rule ceil_div_1000_sub) (use assms(4) in simp_all)
  ultimately show ?thesis using assms
    by (simp add: timer_tick_def Let_def timer_commit_def)
qed

lemma countdown_tick_second:
  assumes "isRunning st" "timerMode st = Countdown" "ticks st = 3"
    "targetTime st = effStart st + 1000 * int e" "elapsed st = e" "1 \<le> e"
  shows "timer_tick st =
    (if e = 1 then st\<lparr>clock := effStart st + 1000, ticks := 4, isRunning := False, elapsed := 0, alerts := Suc (alerts st)\<rparr>
     else st\<lparr>clock := effStart st + 1000, ticks := 0, elapsed := e - 1, effStart := effStart st + 1000,
              startTime := effStart st + 1000, targetTime := effStart st + 1000 + 1000 * int (e - 1)\<rparr>)"
proof -
  have "targetTime st - (effStart st + 250 * int (Suc 3)) = 1000 * int (e - 1) - 0"
    using assms(4,6) by (simp add: of_nat_diff algebra_simps)
  moreover have "ceil_div_1000 (1000 * int (e - 1) - 0) = int (e - 1)"
    by (rule ceil_div_1000_sub) simp_all
  ultimately show ?thesis using assms
    by (auto simp: timer_tick_def Let_def timer_commit_def timer_effect_def of_nat_diff)
qed

definition countdown_armed :: "timer_state \<Rightarrow> int \<Rightarrow> nat \<Rightarrow> bool" where
  "countdown_armed st c e \<longleftrightarrow> isRunning st \<and> timerMode st = Countdown \<and> ticks st = 0 \<and> effStart st = c
     \<and> targetTime st = c + 1000 * int e \<and> elapsed st = e"

lemma countdown_second:
  assumes "countdown_armed st c e" "1 \<le> e"
  shows "(timer_tick ^^ 4) st =
    (if e = 1 then st\<lparr>clock := c + 1000, ticks := 4, isRunning := False, elapsed := 0, alerts := Suc (alerts st)\<rparr>
     else st\<lparr>clock := c + 1000, ticks := 0, elapsed := e - 1, effStart := c + 1000,
              startTime := c + 1000, targetTime := c + 1000 + 1000 * int (e - 1)\<rparr>)"
proof -
  have a: "isRunning st" "timerMode st = Countdown" "ticks st = 0" "effStart st = c"
      "targetTime st = c + 1000 * int e" "elapsed st = e"
    using assms(1) by (simp_all add: countdown_armed_def)
  have t1: "timer_tick st = st\<lparr>clock := c + 250, ticks := 1\<rparr>"
    using countdown_tick_wait [of st 0 e] a assms(2) by simp
  have t2: "timer_tick (st\<lparr>clock := c + 250, ticks := 1\<rparr>) = st\<lparr>clock := c + 500, ticks := 2\<rparr>"
    using countdown_tick_wait [of "st\<lparr>clock := c + 250, ticks := 1\<rparr>" 1 e] a assms(2) by simp
  have t3: "timer_tick (st\<lparr>clock := c + 500, ticks := 2\<rparr>) = st\<lparr>clock := c + 750, ticks := 3\<rparr>"
    using countdown_tick_wait [of "st\<lparr>clock := c + 500, ticks := 2\<rparr>" 2 e] a assms(2) by simp
  have t4: "timer_tick (st\<lparr>clock := c + 750, ticks := 3\<rparr>) =
    (if e = 1 then st\<lparr>clock := c + 1000, ticks := 4, isRunning := False, elapsed := 0, alerts := Suc (alerts st)\<rparr>
     else st\<lparr>clock := c + 1000, ticks := 0, elapsed := e - 1, effStart := c + 1000,
              startTime := c + 1000, targetTime := c + 1000 + 1000 * int (e - 1)\<rparr>)"
    using countdown_tick_second [of "st\<lparr>clock := c + 750, ticks := 3\<rparr>" e] a assms(2) by simp
  have "(timer_tick ^^ 4) st = timer_tick (timer_tick (timer_tick (timer_tick st)))"
    by (simp add: numeral_eq_Suc)
  with t1 t2 t3 t4 show ?thesis by simp
qed

lemma countdown_run:
  "countdown_armed st c e \<Longrightarrow> 1 \<le> e \<Longrightarrow>
   \<exists>st'. (timer_tick ^^ (4 * e)) st = st' \<and> \<not> isRunning st' \<and> elapsed st' = 0
      \<and> clock st' = c + 1000 * int e \<and> alerts st' = Suc (alerts st)"
proof (induction e arbitrary: st c)
  case 0
  then show ?case by simp
next
  case (Suc e)
  show ?case
  proof (cases "e = 0")
    case True
    with countdown_second [OF Suc.prems(1)] show ?thesis by simp
  next
    case False
    let ?st = "st\<lparr>clock := c + 1000, ticks := 0, elapsed := e, effStart := c + 1000,
              startTime := c + 1000, targetTime := c + 1000 + 1000 * int e\<rparr>"
    have s: "(timer_tick ^^ 4) st = ?st" using countdown_second [OF Suc.prems(1)] False by simp
    have arm: "countdown_armed ?st (c + 1000) e" using Suc.prems(1) by (simp add: countdown_armed_def)
    obtain st' where st': "(timer_tick ^^ (4 * e)) ?st = st'" "\<not> isRunning st'" "elapsed st' = 0"
        "clock st' = c + 1000 + 1000 * int e" "alerts st' = Suc (alerts ?st)"
      using Suc.IH [OF arm] False by auto
    have "(timer_tick ^^ (4 * Suc e)) st = (timer_tick ^^ (4 * e)) ((timer_tick ^^ 4) st)"
    proof -
      have "4 * Suc e = 4 * e + 4" by simp
      then show ?thesis by (simp only: funpow_add comp_apply)
    qed
    with s st' show ?thesis by (simp add: algebra_simps)
  qed
qed

lemma timer_effect_ok:
  "(isRunning st \<and> timerMode st = Countdown \<longrightarrow> 0 < elapsed st) \<Longrightarrow> timer_ok (timer_effect st)"
  by (cases "timerMode st") (auto simp: timer_ok_def timer_effect_def ceil_div_1000_def)

lemma timer_commit_ok:
  assumes "isRunning new \<and> timerMode new = Countdown \<longrightarrow> 0 < elapsed new"
    and "(isRunning new, timerMode new, elapsed new) = (isRunning old, timerMode old, elapsed old) \<Longrightarrow> timer_ok new"
  shows "timer_ok (timer_commit old new)"
  using assms timer_effect_ok [of new] by (auto simp: timer_commit_def)

lemma timer_tick_ok:
  assumes ok: "timer_ok st"
  shows "timer_ok (timer_tick st)"
proof (cases "isRunning st")
  case False
  then show ?thesis using ok by (simp add: timer_tick_def)
next
  case run: True
  define now where "now = effStart st + 250 * int (Suc (ticks st))"
  define st1 where "st1 = st\<lparr>clock := now, ticks := Suc (ticks st)\<rparr>"
  show ?thesis
  proof (cases "timerMode st")
    case Stopwatch
    with ok run have "startTime st \<le> now" by (simp add: timer_ok_def now_def)
    then have "timer_ok (st1\<lparr>elapsed := nat ((now - startTime st) div 1000)\<rparr>)"
      using ok run Stopwatch by (simp add: timer_ok_def st1_def now_def)
    moreover have "timer_tick st = timer_commit st1 (st1\<lparr>elapsed := nat ((now - startTime st) div 1000)\<rparr>)"
      using run Stopwatch by (simp add: timer_tick_def Let_def st1_def now_def)
    ultimately show ?thesis using Stopwatch by (simp add: timer_commit_ok st1_def)
  next
    case Countdown
    let ?r = "max 0 (ceil_div_1000 (targetTime st - now))"
    have "timer_ok (st1\<lparr>isRunning := False, elapsed := 0, alerts := Suc (alerts st)\<rparr>)"
      by (simp add: timer_ok_def)
    moreover have "0 < ?r \<Longrightarrow> timer_ok (st1\<lparr>elapsed := nat ?r\<rparr>)"
      using run Countdown by (auto simp: timer_ok_def st1_def now_def max_def split: if_splits)
    moreover have "timer_tick st = (if ?r \<le> 0
        then timer_commit st1 (st1\<lparr>isRunning := False, elapsed := 0, alerts := Suc (alerts st)\<rparr>)
        else timer_commit st1 (st1\<lparr>elapsed := nat ?r\<rparr>))"
      using run Countdown by (simp add: timer_tick_def Let_def st1_def now_def)
    ultimately show ?thesis using Countdown by (simp add: timer_commit_ok st1_def)
  qed
qed

lemma timer_step_ok:
  assumes "timer_ok st"
  shows "timer_ok (timer_step a st)"
  using assms
proof (cases a)
  case TStartCountdown
  have "timer_ok st'" if "handleStartCountdown st = Inr st'" for st'
  proof -
    from that obtain mins where m: "0 < mins"
      and st': "st' = timer_commit st (st\<lparr>timerMode := Countdown, elapsed := nat (mins * 60), isRunning := True\<rparr>)"
      by (cases "js_parseInt (minutes st)") (force simp: handleStartCountdown_def split: if_splits)+
    let ?new = "st\<lparr>timerMode := Countdown, elapsed := nat (mins * 60), isRunning := True\<rparr>"
    show ?thesis unfolding st'
    proof (rule timer_commit_ok)
      assume "(isRunning ?new, timerMode ?new, elapsed ?new) = (isRunning st, timerMode st, elapsed st)"
      then show "timer_ok ?new" using \<open>timer_ok st\<close> by (simp add: timer_ok_def)
    qed (simp add: m)
  qed
  with TStartCountdown \<open>timer_ok st\<close> show ?thesis by (simp split: sum.split)
qed (auto simp: handleStart_def handlePause_def handleReset_def timer_tick_ok intro!: timer_commit_ok, auto simp: timer_ok_def)

text \<open>
  A running stopwatch \<open>j\<close> ticks after it was started at time \<open>c\<close> from \<open>e\<close> shown seconds: the
  interval restarts at every new second, from the same \<open>startTime\<close>.
\<close>

definition stopwatch_at :: "timer_state \<Rightarrow> int \<Rightarrow> nat \<Rightarrow> nat \<Rightarrow> bool" where
  "stopwatch_at st c e j \<longleftrightarrow> isRunning st \<and> timerMode st = Stopwatch \<and> startTime st = c - 1000 * int e
     \<and> clock st = c + 250 * int j \<and> elapsed st = e + j div 4
     \<and> effStart st = c + 1000 * int (j div 4) \<and> ticks st = j mod 4"

lemma quarter_seconds: "(250 * int n + 1000 * int e) div 1000 = int e + int (n div 4)"
proof -
  have "(250 * int n) div 1000 = int n div 4"
    using div_mult_mult1 [of "250::int" "int n" 4] by simp
  then show ?thesis by (simp add: zdiv_int)
qed

lemma stopwatch_start:
  "\<not> isRunning st \<Longrightarrow> stopwatch_at (handleStart st) (clock st) (elapsed st) 0"
  by (simp add: handleStart_def timer_commit_def timer_effect_def stopwatch_at_def)

lemma stopwatch_tick:
  assumes "stopwatch_at st c e j"
  shows "stopwatch_at (timer_tick st) c e (Suc j)"
proof -
  have a: "isRunning st" "timerMode st = Stopwatch" "startTime st = c - 1000 * int e"
    "elapsed st = e + j div 4" "effStart st = c + 1000 * int (j div 4)" "ticks st = j mod 4"
    using assms by (simp_all add: stopwatch_at_def)
  have "int j = int (4 * (j div 4) + j mod 4)" by simp
  then have jq: "int j = 4 * int (j div 4) + int (j mod 4)" by (simp only: of_nat_add of_nat_mult)
  define now where "now = c + 250 * int (Suc j)"
  have now_eq: "effStart st + 250 * int (Suc (ticks st)) = now"
    using a(5,6) jq by (simp add: now_def)
  have "(now - startTime st) div 1000 = int e + int (Suc j div 4)"
    using quarter_seconds [of "Suc j" e] a(3) by (simp add: now_def algebra_simps)
  then have el: "nat ((now - startTime st) div 1000) = e + Suc j div 4" by arith
  define st1 where "st1 = st\<lparr>clock := now, ticks := Suc (ticks st)\<rparr>"
  have tick: "timer_tick st = timer_commit st1 (st1\<lparr>elapsed := e + Suc j div 4\<rparr>)"
    using a(1,2) now_eq el by (simp add: timer_tick_def Let_def st1_def)
  show ?thesis
  proof (cases "Suc (j mod 4) = 4")
    case True
    then have d: "Suc j div 4 = Suc (j div 4)" "Suc j mod 4 = 0" by (simp_all add: div_Suc mod_Suc)
    have n: "now = c + 1000 * int (Suc (j div 4))" using jq True by (simp add: now_def)
    have "now - 1000 * int (e + Suc (j div 4)) = c - 1000 * int e" using n by simp
    then show ?thesis unfolding tick using a d n
      by (simp add: timer_commit_def timer_effect_def stopwatch_at_def st1_def now_def)
  next
    case False
    then have d: "Suc j div 4 = j div 4" "Suc j mod 4 = Suc (j mod 4)" by (simp_all add: div_Suc mod_Suc)
    then show ?thesis unfolding tick using a
      by (simp add: timer_commit_def stopwatch_at_def st1_def now_def)
  qed
qed

lemma stopwatch_run: "stopwatch_at st c e 0 \<Longrightarrow> stopwatch_at ((timer_tick ^^ j) st) c e j"
  by (induction j) (simp_all add: stopwatch_tick)

subsection \<open>Properties of the tools\<close>

text \<open>
  C34. The stopwatch counts real seconds: pressing Start on a stopped timer, after \<open>j\<close> ticks of
  250 ms it still runs in stopwatch mode and shows the seconds it showed before plus the \<open>j div 4\<close>
  whole seconds since the press. Since Start does not reset the display, a paused countdown
  continues upwards from its remaining time.
\<close>

theorem stopwatch_counts:
  assumes "\<not> isRunning st"
  shows "isRunning ((timer_tick ^^ j) (handleStart st)) \<and> timerMode ((timer_tick ^^ j) (handleStart st)) = Stopwatch
    \<and> elapsed ((timer_tick ^^ j) (handleStart st)) = elapsed st + j div 4
    \<and> clock ((timer_tick ^^ j) (handleStart st)) = clock st + 250 * int j"
  using stopwatch_run [OF stopwatch_start [OF assms], of j] by (simp add: stopwatch_at_def)

text \<open>
  Invariant of the timer: in every state reached from the mounted timer by its controls, its
  ticks and the passing of time, a running stopwatch shows the whole seconds since its start and a
  running countdown shows the seconds left rounded up, which are positive; the ticks are 250 ms
  apart from the effect's start.
\<close>

lemma reachable_timer_ok: "reachable_timer st \<Longrightarrow> timer_ok st"
  by (induction rule: reachable_timer.induct) (simp_all add: timer_init_def timer_step_ok, simp add: timer_ok_def)

text \<open>
  C35. Liveness of the countdown: starting it (while the timer is stopped) with a positive number
  of minutes \<open>m\<close> is accepted, and after \<open>240 m\<close> ticks of 250 ms the timer has stopped at
  0:00:00, exactly \<open>60 m\<close> seconds later, having raised the completion alert once.
\<close>

theorem countdown_completes:
  assumes "\<not> isRunning st" "js_parseInt (minutes st) = Num m" "0 < m"
  shows "\<exists>st' st''. handleStartCountdown st = Inr st' \<and> (timer_tick ^^ (240 * nat m)) st' = st''
     \<and> \<not> isRunning st'' \<and> elapsed st'' = 0 \<and> clock st'' = clock st + 60000 * m
     \<and> alerts st'' = Suc (alerts st)"
proof -
  let ?e = "nat (m * 60)"
  let ?st' = "timer_effect (st\<lparr>timerMode := Countdown, elapsed := ?e, isRunning := True\<rparr>)"
  have h: "handleStartCountdown st = Inr ?st'"
    using assms by (simp add: handleStartCountdown_def timer_commit_def)
  have arm: "countdown_armed ?st' (clock st) ?e" by (simp add: countdown_armed_def timer_effect_def)
  have e: "1 \<le> ?e" "4 * ?e = 240 * nat m" "1000 * int ?e = 60000 * m" using assms(3) by simp_all
  from countdown_run [OF arm e(1)] e(2,3) h show ?thesis by (auto simp: timer_effect_def)
qed

text \<open>
  C36. Round trip of the calculator's history: after a valid expression evaluates, the newest
  history entry is \<open>expression = value\<close>, at most 50 entries are kept, and clicking the newest
  entry puts the expression back (the validated expression contains no \<open>=\<close>).
\<close>

theorem calculate_recall_roundtrip:
  assumes "calc_valid (expression st)" "eval_js (sanitize (expression st)) = Some val"
  shows "result (calculate eval_js st) = ResultOf val
    \<and> hd (calc_history (calculate eval_js st)) = expression st @ js_str '' = '' @ val
    \<and> length (calc_history (calculate eval_js st)) \<le> 50
    \<and> expression (recall (hd (calc_history (calculate eval_js st))) (calculate eval_js st)) = expression st"
proof -
  have ne: "expression st \<noteq> []" using assms(1) by (simp add: calc_valid_def)
  have c: "calculate eval_js st = st\<lparr>result := ResultOf val,
      calc_history := take 50 ((expression st @ js_str '' = '' @ val) # calc_history st)\<rparr>"
    using assms ne by (simp add: calculate_def)
  show ?thesis
    unfolding c using split_first_append [OF calc_valid_no_eq [OF assms(1)]]
    by (simp add: recall_def)
qed

text \<open>An expression with other characters is refused without evaluating it or touching the history.\<close>

lemma calculate_invalid:
  "expression st \<noteq> [] \<Longrightarrow> \<not> calc_valid (expression st) \<Longrightarrow>
   calculate eval_js st = st\<lparr>result := InvalidExpression\<rparr>"
  by (simp add: calculate_def)

subsection \<open>Witnesses\<close>

lemma stopwatch_counts_witness:
  "elapsed ((timer_tick ^^ 9) (handleStart (timer_init 0))) = 2
   \<and> clock ((timer_tick ^^ 9) (handleStart (timer_init 0))) = 2250"
  using stopwatch_counts [of "timer_init 0" 9] by (simp add: timer_init_def)

lemma reachable_timer_ok_witness:
  "timer_ok (timer_step TTick (timer_step TStart (timer_init 0)))"
  by (rule reachable_timer_ok)
     (rule reachable_timer.step [OF reachable_timer.step [OF reachable_timer.init]])

lemma countdown_completes_witness:
  "\<exists>st' st''. handleStartCountdown \<lparr>elapsed = 0, isRunning = False, timerMode = Stopwatch, minutes = js_str ''1'',
       clock = 0, effStart = 0, ticks = 0, startTime = 0, targetTime = 0, alerts = 0\<rparr> = Inr st'
     \<and> (timer_tick ^^ 240) st' = st'' \<and> \<not> isRunning st'' \<and> clock st'' = 60000"
proof -
  have p: "js_parseInt (js_str ''1'') = Num 1" by code_simp
  from countdown_completes [of "\<lparr>elapsed = 0, isRunning = False, timerMode = Stopwatch, minutes = js_str ''1'',
       clock = 0, effStart = 0, ticks = 0, startTime = 0, targetTime = 0, alerts = 0\<rparr>" 1] p
  show ?thesis by auto
qed

lemma calculate_recall_roundtrip_witness:
  "expression (recall (hd (calc_history (calculate (\<lambda>_. Some (js_str ''17''))
      \<lparr>expression = js_str ''12+5'', result = NoResult, calc_history = []\<rparr>)))
      (calculate (\<lambda>_. Some (js_str ''17'')) \<lparr>expression = js_str ''12+5'', result = NoResult, calc_history = []\<rparr>))
   = js_str ''12+5''"
proof -
  have v: "calc_valid (js_str ''12+5'')" by code_simp
  have "calc_valid (expression \<lparr>expression = js_str ''12+5'', result = NoResult, calc_history = []\<rparr>)"
      "(\<lambda>_. Some (js_str ''17'')) (sanitize (expression \<lparr>expression = js_str ''12+5'', result = NoResult, calc_history = []\<rparr>))
       = Some (js_str ''17'')"
    by (simp_all add: v)
  from conjunct2 [OF conjunct2 [OF conjunct2 [OF calculate_recall_roundtrip [OF this]]]]
  show ?thesis by (simp only: calc_state.select_convs)
qed

end
