(* ===== verification/AppShell.thy ===== *)
theory AppShell
  imports Prelude
begin

text \<open>
  The application shell: the tab type \<open>Tab\<close> (\<^verbatim>\<open>src/types.ts\<close>, lines 23--32), the
  \<open>Sidebar\<close>, \<open>PageHeader\<close>, \<open>QuoteOfTheDay\<close> and \<open>Panel\<close> of
  \<^verbatim>\<open>src/components/Shared.tsx\<close>, and the top-level state of \<open>App\<close> (\<^verbatim>\<open>src/App.tsx\<close>,
  lines 9--51): the active tab, the persisted background \<open>dashboard_bg_v3\<close> and the font,
  with the two effects that write them into the inline style of \<open>document.body\<close>. The
  sidebar labels and the quotes of \<^verbatim>\<open>Shared.tsx\<close> are stored mis-decoded (UTF-8 read
  as Latin-1); only their number and order are modelled.
\<close>

subsection \<open>Tabs\<close>

datatype tab = Home | Tools | Personal | History | Design | Map | News | Music

primrec tab_value :: "tab \<Rightarrow> jsstr" where
  "tab_value Home = js_str ''home''"
| "tab_value Tools = js_str ''tools''"
| "tab_value Personal = js_str ''personal''"
| "tab_value History = js_str ''history''"
| "tab_value Design = js_str ''design''"
| "tab_value Map = js_str ''map''"
| "tab_value News = js_str ''news''"
| "tab_value Music = js_str ''music''"

instantiation tab :: enum
begin

definition "enum_tab = [Home, Tools, Personal, History, Design, Map, News, Music]"

definition "enum_all_tab P \<longleftrightarrow> P Home \<and> P Tools \<and> P Personal \<and> P History \<and> P Design \<and> P Map
  \<and> P News \<and> P Music"

definition "enum_ex_tab P \<longleftrightarrow> P Home \<or> P Tools \<or> P Personal \<or> P History \<or> P Design \<or> P Map
  \<or> P News \<or> P Music"

instance proof
  have univ: "UNIV = {Home, Tools, Personal, History, Design, Map, News, Music}"
    using tab.exhaust by auto
  show "UNIV = set (enum_class.enum :: tab list)"
    by (simp add: univ enum_tab_def)
  show "distinct (enum_class.enum :: tab list)"
    by (simp add: enum_tab_def)
  show "\<And>P. (enum_class.enum_all :: (tab \<Rightarrow> bool) \<Rightarrow> bool) P = Ball UNIV P"
    by (simp add: univ enum_all_tab_def)
  show "\<And>P. (enum_class.enum_ex :: (tab \<Rightarrow> bool) \<Rightarrow> bool) P = Bex UNIV P"
    by (simp add: univ enum_ex_tab_def)
qed

end

text \<open>The sidebar's buttons in order (lines 59--68): each is its tab with \<open>aria-selected\<close>.\<close>

definition sidebar_tabs :: "tab list" where
  "sidebar_tabs = [Home, Tools, Personal, History, Design, Map, News, Music]"

definition Sidebar :: "tab \<Rightarrow> (tab \<times> bool) list" where
  "Sidebar activeTab = map (\<lambda>tab_id. (tab_id, activeTab = tab_id)) sidebar_tabs"

text \<open>\<open>Panel\<close> (lines 134--143) is shown (\<open>block\<close>) exactly when its tab is the active one.\<close>

definition Panel :: "tab \<Rightarrow> tab \<Rightarrow> bool" where
  "Panel tab_id activeTab \<longleftrightarrow> activeTab = tab_id"

text \<open>The panels \<open>App\<close> mounts, in order (\<^verbatim>\<open>src/App.tsx\<close>, lines 43--50).\<close>

definition app_panels :: "tab list" where
  "app_panels = [Home, Tools, Personal, History, Design, Map, News, Music]"

definition visible_panels :: "tab \<Rightarrow> tab list" where
  "visible_panels activeTab = filter (\<lambda>tab_id. Panel tab_id activeTab) app_panels"

subsection \<open>The page header\<close>

text \<open>\<open>getGreeting\<close> (lines 102--108) on the hour of \<open>getHours()\<close>.\<close>

datatype greeting = GoodMorning | GoodAfternoon | GoodEvening | GoodNight

definition getGreeting :: "nat \<Rightarrow> greeting" where
  "getGreeting h =
     (if h \<ge> 5 \<and> h < 12 then GoodMorning
      else if h \<ge> 12 \<and> h < 17 then GoodAfternoon
      else if h \<ge> 17 \<and> h < 21 then GoodEvening
      else GoodNight)"

text \<open>
  The header's clock (lines 95--100): \<open>dateTime\<close> is reset to the current instant (ms) by a
  1 s interval, and the greeting reads its local hour at the UTC offset \<open>off\<close> (ms).
\<close>

record header_state =
  dateTime :: int

definition header_tick :: "int \<Rightarrow> header_state \<Rightarrow> header_state" where
  "header_tick now st = st\<lparr>dateTime := now\<rparr>"

definition getHours :: "int \<Rightarrow> int \<Rightarrow> nat" where
  "getHours off t = nat (((t + off) div 3600000) mod 24)"

definition header_greeting :: "int \<Rightarrow> header_state \<Rightarrow> greeting" where
  "header_greeting off st = getGreeting (getHours off (dateTime st))"

text \<open>
  \<open>QuoteOfTheDay\<close> (lines 5--26). Instants are milliseconds since the epoch
  (\<open>Date.now()\<close>); \<open>startOfYear\<close> is the instant of local midnight on 1 January, so it carries
  the UTC offset of January. \<open>Math.floor\<close> of the quotient is integer division.
\<close>

definition HEBREW_QUOTES_length :: nat where
  "HEBREW_QUOTES_length = 10"

definition dayOfYear :: "int \<Rightarrow> int \<Rightarrow> int" where
  "dayOfYear now startOfYear = (now - startOfYear) div (1000 * 60 * 60 * 24)"

definition quoteIndex :: "int \<Rightarrow> int \<Rightarrow> int" where
  "quoteIndex now startOfYear = js_rem (dayOfYear now startOfYear) (int HEBREW_QUOTES_length)"

subsection \<open>The background and the font\<close>

text \<open>The presets (\<^verbatim>\<open>src/constants.ts\<close>, lines 17--30): six gradients, then six photographs.\<close>

definition PRESET_BACKGROUNDS :: "jsstr list" where
  "PRESET_BACKGROUNDS = map js_str
     [''linear-gradient(135deg,#b6f0e1,#c6d9ff)'',
      ''linear-gradient(120deg,#89f7fe,#66a6ff)'',
      ''linear-gradient(to top, #a18cd1 0%, #fbc2eb 100%)'',
      ''linear-gradient(120deg,#fdfbfb,#ebedee)'',
      ''linear-gradient(to right, #43e97b 0%, #38f9d7 100%)'',
      ''linear-gradient(to top, #ff9a9e 0%, #fecfef 99%, #fecfef 100%)'',
      ''https://images.unsplash.com/photo-1503264116251-35a269479413?q=80&w=1920&auto=format&fit=crop'',
      ''https://images.unsplash.com/photo-1506744038136-46273834b3fb?q=80&w=1920&auto=format&fit=crop'',
      ''https://images.unsplash.com/photo-1553095066-5014bc7b7f2d?q=80&w=1920&auto=format&fit=crop'',
      ''https://images.unsplash.com/photo-1487147264018-f937fba0c817?q=80&w=1920&auto=format&fit=crop'',
      ''https://images.unsplash.com/photo-1536514498073-50e69d39c6cf?q=80&w=1920&auto=format&fit=crop'',
      ''https://images.unsplash.com/photo-1470770841072-f978cf4d019e?q=80&w=1920&auto=format&fit=crop'']"

text \<open>The initial font of line 12, \<open>'Assistant', Arial, sans-serif\<close>.\<close>

definition DEFAULT_FONT :: jsstr where
  "DEFAULT_FONT = [APOS] @ js_str ''Assistant'' @ [APOS] @ js_str '', Arial, sans-serif''"

text \<open>
  The part of \<open>document.body\<close> the effects write: the \<open>animated-bg\<close> class and the inline
  style properties. Assigning the shorthand \<open>style.background\<close> resets its longhands, so that
  \<open>backgroundSize\<close>, \<open>backgroundPosition\<close> and \<open>backgroundAttachment\<close> read empty until set.
\<close>

record body_style =
  bodyFontFamily :: jsstr
  animatedBg :: bool
  bodyBackground :: jsstr
  bodyBackgroundSize :: jsstr
  bodyBackgroundPosition :: jsstr
  bodyBackgroundAttachment :: jsstr
  bodyAnimation :: jsstr

definition body0 :: body_style where
  "body0 = \<lparr>bodyFontFamily = [], animatedBg = False, bodyBackground = [], bodyBackgroundSize = [],
     bodyBackgroundPosition = [], bodyBackgroundAttachment = [], bodyAnimation = []\<rparr>"

definition set_background :: "jsstr \<Rightarrow> body_style \<Rightarrow> body_style" where
  "set_background v b = b\<lparr>bodyBackground := v, bodyBackgroundSize := [], bodyBackgroundPosition := [],
     bodyBackgroundAttachment := []\<rparr>"

text \<open>The effect on \<open>font\<close> (lines 14--16) and the effect on \<open>background\<close> (lines 18--35).\<close>

definition font_effect :: "jsstr \<Rightarrow> body_style \<Rightarrow> body_style" where
  "font_effect font b = b\<lparr>bodyFontFamily := font\<rparr>"

definition background_effect :: "jsstr \<Rightarrow> body_style \<Rightarrow> body_style" where
  "background_effect background b0 =
     (let b = b0\<lparr>animatedBg := False\<rparr> in
      if background = [] then b\<lparr>animatedBg := True\<rparr>
      else if js_startsWith background (js_str ''linear'') then
        (set_background background b)\<lparr>bodyBackgroundSize := js_str ''240% 240%'',
           bodyAnimation := js_str ''gradient-animation 18s ease infinite''\<rparr>
      else
        (set_background (js_str ''url('' @ background @ js_str '')'') b)\<lparr>bodyBackgroundSize := js_str ''cover'',
           bodyBackgroundPosition := js_str ''center'', bodyBackgroundAttachment := js_str ''fixed'',
           bodyAnimation := js_str ''none''\<rparr>)"

text \<open>
  The state of \<open>App\<close> (lines 10--12). On mount both effects run, the font's first; afterwards an
  effect runs when a setter changes its value (React bails out on an equal value).
\<close>

record app_state =
  activeTab :: tab
  background :: jsstr
  font :: jsstr
  body :: body_style

definition init_app :: "jsstr option \<Rightarrow> app_state" where
  "init_app stored =
     (let bg = (case stored of None \<Rightarrow> PRESET_BACKGROUNDS ! 0 | Some v \<Rightarrow> v) in
      \<lparr>activeTab = Home, background = bg, font = DEFAULT_FONT,
       body = background_effect bg (font_effect DEFAULT_FONT body0)\<rparr>)"

datatype app_action = SetActiveTab tab | SetFont jsstr | SetBackground jsstr

fun app_step :: "app_action \<Rightarrow> app_state \<Rightarrow> app_state" where
  "app_step (SetActiveTab t) st = st\<lparr>activeTab := t\<rparr>"
| "app_step (SetFont f) st =
     (if f = font st then st else st\<lparr>font := f, body := font_effect f (body st)\<rparr>)"
| "app_step (SetBackground v) st =
     (if v = background st then st else st\<lparr>background := v, body := background_effect v (body st)\<rparr>)"

text \<open>The app's states: from the mount, with or without a stored background, by the setters.\<close>

inductive reachable_app :: "app_state \<Rightarrow> bool" where
  init: "reachable_app (init_app stored)"
| step: "reachable_app st \<Longrightarrow> reachable_app (app_step a st)"

definition app_ok :: "app_state \<Rightarrow> bool" where
  "app_ok st \<longleftrightarrow> bodyFontFamily (body st) = font st
     \<and> (background st \<noteq> [] \<longrightarrow> body st = background_effect (background st) (font_effect (font st) body0))"

subsection \<open>Lemmas\<close>

lemma tab_value_inj: "inj tab_value"
proof -
  have "UNIV = set sidebar_tabs" using tab.exhaust by (auto simp: sidebar_tabs_def)
  moreover have "distinct (map tab_value sidebar_tabs)" by (simp add: sidebar_tabs_def js_str_def)
  ultimately show ?thesis by (simp add: distinct_map)
qed

lemma bodyFontFamily_background_effect [simp]:
  "bodyFontFamily (background_effect v b) = bodyFontFamily b"
  by (simp add: background_effect_def set_background_def Let_def)

lemma background_effect_font: "background_effect v (font_effect f b) = font_effect f (background_effect v b)"
  by (simp add: background_effect_def set_background_def font_effect_def Let_def)

text \<open>A non-empty background determines every style the effect writes, whatever was there before.\<close>

lemma background_effect_determined:
  assumes "v \<noteq> []" "bodyFontFamily b = bodyFontFamily b'"
  shows "background_effect v b = background_effect v b'"
  using assms by (cases b, cases b') (simp add: background_effect_def set_background_def Let_def)

lemma background_effect_empty: "background_effect [] b = b\<lparr>animatedBg := True\<rparr>"
  by (simp add: background_effect_def Let_def)

lemma app_step_ok: "app_ok st \<Longrightarrow> app_ok (app_step a st)"
proof (cases a)
  case (SetFont f)
  assume "app_ok st"
  have "font_effect f (background_effect v (font_effect (font st) body0)) = background_effect v (font_effect f body0)"
    for v by (simp only: background_effect_font [symmetric]) (simp add: font_effect_def)
  with \<open>app_ok st\<close> SetFont show ?thesis by (auto simp: app_ok_def font_effect_def)
next
  case (SetBackground v)
  assume ok: "app_ok st"
  have "background_effect v (body st) = background_effect v (font_effect (font st) body0)" if "v \<noteq> []"
    using ok that by (intro background_effect_determined) (simp_all add: app_ok_def font_effect_def)
  with ok SetBackground show ?thesis by (auto simp: app_ok_def)
qed (simp add: app_ok_def)

lemma reachable_app_ok: "reachable_app st \<Longrightarrow> app_ok st"
proof (induction rule: reachable_app.induct)
  case (init stored)
  then show ?case by (simp add: app_ok_def init_app_def Let_def font_effect_def)
next
  case (step st a)
  from step.IH show ?case by (rule app_step_ok)
qed

text \<open>The greeting splits the day at 05, 12, 17 and 21 o'clock; the night wraps around midnight.\<close>

lemma getGreeting_hours:
  "h < 24 \<Longrightarrow> getGreeting h = (if h < 5 \<or> 21 \<le> h then GoodNight else if h < 12 then GoodMorning
     else if h < 17 then GoodAfternoon else GoodEvening)"
  by (simp add: getGreeting_def)

lemma getHours_range: "getHours off t < 24"
  by (simp add: getHours_def nat_less_iff)

lemma dayOfYear_shift:
  assumes "0 \<le> r" "r < 86400000"
  shows "dayOfYear (startOfYear + k * 86400000 + r) startOfYear = k"
proof -
  have "(r + k * 86400000) div 86400000 = k + r div 86400000" by (rule div_mult_self1) simp
  with assms show ?thesis by (simp add: dayOfYear_def add.commute)
qed

subsection \<open>Properties of the shell\<close>

text \<open>
  C19. The tab type: the sidebar lists every tab exactly once and in the order of the mounted panels,
  the tab values are distinct, and for every active tab exactly one panel is shown and exactly
  one sidebar button is selected, both for that tab.
\<close>

theorem tabs_exactly_one:
  "distinct sidebar_tabs \<and> set sidebar_tabs = UNIV \<and> app_panels = sidebar_tabs \<and> inj tab_value
   \<and> visible_panels a = [a] \<and> filter snd (Sidebar a) = [(a, True)]"
proof -
  have "set sidebar_tabs = UNIV" using tab.exhaust by (auto simp: sidebar_tabs_def)
  moreover have "visible_panels a = [a] \<and> filter snd (Sidebar a) = [(a, True)]"
    by (cases a) (simp_all add: visible_panels_def Sidebar_def Panel_def app_panels_def sidebar_tabs_def)
  ultimately show ?thesis by (simp add: sidebar_tabs_def app_panels_def tab_value_inj)
qed

text \<open>
  The body reflects the app's state: in every reachable state with a non-empty background, the
  inline style of \<open>document.body\<close> is what the two effects write from the current background and
  font alone, whichever backgrounds were chosen before.
\<close>

lemma app_body_reflects_state:
  assumes "reachable_app st" "background st \<noteq> []"
  shows "body st = background_effect (background st) (font_effect (font st) body0)"
  using reachable_app_ok [OF assms(1)] assms(2) by (simp add: app_ok_def)

text \<open>
  An empty background only adds the \<open>animated-bg\<close> class: the previous inline background,
  size and animation stay on the body and override the class's animated gradient.
\<close>

lemma background_empty_stale:
  "background st \<noteq> [] \<Longrightarrow> body (app_step (SetBackground []) st) = (body st)\<lparr>animatedBg := True\<rparr>"
  by (simp add: background_effect_empty)

text \<open>
  C22. The quote of the day changes at 01:00 in summer: \<open>startOfYear\<close> is taken at the winter
  offset, so once the clock has moved one hour forward, the first hour of local day \<open>k\<close>
  (counted from 1 January) still has \<open>dayOfYear = k - 1\<close> and shows the previous day's quote.
\<close>

theorem dayOfYear_dst:
  assumes "0 \<le> m" "m < 3600000" "1 \<le> k"
  shows "dayOfYear (L + k * 86400000 + m - (off + 3600000)) (L - off) = k - 1"
proof -
  have e: "L + k * 86400000 + m - (off + 3600000) = (L - off) + (k - 1) * 86400000 + (m + 82800000)"
    by (simp add: algebra_simps)
  show ?thesis unfolding e by (rule dayOfYear_shift) (use assms in simp_all)
qed

lemma dayOfYear_winter:
  "0 \<le> m \<Longrightarrow> m < 86400000 \<Longrightarrow> dayOfYear (L + k * 86400000 + m - off) (L - off) = k"
  using dayOfYear_shift [of m "L - off" k] by (simp add: algebra_simps)

subsection \<open>Witnesses\<close>

lemma app_body_reflects_state_witness:
  "body (app_step (SetBackground (js_str ''https://x/y.png'')) (init_app None))
     = background_effect (js_str ''https://x/y.png'') (font_effect DEFAULT_FONT body0)"
proof -
  have ne: "js_str ''https://x/y.png'' \<noteq> PRESET_BACKGROUNDS ! 0"
    by (simp add: PRESET_BACKGROUNDS_def js_str_def)
  have r: "reachable_app (app_step (SetBackground (js_str ''https://x/y.png'')) (init_app None))"
    by (rule reachable_app.step [OF reachable_app.init])
  have nn: "js_str ''https://x/y.png'' \<noteq> []" by (simp add: js_str_def)
  have b: "background (init_app None) = PRESET_BACKGROUNDS ! 0" "font (init_app None) = DEFAULT_FONT"
    by (simp_all add: init_app_def Let_def)
  from app_body_reflects_state [OF r] ne nn b show ?thesis by simp
qed

lemma background_empty_stale_witness:
  "body (app_step (SetBackground []) (init_app None)) = (body (init_app None))\<lparr>animatedBg := True\<rparr>"
  using background_empty_stale [of "init_app None"]
  by (simp add: init_app_def Let_def PRESET_BACKGROUNDS_def js_str_def)

lemma dayOfYear_dst_witness:
  "dayOfYear (0 + 100 * 86400000 + 1800000 - (7200000 + 3600000)) (0 - 7200000) = 99"
  using dayOfYear_dst [of 1800000 100 0 7200000] by simp

end
