(* ===== verification/DesignPanel.thy ===== *)
theory DesignPanel
  imports Complex_Main AppShell
begin

text \<open>
  The design panel (\<^verbatim>\<open>src/components/OtherPanels.tsx\<close>, lines 276--348) and its
  composition with \<open>App\<close>: the panel holds the persisted list of important dates
  \<open>dashboard_holidays_v1\<close> (the type \<open>Holiday\<close>, \<^verbatim>\<open>src/types.ts\<close>, lines 18--21) and sends
  the font and background it is given as props, \<open>setFont\<close> and \<open>setBackground\<close> of \<open>App\<close>.
  A step of the panel returns its new state, the calls of \<open>App\<close>'s setters in order (as
  \<open>app_action\<close>s) and the alerts shown. \<open>Math.random()\<close> is a real in \<open>[0, 1)\<close>; a
  \<open>FileReader\<close> data URL is \<open>data:\<close> followed by the encoded file.
\<close>

record holiday =
  holiday_date :: jsstr
  holiday_title :: jsstr

record design_state =
  holidays :: "holiday list"
  newHolidayDate :: jsstr
  newHolidayTitle :: jsstr

datatype design_alert = ChooseDateAndName | BackgroundReplaced

definition addHoliday :: "'a design_state_scheme \<Rightarrow> design_alert + 'a design_state_scheme" where
  "addHoliday st =
     (if newHolidayDate st = [] \<or> js_trim (newHolidayTitle st) = [] then Inl ChooseDateAndName
      else Inr (st\<lparr>holidays := holidays st @ [\<lparr>holiday_date = newHolidayDate st,
                                              holiday_title = js_trim (newHolidayTitle st)\<rparr>],
                  newHolidayDate := [], newHolidayTitle := []\<rparr>))"

text \<open>\<open>handleBgUpload\<close> (lines 288--298): no file, no effect; otherwise, once read, the data URL.\<close>

definition handleBgUpload :: "jsstr option \<Rightarrow> app_action list \<times> design_alert list" where
  "handleBgUpload file =
     (case file of None \<Rightarrow> ([], [])
      | Some payload \<Rightarrow> ([SetBackground (js_str ''data:'' @ payload)], [BackgroundReplaced]))"

definition randomIndex :: "real \<Rightarrow> nat" where
  "randomIndex r = nat \<lfloor>r * real (length PRESET_BACKGROUNDS)\<rfloor>"

definition handleRandomBg :: "real \<Rightarrow> jsstr" where
  "handleRandomBg r = PRESET_BACKGROUNDS ! randomIndex r"

text \<open>The font menu's option values (lines 311--316).\<close>

definition FONT_OPTIONS :: "jsstr list" where
  "FONT_OPTIONS =
     [[APOS] @ js_str ''Assistant'' @ [APOS] @ js_str '', Arial, sans-serif'',
      [APOS] @ js_str ''Varela Round'' @ [APOS] @ js_str '', Arial, sans-serif'',
      [APOS] @ js_str ''Rubik'' @ [APOS] @ js_str '', sans-serif'',
      [APOS] @ js_str ''Heebo'' @ [APOS] @ js_str '', sans-serif'',
      [APOS] @ js_str ''Frank Ruhl Libre'' @ [APOS] @ js_str '', serif'',
      [APOS] @ js_str ''Courier New'' @ [APOS] @ js_str '', monospace'']"

text \<open>The preset tiles are \<open>PRESET_BACKGROUNDS.slice(1)\<close> (lines 341--343).\<close>

definition preset_tiles :: "jsstr list" where
  "preset_tiles = drop 1 PRESET_BACKGROUNDS"

datatype design_action = SetHolidayDate jsstr | SetHolidayTitle jsstr | AddHoliday
  | UploadBg "jsstr option" | ResetBg | RandomBg real | PickPreset nat | PickFont nat

fun design_step :: "design_action \<Rightarrow> design_state \<Rightarrow> design_state \<times> app_action list \<times> design_alert list" where
  "design_step (SetHolidayDate v) st = (st\<lparr>newHolidayDate := v\<rparr>, [], [])"
| "design_step (SetHolidayTitle v) st = (st\<lparr>newHolidayTitle := v\<rparr>, [], [])"
| "design_step AddHoliday st = (case addHoliday st of Inl a \<Rightarrow> (st, [], [a]) | Inr st' \<Rightarrow> (st', [], []))"
| "design_step (UploadBg file) st = (st, handleBgUpload file)"
| "design_step ResetBg st = (st, [SetBackground (PRESET_BACKGROUNDS ! 0)], [])"
| "design_step (RandomBg r) st = (st, [SetBackground (handleRandomBg r)], [])"
| "design_step (PickPreset i) st =
     (if i < length preset_tiles then (st, [SetBackground (preset_tiles ! i)], []) else (st, [], []))"
| "design_step (PickFont i) st =
     (if i < length FONT_OPTIONS then (st, [SetFont (FONT_OPTIONS ! i)], []) else (st, [], []))"

subsection \<open>The dashboard: the shell and the design panel together\<close>

text \<open>
  The user clicks a sidebar tab or works in the design panel; a hidden panel cannot be clicked,
  so the panel's actions apply only while its tab is active. \<open>Math.random()\<close> is in \<open>[0, 1)\<close>.
\<close>

record dashboard =
  dash_app :: app_state
  dash_design :: design_state

datatype dash_action = ClickTab tab | DesignUI design_action

fun dash_step :: "dash_action \<Rightarrow> dashboard \<Rightarrow> dashboard" where
  "dash_step (ClickTab t) d = d\<lparr>dash_app := app_step (SetActiveTab t) (dash_app d)\<rparr>"
| "dash_step (DesignUI a) d =
     (if activeTab (dash_app d) \<noteq> Design then d
      else (case design_step a (dash_design d) of (ds, acts, _) \<Rightarrow>
              d\<lparr>dash_app := fold app_step acts (dash_app d), dash_design := ds\<rparr>))"

inductive reachable_dash :: "dashboard \<Rightarrow> bool" where
  init: "stored \<noteq> Some [] \<Longrightarrow>
    reachable_dash \<lparr>dash_app = init_app stored,
                    dash_design = \<lparr>holidays = hs, newHolidayDate = [], newHolidayTitle = []\<rparr>\<rparr>"
| step: "reachable_dash d \<Longrightarrow> (\<forall>r. a = DesignUI (RandomBg r) \<longrightarrow> 0 \<le> r \<and> r < 1)
    \<Longrightarrow> reachable_dash (dash_step a d)"

definition dash_ok :: "dashboard \<Rightarrow> bool" where
  "dash_ok d \<longleftrightarrow> reachable_app (dash_app d) \<and> background (dash_app d) \<noteq> []"

subsection \<open>Lemmas\<close>

lemma length_PRESET_BACKGROUNDS [simp]: "length PRESET_BACKGROUNDS = 12"
  by (simp add: PRESET_BACKGROUNDS_def)

lemma PRESET_BACKGROUNDS_nonempty: "v \<in> set PRESET_BACKGROUNDS \<Longrightarrow> v \<noteq> []"
  by (auto simp: PRESET_BACKGROUNDS_def js_str_def)

lemma randomIndex_iff:
  assumes "0 \<le> r"
  shows "randomIndex r = i \<longleftrightarrow> real i \<le> r * 12 \<and> r * 12 < real i + 1"
proof -
  have "0 \<le> \<lfloor>r * 12\<rfloor>" using assms by simp
  then have "randomIndex r = i \<longleftrightarrow> \<lfloor>r * 12\<rfloor> = int i" by (auto simp: randomIndex_def)
  also have "\<dots> \<longleftrightarrow> real i \<le> r * 12 \<and> r * 12 < real i + 1" by (simp add: floor_eq_iff)
  finally show ?thesis .
qed

lemma randomIndex_bound:
  assumes "0 \<le> r" "r < 1"
  shows "randomIndex r < 12"
proof -
  have "r * 12 < 12" using assms by simp
  then have f: "\<lfloor>r * 12\<rfloor> < 12" by (simp add: floor_less_iff)
  have "0 \<le> \<lfloor>r * 12\<rfloor>" using assms by simp
  with f have "nat \<lfloor>r * 12\<rfloor> < 12" by (subst nat_less_iff) simp_all
  then show ?thesis by (simp add: randomIndex_def)
qed

lemma PRESET_BACKGROUNDS_0: "PRESET_BACKGROUNDS ! 0 \<noteq> []"
  by (simp add: PRESET_BACKGROUNDS_def js_str_def)

lemma fold_app_step_reachable: "reachable_app st \<Longrightarrow> reachable_app (fold app_step acts st)"
  by (induction acts arbitrary: st) (simp_all add: reachable_app.step)

lemma fold_app_step_background:
  "(\<forall>v. SetBackground v \<in> set acts \<longrightarrow> v \<noteq> []) \<Longrightarrow> background st \<noteq> []
   \<Longrightarrow> background (fold app_step acts st) \<noteq> []"
proof (induction acts arbitrary: st)
  case (Cons a acts)
  then show ?case by (cases a) simp_all
qed simp

lemma design_step_backgrounds:
  assumes "\<forall>r. a = RandomBg r \<longrightarrow> 0 \<le> r \<and> r < 1"
  shows "\<forall>v. SetBackground v \<in> set (fst (snd (design_step a ds))) \<longrightarrow> v \<noteq> []"
proof (cases a)
  case (RandomBg r)
  with assms have "randomIndex r < 12" by (simp add: randomIndex_bound)
  with RandomBg show ?thesis
    by (auto simp: handleRandomBg_def intro!: PRESET_BACKGROUNDS_nonempty)
next
  case (PickPreset i)
  then show ?thesis by (auto simp: preset_tiles_def intro!: PRESET_BACKGROUNDS_nonempty dest: in_set_dropD)
next
  case AddHoliday
  then show ?thesis by (simp split: sum.split)
qed (auto simp: handleBgUpload_def js_str_def intro!: PRESET_BACKGROUNDS_nonempty split: option.split)

lemma dash_step_ok:
  assumes "dash_ok d" "\<forall>r. a = DesignUI (RandomBg r) \<longrightarrow> 0 \<le> r \<and> r < 1"
  shows "dash_ok (dash_step a d)"
proof (cases a)
  case (ClickTab t)
  from assms(1) have "reachable_app (app_step (SetActiveTab t) (dash_app d))"
    by (intro reachable_app.step) (simp add: dash_ok_def)
  with assms(1) ClickTab show ?thesis by (simp add: dash_ok_def)
next
  case (DesignUI b)
  obtain ds acts al where e: "design_step b (dash_design d) = (ds, acts, al)" by (metis prod.exhaust)
  from assms(2) DesignUI have "\<forall>v. SetBackground v \<in> set acts \<longrightarrow> v \<noteq> []"
    using design_step_backgrounds [of b "dash_design d"] e by simp
  with assms(1) DesignUI e show ?thesis
    by (simp add: dash_ok_def fold_app_step_reachable fold_app_step_background)
qed

lemma reachable_dash_ok: "reachable_dash d \<Longrightarrow> dash_ok d"
proof (induction rule: reachable_dash.induct)
  case (init stored hs)
  then have "background (init_app stored) \<noteq> []"
    by (auto simp: init_app_def Let_def PRESET_BACKGROUNDS_0 split: option.split)
  with reachable_app.init [of stored] show ?case by (simp add: dash_ok_def)
next
  case (step d a)
  from step.IH step.hyps(2) show ?case by (rule dash_step_ok)
qed

subsection \<open>Properties of the design panel\<close>

text \<open>
  The random background is always one of the twelve presets: for \<open>0 \<le> r < 1\<close> the index
  \<open>Math.floor(r * 12)\<close> is in range, and index \<open>i\<close> is drawn exactly for \<open>r\<close> in
  \<open>[i/12, (i+1)/12)\<close>.
\<close>

lemma handleRandomBg_preset:
  assumes "0 \<le> r" "r < 1"
  shows "randomIndex r < length PRESET_BACKGROUNDS \<and> handleRandomBg r \<in> set PRESET_BACKGROUNDS
    \<and> (\<forall>i. randomIndex r = i \<longleftrightarrow> real i \<le> r * 12 \<and> r * 12 < real i + 1)"
proof -
  from assms have "randomIndex r < 12" by (rule randomIndex_bound)
  with assms show ?thesis by (simp add: handleRandomBg_def randomIndex_iff)
qed

text \<open>
  C18. The shell and the design panel together: from a mount whose stored background is not empty,
  every background the panel sets (reset, random, tile, upload) is non-empty, so the body's
  inline style is always the one the effects write from the current background and font alone.
\<close>

theorem reachable_dash_body:
  assumes "reachable_dash d"
  shows "background (dash_app d) \<noteq> []
    \<and> body (dash_app d) = background_effect (background (dash_app d)) (font_effect (font (dash_app d)) body0)"
  using reachable_dash_ok [OF assms] reachable_app_ok by (simp add: dash_ok_def app_ok_def)

subsection \<open>Witnesses\<close>

lemma handleRandomBg_preset_witness:
  "randomIndex (1 / 2) < length PRESET_BACKGROUNDS \<and> handleRandomBg (1 / 2) \<in> set PRESET_BACKGROUNDS
   \<and> randomIndex (1 / 2) = 6"
  using handleRandomBg_preset [of "1 / 2"] by simp

lemma reachable_dash_body_witness:
  "background (dash_app (dash_step (DesignUI (RandomBg (1 / 2))) (dash_step (ClickTab Design)
      \<lparr>dash_app = init_app None, dash_design = \<lparr>holidays = [], newHolidayDate = [], newHolidayTitle = []\<rparr>\<rparr>)))
   \<noteq> []"
proof -
  have r: "reachable_dash (dash_step (DesignUI (RandomBg (1 / 2))) (dash_step (ClickTab Design)
      \<lparr>dash_app = init_app None, dash_design = \<lparr>holidays = [], newHolidayDate = [], newHolidayTitle = []\<rparr>\<rparr>))"
    by (intro reachable_dash.step reachable_dash.init) simp_all
  from reachable_dash_body [OF r] show ?thesis by (rule conjunct1)
qed

end
