(* ===== verification/Weather.thy ===== *)
theory Weather
  imports Complex_Main Prelude
begin

text \<open>
  The weather card \<open>Weather\<close> (\<^verbatim>\<open>src/components/HomePanel.tsx\<close>, lines 211--333). Its
  state is the persisted forecast \<open>dashboard_weather_data_v1\<close> and fetch time
  \<open>dashboard_weather_fetch_v1\<close>, the \<open>loading\<close> flag, the error, and the number of requests in
  flight. \<open>fetchWeather\<close> starts a request; its asynchronous end (the geolocation callbacks and
  the two \<open>fetch\<close> calls) is an action carrying what the browser and the two services returned.
  JSON numbers are reals; the weekday name of \<open>toLocaleDateString\<close> is a parameter; instants
  are milliseconds (\<open>Date.now()\<close>). The setters of the persisted values are taken to be stable,
  so \<open>fetchWeather\<close> keeps its identity and the effect runs only when the data or the fetch time
  change.
\<close>

subsection \<open>The response and its formatting\<close>

text \<open>\<open>getWeatherInfo\<close> (lines 217--226) on a WMO code; \<open>undefined\<close> fails every test.\<close>

datatype weather_kind = Clear | PartlyCloudy | Fog | Drizzle | Rain | Showers | Thunderstorm
  | UnknownWeather

definition getWeatherInfo :: "real option \<Rightarrow> weather_kind" where
  "getWeatherInfo c =
     (case c of None \<Rightarrow> UnknownWeather
      | Some code \<Rightarrow>
          if code = 0 then Clear
          else if code \<ge> 1 \<and> code \<le> 3 then PartlyCloudy
          else if code = 45 \<or> code = 48 then Fog
          else if code \<ge> 51 \<and> code \<le> 57 then Drizzle
          else if code \<ge> 61 \<and> code \<le> 67 then Rain
          else if code \<ge> 80 \<and> code \<le> 82 then Showers
          else if code \<ge> 95 \<and> code \<le> 99 then Thunderstorm
          else UnknownWeather)"

text \<open>An array read \<open>a[i]\<close>, \<open>undefined\<close> past the end, and \<open>Math.round\<close>, which is \<open>NaN\<close> on it.\<close>

definition js_at :: "'a list \<Rightarrow> nat \<Rightarrow> 'a option" where
  "js_at xs i = (if i < length xs then Some (xs ! i) else None)"

definition js_round :: "real option \<Rightarrow> jsnum" where
  "js_round x = (case x of None \<Rightarrow> NaN | Some v \<Rightarrow> Num \<lfloor>v + 1 / 2\<rfloor>)"

text \<open>The fields of the two JSON responses the code reads.\<close>

record geo_address =
  addr_city :: "jsstr option"
  addr_town :: "jsstr option"
  addr_village :: "jsstr option"

record meteo =
  current_temperature_2m :: real
  current_weather_code :: real
  daily_time :: "jsstr list"
  daily_temperature_2m_max :: "real list"
  daily_temperature_2m_min :: "real list"
  daily_weather_code :: "real list"

record current_weather =
  temperature :: jsnum
  current_kind :: weather_kind

record forecast_day =
  forecast_date :: jsstr
  maxTemp :: jsnum
  minTemp :: jsnum
  forecast_kind :: weather_kind

record weather_data =
  city :: jsstr
  current :: current_weather
  forecast :: "forecast_day list"

text \<open>\<open>a || b || c || d\<close> on strings: the first non-empty one.\<close>

fun js_or :: "jsstr option list \<Rightarrow> jsstr \<Rightarrow> jsstr" where
  "js_or [] d = d"
| "js_or (None # xs) d = js_or xs d"
| "js_or (Some s # xs) d = (if s \<noteq> [] then s else js_or xs d)"

text \<open>The fallback city name (Hebrew for "current location"), as code units.\<close>

definition CURRENT_LOCATION :: jsstr where
  "CURRENT_LOCATION = [MEM, YOD, QOF, VAV, 0x5DD, 0x20, NUN, VAV, KAF, HET, YOD]"

definition formatted_city :: "geo_address \<Rightarrow> jsstr" where
  "formatted_city a = js_or [addr_city a, addr_town a, addr_village a] CURRENT_LOCATION"

text \<open>\<open>formattedData\<close> (lines 247--259): the current reading and the days after today.\<close>

definition format_forecast :: "(jsstr \<Rightarrow> jsstr) \<Rightarrow> meteo \<Rightarrow> forecast_day list" where
  "format_forecast weekday m =
     map (\<lambda>(date, index).
            \<lparr>forecast_date = weekday date,
             maxTemp = js_round (js_at (daily_temperature_2m_max m) (index + 1)),
             minTemp = js_round (js_at (daily_temperature_2m_min m) (index + 1)),
             forecast_kind = getWeatherInfo (js_at (daily_weather_code m) (index + 1))\<rparr>)
         (zip (drop 1 (daily_time m)) [0..<length (drop 1 (daily_time m))])"

definition formattedData :: "(jsstr \<Rightarrow> jsstr) \<Rightarrow> geo_address \<Rightarrow> meteo \<Rightarrow> weather_data" where
  "formattedData weekday a m =
     \<lparr>city = formatted_city a,
      current = \<lparr>temperature = js_round (Some (current_temperature_2m m)),
                 current_kind = getWeatherInfo (Some (current_weather_code m))\<rparr>,
      forecast = format_forecast weekday m\<rparr>"

text \<open>
  What \<open>fetch\<close> gives: a response with \<open>ok\<close> and its parsed body, a response without \<open>ok\<close>,
  or a rejected promise (network failure). The thrown errors of lines 240, 244 and 264, and the
  denied permission of line 271, are the values of \<open>weather_error\<close>.
\<close>

datatype 'a http = HttpOk 'a | HttpNotOk | NetworkFail

datatype weather_error = CityUnavailable | WeatherUnavailable | RequestFailed | LocationDenied

definition fetch_result :: "(jsstr \<Rightarrow> jsstr) \<Rightarrow> geo_address http \<Rightarrow> meteo http \<Rightarrow> weather_error + weather_data" where
  "fetch_result weekday geoRes weatherRes =
     (if geoRes = NetworkFail \<or> weatherRes = NetworkFail then Inl RequestFailed
      else case geoRes of
        HttpOk a \<Rightarrow> (case weatherRes of HttpOk m \<Rightarrow> Inr (formattedData weekday a m)
                                    | _ \<Rightarrow> Inl WeatherUnavailable)
      | _ \<Rightarrow> Inl CityUnavailable)"

subsection \<open>The card's state machine\<close>

record weather_state =
  weatherData :: "weather_data option"
  lastFetch :: int
  loading :: bool
  weatherError :: "weather_error option"
  inflight :: nat

text \<open>\<open>fetchWeather\<close> (lines 228--231): show the spinner, clear the error, ask for the position.\<close>

definition fetchWeather :: "weather_state \<Rightarrow> weather_state" where
  "fetchWeather st = st\<lparr>loading := True, weatherError := None, inflight := inflight st + 1\<rparr>"

text \<open>The effect of lines 277--284: refetch without data or with data older than 30 minutes.\<close>

definition weather_effect :: "int \<Rightarrow> weather_state \<Rightarrow> weather_state" where
  "weather_effect now st =
     (if weatherData st = None \<or> now - lastFetch st > 30 * 60 * 1000 then fetchWeather st
      else st\<lparr>loading := False\<rparr>)"

text \<open>
  The end of a request at time \<open>now\<close> (lines 232--273): the denied permission, or the two
  responses. A success stores the data and the time, which re-runs the effect.
\<close>

datatype fetch_outcome = PositionDenied | Responses "geo_address http" "meteo http"

definition fetch_done :: "(jsstr \<Rightarrow> jsstr) \<Rightarrow> int \<Rightarrow> fetch_outcome \<Rightarrow> weather_state \<Rightarrow> weather_state" where
  "fetch_done weekday now outcome st =
     (let st = st\<lparr>inflight := inflight st - 1\<rparr> in
      case outcome of
        PositionDenied \<Rightarrow> st\<lparr>weatherError := Some LocationDenied, loading := False\<rparr>
      | Responses geoRes weatherRes \<Rightarrow>
          (case fetch_result weekday geoRes weatherRes of
             Inl e \<Rightarrow> st\<lparr>weatherError := Some e, loading := False\<rparr>
           | Inr d \<Rightarrow> weather_effect now (st\<lparr>weatherData := Some d, lastFetch := now, loading := False\<rparr>)))"

text \<open>What the card shows (lines 286--332).\<close>

datatype weather_view = ShowLoading | ShowErrorRetry weather_error | ShowNothing
  | ShowWeather weather_data "weather_error option"

definition weather_render :: "weather_state \<Rightarrow> weather_view" where
  "weather_render st =
     (if loading st then ShowLoading
      else case (weatherError st, weatherData st) of
        (Some e, None) \<Rightarrow> ShowErrorRetry e
      | (None, None) \<Rightarrow> ShowNothing
      | (e, Some d) \<Rightarrow> ShowWeather d e)"

text \<open>
  The user's and the browser's actions: "try again" exists only on the error card, "refresh" only
  on the weather card, and a request can end only while one is in flight.
\<close>

datatype weather_action = Retry | Refresh | Done int fetch_outcome

fun weather_step :: "(jsstr \<Rightarrow> jsstr) \<Rightarrow> weather_action \<Rightarrow> weather_state \<Rightarrow> weather_state" where
  "weather_step weekday Retry st =
     (case weather_render st of ShowErrorRetry _ \<Rightarrow> fetchWeather st | _ \<Rightarrow> st)"
| "weather_step weekday Refresh st =
     (case weather_render st of ShowWeather _ _ \<Rightarrow> fetchWeather st | _ \<Rightarrow> st)"
| "weather_step weekday (Done now outcome) st =
     (if inflight st = 0 then st else fetch_done weekday now outcome st)"

text \<open>The mount at time \<open>now\<close> from the stored data and fetch time (initially \<open>null\<close> and 0).\<close>

definition weather_mount :: "int \<Rightarrow> weather_data option \<Rightarrow> int \<Rightarrow> weather_state" where
  "weather_mount now stored storedFetch =
     weather_effect now \<lparr>weatherData = stored, lastFetch = storedFetch, loading = True,
                        weatherError = None, inflight = 0\<rparr>"

inductive reachable_weather :: "(jsstr \<Rightarrow> jsstr) \<Rightarrow> weather_state \<Rightarrow> bool" for weekday where
  mount: "reachable_weather weekday (weather_mount now stored storedFetch)"
| step: "reachable_weather weekday st \<Longrightarrow> reachable_weather weekday (weather_step weekday a st)"

definition weather_ok :: "weather_state \<Rightarrow> bool" where
  "weather_ok st \<longleftrightarrow> inflight st \<le> 1 \<and> (loading st \<longleftrightarrow> inflight st = 1)
     \<and> (\<not> loading st \<and> weatherData st = None \<longrightarrow> weatherError st \<noteq> None)"

subsection \<open>Lemmas\<close>

lemma weather_effect_fresh:
  "weatherData st \<noteq> None \<Longrightarrow> lastFetch st = now \<Longrightarrow> weather_effect now st = st\<lparr>loading := False\<rparr>"
  by (auto simp: weather_effect_def)

lemma fetch_done_cases:
  assumes "inflight st = 1"
  obtains (err) e where "fetch_done w now outcome st = st\<lparr>inflight := 0, weatherError := Some e, loading := False\<rparr>"
  | (ok) d where "fetch_done w now outcome st = st\<lparr>inflight := 0, weatherData := Some d, lastFetch := now, loading := False\<rparr>"
  using assms
  by (cases outcome; cases "fetch_result w (case outcome of Responses g m \<Rightarrow> g) (case outcome of Responses g m \<Rightarrow> m)")
     (auto simp: fetch_done_def weather_effect_fresh split: sum.split)

lemma weather_render_loading: "weather_render st = ShowLoading \<longleftrightarrow> loading st"
  by (simp add: weather_render_def split: option.split prod.split)

lemma weather_render_nothing:
  "weather_render st = ShowNothing \<longleftrightarrow> \<not> loading st \<and> weatherError st = None \<and> weatherData st = None"
  by (auto simp: weather_render_def split: option.split prod.split)

lemma weather_render_idle: "weather_render st = ShowErrorRetry e \<or> weather_render st = ShowWeather d e'
  \<Longrightarrow> \<not> loading st"
  by (auto simp: weather_render_def split: if_splits)

lemma weather_ok_mount: "weather_ok (weather_mount now stored storedFetch)"
  by (simp add: weather_ok_def weather_mount_def weather_effect_def fetchWeather_def)

lemma weather_ok_fetch: "weather_ok st \<Longrightarrow> \<not> loading st \<Longrightarrow> weather_ok (fetchWeather st)"
  by (simp add: weather_ok_def fetchWeather_def)

lemma weather_step_ok: "weather_ok st \<Longrightarrow> weather_ok (weather_step w a st)"
proof (cases a)
  case Retry
  assume ok: "weather_ok st"
  with Retry weather_render_idle [of st] show ?thesis
    by (auto intro: weather_ok_fetch split: weather_view.split)
next
  case Refresh
  assume ok: "weather_ok st"
  with Refresh weather_render_idle [of st] show ?thesis
    by (auto intro: weather_ok_fetch split: weather_view.split)
next
  case (Done now outcome)
  assume ok: "weather_ok st"
  show ?thesis
  proof (cases "inflight st = 0")
    case False
    with ok have "inflight st = 1" by (simp add: weather_ok_def)
    then show ?thesis
      by (cases rule: fetch_done_cases [of st w now outcome]) (use Done False in \<open>simp_all add: weather_ok_def\<close>)
  qed (use ok Done in simp)
qed

lemma reachable_weather_ok: "reachable_weather w st \<Longrightarrow> weather_ok st"
proof (induction rule: reachable_weather.induct)
  case (mount now stored storedFetch)
  show ?case by (rule weather_ok_mount)
next
  case (step st a)
  from step.IH show ?case by (rule weather_step_ok)
qed

lemma fetch_result_order:
  "fetch_result w NetworkFail m = Inl RequestFailed \<and> fetch_result w g NetworkFail = Inl RequestFailed
   \<and> fetch_result w HttpNotOk (HttpOk x) = Inl CityUnavailable \<and> fetch_result w HttpNotOk HttpNotOk = Inl CityUnavailable
   \<and> fetch_result w (HttpOk a) HttpNotOk = Inl WeatherUnavailable
   \<and> fetch_result w (HttpOk a) (HttpOk x) = Inr (formattedData w a x)"
  by (simp add: fetch_result_def)

text \<open>Snow (WMO codes 71--77, 85 and 86) falls through every test and is shown as unknown.\<close>

lemma getWeatherInfo_snow:
  "code \<in> {71, 73, 75, 77, 85, 86} \<Longrightarrow> getWeatherInfo (Some code) = UnknownWeather"
  by (auto simp: getWeatherInfo_def)

lemma format_forecast_nth:
  assumes "i < length (daily_time m) - 1"
  shows "format_forecast w m ! i =
    \<lparr>forecast_date = w (daily_time m ! Suc i),
     maxTemp = js_round (js_at (daily_temperature_2m_max m) (Suc i)),
     minTemp = js_round (js_at (daily_temperature_2m_min m) (Suc i)),
     forecast_kind = getWeatherInfo (js_at (daily_weather_code m) (Suc i))\<rparr>"
  using assms by (simp add: format_forecast_def nth_tl)

subsection \<open>Properties of the weather card\<close>

text \<open>
  C16. Invariant of the card: at most one request is ever in flight, the spinner is shown exactly
  while one is, and the empty render (\<open>return null\<close>) is never reached: without data the card
  shows either the spinner or the error with "try again".
\<close>

theorem reachable_weather_single_request:
  assumes "reachable_weather w st"
  shows "inflight st \<le> 1 \<and> (weather_render st = ShowLoading \<longleftrightarrow> inflight st = 1)
    \<and> weather_render st \<noteq> ShowNothing"
  using reachable_weather_ok [OF assms]
  by (auto simp: weather_ok_def weather_render_loading weather_render_nothing)

text \<open>
  C17. The cache policy on mount: a request is made exactly when there is no stored forecast or the
  stored one is older than 30 minutes; otherwise the stored forecast is shown at once, without
  an error.
\<close>

theorem weather_mount_cache:
  "inflight (weather_mount now stored t) = (if stored = None \<or> now - t > 30 * 60 * 1000 then 1 else 0)
   \<and> (\<forall>d. stored = Some d \<and> now - t \<le> 30 * 60 * 1000
          \<longrightarrow> weather_render (weather_mount now stored t) = ShowWeather d None)"
  by (auto simp: weather_mount_def weather_effect_def fetchWeather_def weather_render_def)

text \<open>
  C20. A failed request (position denied, a failed response, a network error) never loses the
  forecast: with a stored forecast the card shows it with the error as a banner, and only
  without one does it show the error with "try again".
\<close>

theorem weather_failure_view:
  assumes "inflight st \<noteq> 0"
  shows "weather_render (weather_step w (Done now PositionDenied) st)
      = (case weatherData st of None \<Rightarrow> ShowErrorRetry LocationDenied | Some d \<Rightarrow> ShowWeather d (Some LocationDenied))
    \<and> (fetch_result w g m = Inl e \<longrightarrow> weather_render (weather_step w (Done now (Responses g m)) st)
      = (case weatherData st of None \<Rightarrow> ShowErrorRetry e | Some d \<Rightarrow> ShowWeather d (Some e)))"
  using assms by (auto simp: fetch_done_def weather_render_def split: option.split)

text \<open>
  C21. The forecast row: when the daily arrays have one entry per date, it has one day per date after
  today, day \<open>i\<close> reads index \<open>i + 1\<close> of every array (dates, maxima, minima and weather
  codes, the last giving its icon and description), and its temperatures are the rounded
  numbers (\<open>Math.round\<close>, halves upwards), never \<open>NaN\<close>.
\<close>

theorem format_forecast_days:
  assumes "length (daily_temperature_2m_max m) = length (daily_time m)"
    "length (daily_temperature_2m_min m) = length (daily_time m)"
    "length (daily_weather_code m) = length (daily_time m)"
  shows "length (format_forecast w m) = length (daily_time m) - 1
    \<and> (\<forall>i < length (daily_time m) - 1.
         forecast_date (format_forecast w m ! i) = w (daily_time m ! Suc i)
       \<and> maxTemp (format_forecast w m ! i) = Num \<lfloor>daily_temperature_2m_max m ! Suc i + 1 / 2\<rfloor>
       \<and> minTemp (format_forecast w m ! i) = Num \<lfloor>daily_temperature_2m_min m ! Suc i + 1 / 2\<rfloor>
       \<and> forecast_kind (format_forecast w m ! i) = getWeatherInfo (Some (daily_weather_code m ! Suc i)))"
  using assms by (auto simp: format_forecast_nth js_at_def js_round_def) (simp add: format_forecast_def)

subsection \<open>Witnesses\<close>

lemma reachable_weather_single_request_witness:
  "inflight (weather_mount 0 None 0) \<le> 1 \<and> weather_render (weather_mount 0 None 0) \<noteq> ShowNothing"
  using reachable_weather_single_request [OF reachable_weather.mount [of id 0 None 0]] by simp

lemma weather_mount_cache_witness:
  "weather_render (weather_mount 600000 (Some \<lparr>city = [], current = \<lparr>temperature = Num 20, current_kind = Clear\<rparr>,
      forecast = []\<rparr>) 0)
   = ShowWeather \<lparr>city = [], current = \<lparr>temperature = Num 20, current_kind = Clear\<rparr>, forecast = []\<rparr> None"
  using weather_mount_cache [of 600000 "Some \<lparr>city = [], current = \<lparr>temperature = Num 20, current_kind = Clear\<rparr>,
      forecast = []\<rparr>" 0] by simp

lemma weather_failure_view_witness:
  "weather_render (weather_step id (Done 5 (Responses HttpNotOk HttpNotOk))
      \<lparr>weatherData = None, lastFetch = 0, loading = True, weatherError = None, inflight = 1\<rparr>)
   = ShowErrorRetry CityUnavailable"
  using weather_failure_view [of "\<lparr>weatherData = None, lastFetch = 0, loading = True, weatherError = None,
      inflight = 1\<rparr>" id 5 HttpNotOk HttpNotOk CityUnavailable]
  by (simp add: fetch_result_def)

lemma format_forecast_days_witness:
  "length (format_forecast id \<lparr>current_temperature_2m = 25, current_weather_code = 0,
      daily_time = [js_str ''2025-06-01'', js_str ''2025-06-02''], daily_temperature_2m_max = [30, 63 / 2],
      daily_temperature_2m_min = [20, 39 / 2], daily_weather_code = [0, 61]\<rparr>) = 1
   \<and> maxTemp (format_forecast id \<lparr>current_temperature_2m = 25, current_weather_code = 0,
      daily_time = [js_str ''2025-06-01'', js_str ''2025-06-02''], daily_temperature_2m_max = [30, 63 / 2],
      daily_temperature_2m_min = [20, 39 / 2], daily_weather_code = [0, 61]\<rparr> ! 0) = Num 32
   \<and> forecast_kind (format_forecast id \<lparr>current_temperature_2m = 25, current_weather_code = 0,
      daily_time = [js_str ''2025-06-01'', js_str ''2025-06-02''], daily_temperature_2m_max = [30, 63 / 2],
      daily_temperature_2m_min = [20, 39 / 2], daily_weather_code = [0, 61]\<rparr> ! 0) = getWeatherInfo (Some 61)"
  using format_forecast_days [of "\<lparr>current_temperature_2m = 25, current_weather_code = 0,
      daily_time = [js_str ''2025-06-01'', js_str ''2025-06-02''], daily_temperature_2m_max = [30, 63 / 2],
      daily_temperature_2m_min = [20, 39 / 2], daily_weather_code = [0, 61]\<rparr>" id]
  by simp

end
