(* ===== verification/WebPanels.thy ===== *)
theory WebPanels
  imports UriEncoding
begin

text \<open>
  The panels that hand user text or a site to the browser (\<^verbatim>\<open>src/components/OtherPanels.tsx\<close>):
  the translation box of \<open>ToolsPanel\<close> (lines 138--171), which opens Google Translate in a new
  window; the \<open>MapPanel\<close> (lines 353--372), which points its iframe at a Google Maps search;
  and the \<open>IFrameCard\<close>s of \<open>NewsPanel\<close> and \<open>MusicPanel\<close> (lines 375--411), whose refresh
  button reloads the iframe found by its id. An alert or an uncaught \<open>URIError\<close> is an error
  value; opening a window and reloading a frame are effect values.
\<close>

datatype web_error = EnterText | UncaughtURIError

subsection \<open>Translation\<close>

record translate_state =
  textToTranslate :: jsstr
  lang :: jsstr

definition handleTranslate :: "'a translate_state_scheme \<Rightarrow> web_error + jsstr" where
  "handleTranslate st =
     (if js_trim (textToTranslate st) = [] then Inl EnterText
      else case encodeURIComponent (lang st) of
        None \<Rightarrow> Inl UncaughtURIError
      | Some l \<Rightarrow>
          (case encodeURIComponent (textToTranslate st) of
             None \<Rightarrow> Inl UncaughtURIError
           | Some t \<Rightarrow>
               Inr (js_str ''https://translate.google.com/?sl=auto&tl='' @ l @ js_str ''&text='' @ t
                    @ js_str ''&op=translate'')))"

text \<open>The language menu's values (lines 160--163).\<close>

definition LANG_OPTIONS :: "jsstr list" where
  "LANG_OPTIONS = map js_str [''he'', ''en'', ''es'', ''fr'']"

datatype web_effect = NoWebEffect | OpenWindow jsstr | WebAlert web_error | ReloadFrame jsstr

datatype translate_action = SetTextToTranslate jsstr | SelectLang nat | Translate

fun translate_step :: "translate_action \<Rightarrow> translate_state \<Rightarrow> translate_state \<times> web_effect" where
  "translate_step (SetTextToTranslate v) st = (st\<lparr>textToTranslate := v\<rparr>, NoWebEffect)"
| "translate_step (SelectLang i) st =
     (if i < length LANG_OPTIONS then (st\<lparr>lang := LANG_OPTIONS ! i\<rparr>, NoWebEffect) else (st, NoWebEffect))"
| "translate_step Translate st =
     (st, case handleTranslate st of Inl e \<Rightarrow> WebAlert e | Inr url \<Rightarrow> OpenWindow url)"

subsection \<open>The map\<close>

record map_state =
  mapQuery :: jsstr
  iframeSrc :: jsstr

definition map_init :: map_state where
  "map_init = \<lparr>mapQuery = js_str ''Tel Aviv, Israel'',
     iframeSrc = js_str ''https://www.google.com/maps?q=Tel+Aviv,Israel&output=embed''\<rparr>"

definition handleMapSearch :: "'a map_state_scheme \<Rightarrow> web_error + 'a map_state_scheme" where
  "handleMapSearch st =
     (case encodeURIComponent (mapQuery st) of
        None \<Rightarrow> Inl UncaughtURIError
      | Some q \<Rightarrow> Inr (st\<lparr>iframeSrc := js_str ''https://www.google.com/maps?q='' @ q @ js_str ''&output=embed''\<rparr>))"

subsection \<open>The embedded sites\<close>

record iframe_card =
  card_title :: jsstr
  siteUrl :: jsstr
  iframeId :: jsstr

definition NEWS_CARDS :: "iframe_card list" where
  "NEWS_CARDS =
     [\<lparr>card_title = [HE, GIMEL, YOD, ZAYIN, RESH, HE], siteUrl = js_str ''https://hagizra.news/'',
       iframeId = js_str ''news-hagizra''\<rparr>,
      \<lparr>card_title = [ALEF, MEM, APOS, SAMEKH, 0x20, ALEF, VAV, NUN, LAMED, YOD, YOD, 0x5DF],
       siteUrl = js_str ''https://www.emess.co.il/online?native'', iframeId = js_str ''news-emess''\<rparr>,
      \<lparr>card_title = js_str ''Kore M+'', siteUrl = js_str ''https://www.kore.co.il/mplus'',
       iframeId = js_str ''news-kore''\<rparr>]"

definition MUSIC_CARDS :: "iframe_card list" where
  "MUSIC_CARDS =
     [\<lparr>card_title = js_str ''KCM.fm'', siteUrl = js_str ''https://kcm.fm/'', iframeId = js_str ''music-kcm''\<rparr>,
      \<lparr>card_title = js_str ''KCM.fm Live'', siteUrl = js_str ''https://kcm.fm/Live/'',
       iframeId = js_str ''music-kcm-live''\<rparr>,
      \<lparr>card_title = js_str ''Kol-Play'', siteUrl = js_str ''https://kol-play.co.il/'',
       iframeId = js_str ''music-kolplay''\<rparr>,
      \<lparr>card_title = js_str ''HNGN'', siteUrl = js_str ''https://www.hngn.co.il/'', iframeId = js_str ''music-hngn''\<rparr>,
      \<lparr>card_title = js_str ''Toker.fm'', siteUrl = js_str ''https://www.toker.fm/'',
       iframeId = js_str ''music-toker''\<rparr>]"

text \<open>
  Every panel stays mounted (a hidden panel is only styled \<open>hidden\<close>), so the document holds the
  news frames and then the music frames, in the order \<open>App\<close> mounts them.
\<close>

definition document_iframes :: "iframe_card list" where
  "document_iframes = NEWS_CARDS @ MUSIC_CARDS"

definition getElementById :: "iframe_card list \<Rightarrow> jsstr \<Rightarrow> iframe_card option" where
  "getElementById doc i = find (\<lambda>c. iframeId c = i) doc"

text \<open>\<open>refreshIframe\<close> (lines 376--379): \<open>iframe.src = iframe.src\<close> reloads the frame's own URL.\<close>

definition refreshIframe :: "iframe_card list \<Rightarrow> jsstr \<Rightarrow> web_effect" where
  "refreshIframe doc i = (case getElementById doc i of None \<Rightarrow> NoWebEffect | Some c \<Rightarrow> ReloadFrame (siteUrl c))"

text \<open>\<open>String.prototype.split\<close> on a one-unit separator, used to read a query string.\<close>

fun split_on :: "16 word \<Rightarrow> jsstr \<Rightarrow> jsstr list" where
  "split_on s [] = [[]]"
| "split_on s (c # cs) =
     (if c = s then [] # split_on s cs
      else (case split_on s cs of [] \<Rightarrow> [[c]] | w # ws \<Rightarrow> (c # w) # ws))"

subsection \<open>Lemmas\<close>

lemma split_on_nonempty [simp]: "split_on s x \<noteq> []"
  by (induction x) (auto split: list.split)

lemma split_on_append:
  "s \<notin> set a \<Longrightarrow> split_on s (a @ rest) = (case split_on s rest of [] \<Rightarrow> [a] | w # ws \<Rightarrow> (a @ w) # ws)"
  by (induction a) (auto split: list.split)

lemma split_on_sep: "split_on s (s # rest) = [] # split_on s rest"
  by simp

lemma split_on_plain: "s \<notin> set a \<Longrightarrow> split_on s a = [a]"
  using split_on_append [of s a "[]"] by simp

lemma amp_not_encoded: "encodeURIComponent s = Some r \<Longrightarrow> 0x26 \<notin> set r"
  using encodeURIComponent_chars [of s r] by (fastforce simp: uriUnreserved_def)

lemma handleTranslate_blank: "handleTranslate st = Inl EnterText \<longleftrightarrow> js_trim (textToTranslate st) = []"
  by (simp add: handleTranslate_def split: option.split)

lemma translate_url_split:
  assumes "0x26 \<notin> set l" "0x26 \<notin> set t"
  shows "js_str ''https://translate.google.com/?sl=auto&tl='' @ l @ js_str ''&text='' @ t @ js_str ''&op=translate''
      = js_str ''https://translate.google.com/?''
        @ (js_str ''sl=auto'' @ 0x26 # js_str ''tl='' @ l @ 0x26 # js_str ''text='' @ t @ 0x26 # js_str ''op=translate'')
    \<and> split_on 0x26 (js_str ''sl=auto'' @ 0x26 # js_str ''tl='' @ l @ 0x26 # js_str ''text='' @ t @ 0x26 # js_str ''op=translate'')
      = [js_str ''sl=auto'', js_str ''tl='' @ l, js_str ''text='' @ t, js_str ''op=translate'']"
proof -
  have n: "0x26 \<notin> set (js_str ''sl=auto'')" "0x26 \<notin> set (js_str ''tl='')" "0x26 \<notin> set (js_str ''text='')"
    "0x26 \<notin> set (js_str ''op=translate'')"
    by (simp_all add: js_str_def)
  have "js_str ''https://translate.google.com/?sl=auto&tl='' = js_str ''https://translate.google.com/?'' @ js_str ''sl=auto'' @ 0x26 # js_str ''tl=''"
    "js_str ''&text='' = 0x26 # js_str ''text=''" "js_str ''&op=translate'' = 0x26 # js_str ''op=translate''"
    by (simp_all add: js_str_def)
  with n assms show ?thesis by (simp add: split_on_append split_on_plain)
qed

subsection \<open>Properties of the web panels\<close>

text \<open>
  C23. A map search points the frame at the query itself: the \<open>q\<close> parameter of the new source
  decodes back to the typed query and holds only unreserved characters and \<open>%\<close>; a query with a
  lone surrogate throws \<open>URIError\<close> and leaves the frame as it was.
\<close>

theorem handleMapSearch_roundtrip:
  "(handleMapSearch st = Inl UncaughtURIError \<longleftrightarrow> code_points (mapQuery st) = None)
   \<and> (handleMapSearch st = Inr st' \<longrightarrow>
       (\<exists>q. iframeSrc st' = js_str ''https://www.google.com/maps?q='' @ q @ js_str ''&output=embed''
         \<and> decodeURIComponent_ref q = Some (mapQuery st) \<and> (\<forall>c\<in>set q. uriUnreserved c \<or> c = 0x25)
         \<and> mapQuery st' = mapQuery st))"
  by (auto simp: handleMapSearch_def encodeURIComponent_fails [symmetric] dest: encodeURIComponent_roundtrip
      split: option.splits)

text \<open>
  C24. The translation URL cannot be altered by the text: whenever a window is opened, its query
  string has exactly the four parameters \<open>sl\<close>, \<open>tl\<close>, \<open>text\<close> and \<open>op\<close>, and the values of
  \<open>tl\<close> and \<open>text\<close> decode back to the chosen language and the typed text.
\<close>

theorem handleTranslate_url:
  assumes "handleTranslate st = Inr url"
  shows "\<exists>q l t. url = js_str ''https://translate.google.com/?'' @ q
    \<and> split_on 0x26 q = [js_str ''sl=auto'', js_str ''tl='' @ l, js_str ''text='' @ t, js_str ''op=translate'']
    \<and> decodeURIComponent_ref l = Some (lang st) \<and> decodeURIComponent_ref t = Some (textToTranslate st)"
proof -
  from assms obtain l t where l: "encodeURIComponent (lang st) = Some l"
    and t: "encodeURIComponent (textToTranslate st) = Some t"
    and u: "url = js_str ''https://translate.google.com/?sl=auto&tl='' @ l @ js_str ''&text='' @ t
                  @ js_str ''&op=translate''"
    by (auto simp: handleTranslate_def split: if_splits option.splits)
  from translate_url_split [OF amp_not_encoded [OF l] amp_not_encoded [OF t]] u
    encodeURIComponent_roundtrip_core [OF l] encodeURIComponent_roundtrip_core [OF t]
  show ?thesis by blast
qed

text \<open>
  Each refresh button reloads its own frame: the frame ids of the mounted news and music
  cards are distinct, so \<open>getElementById\<close> finds the card's own iframe and reloads its site.
\<close>

lemma refreshIframe_own:
  "distinct (map iframeId document_iframes)
   \<and> (\<forall>c\<in>set document_iframes. refreshIframe document_iframes (iframeId c) = ReloadFrame (siteUrl c))"
  by (simp add: document_iframes_def NEWS_CARDS_def MUSIC_CARDS_def refreshIframe_def getElementById_def
      js_str_def)

subsection \<open>Witnesses\<close>

lemma handleMapSearch_roundtrip_witness:
  "decodeURIComponent_ref (js_str ''Haifa'') = Some (js_str ''Haifa'')"
proof -
  have "handleMapSearch \<lparr>mapQuery = js_str ''Haifa'', iframeSrc = []\<rparr>
      = Inr \<lparr>mapQuery = js_str ''Haifa'', iframeSrc = js_str ''https://www.google.com/maps?q=Haifa&output=embed''\<rparr>"
    by (simp add: handleMapSearch_def uriUnreserved_def js_str_def)
  with handleMapSearch_roundtrip [of "\<lparr>mapQuery = js_str ''Haifa'', iframeSrc = []\<rparr>"
      "\<lparr>mapQuery = js_str ''Haifa'', iframeSrc = js_str ''https://www.google.com/maps?q=Haifa&output=embed''\<rparr>"]
  obtain q where "js_str ''https://www.google.com/maps?q=Haifa&output=embed''
      = js_str ''https://www.google.com/maps?q='' @ q @ js_str ''&output=embed''"
    and "decodeURIComponent_ref q = Some (js_str ''Haifa'')" by auto
  moreover from this(1) have "q = js_str ''Haifa''" by (simp add: js_str_def)
  ultimately show ?thesis by simp
qed

lemma handleTranslate_url_witness:
  "\<exists>q l t. js_str ''https://translate.google.com/?sl=auto&tl=en&text=hi&op=translate''
      = js_str ''https://translate.google.com/?'' @ q
    \<and> split_on 0x26 q = [js_str ''sl=auto'', js_str ''tl='' @ l, js_str ''text='' @ t, js_str ''op=translate'']
    \<and> decodeURIComponent_ref l = Some (js_str ''en'') \<and> decodeURIComponent_ref t = Some (js_str ''hi'')"
proof -
  have "handleTranslate \<lparr>textToTranslate = js_str ''hi'', lang = js_str ''en''\<rparr>
      = Inr (js_str ''https://translate.google.com/?sl=auto&tl=en&text=hi&op=translate'')"
    by (simp add: handleTranslate_def js_trim_def js_is_space_def uriUnreserved_def js_str_def)
  from handleTranslate_url [OF this] show ?thesis by simp
qed

lemma refreshIframe_own_witness:
  "refreshIframe document_iframes (js_str ''music-kcm-live'') = ReloadFrame (js_str ''https://kcm.fm/Live/'')"
proof -
  have "\<lparr>card_title = js_str ''KCM.fm Live'', siteUrl = js_str ''https://kcm.fm/Live/'',
       iframeId = js_str ''music-kcm-live''\<rparr> \<in> set document_iframes"
    by (simp add: document_iframes_def MUSIC_CARDS_def)
  with refreshIframe_own show ?thesis by fastforce
qed

end
