(* ===== verification/Persistence.thy ===== *)
theory Persistence
  imports Prelude
begin

text \<open>
  The persistence collaborator and the hook \<open>useLocalStorage\<close> through which every panel reads
  and writes it. The hook's file (\<^verbatim>\<open>src/hooks/useLocalStorage\<close>) is not among the
  repository's files, so it is modelled from the interface of the spec (section 6): a store of
  serialized values under string keys, where a missing or malformed value reads as the caller's
  default, and the setter writes the serialized value back. How the instances that share a key
  see each other's writes is not given by the code or the spec; the components' theories keep one
  state field per key. The serialization (\<open>JSON\<close>, a string) is a codec parameter, and the
  store is generic in the serialized type \<open>'v\<close> (\<open>jsstr\<close> for \<open>localStorage\<close>). The table
  of the hook's call sites, by component and key, is read from the code.
\<close>

type_synonym 'v store = "jsstr \<Rightarrow> 'v option"

record ('a, 'v) codec =
  serialize :: "'a \<Rightarrow> 'v"
  deserialize :: "'v \<Rightarrow> 'a option"

definition codec_ok :: "('a, 'v) codec \<Rightarrow> bool" where
  "codec_ok c \<longleftrightarrow> (\<forall>v. deserialize c (serialize c v) = Some v)"

text \<open>The hook's initial value: the stored value when present and well formed, else the default.\<close>

definition storage_read :: "('a, 'v) codec \<Rightarrow> jsstr \<Rightarrow> 'a \<Rightarrow> 'v store \<Rightarrow> 'a" where
  "storage_read c key initialValue s =
     (case s key of None \<Rightarrow> initialValue
      | Some raw \<Rightarrow> (case deserialize c raw of None \<Rightarrow> initialValue | Some v \<Rightarrow> v))"

text \<open>The setter's write: the new value, serialized, under the hook's key.\<close>

definition storage_write :: "('a, 'v) codec \<Rightarrow> jsstr \<Rightarrow> 'a \<Rightarrow> 'v store \<Rightarrow> 'v store" where
  "storage_write c key v s = s(key \<mapsto> serialize c v)"

subsection \<open>The hook sites\<close>

record hook_site =
  site_component :: jsstr
  site_key :: jsstr

text \<open>Every call of \<open>useLocalStorage\<close> in the sources, in file order.\<close>

definition HOOK_SITES :: "hook_site list" where
  "HOOK_SITES =
     [\<lparr>site_component = js_str ''Calculator'', site_key = js_str ''dashboard_calc_history_v1''\<rparr>,
      \<lparr>site_component = js_str ''Notes'', site_key = js_str ''dashboard_notes_v3''\<rparr>,
      \<lparr>site_component = js_str ''TodoList'', site_key = js_str ''dashboard_todo_v3''\<rparr>,
      \<lparr>site_component = js_str ''AdvancedShortcuts'', site_key = js_str ''dashboard_shortcuts_v3''\<rparr>,
      \<lparr>site_component = js_str ''DesignPanel'', site_key = js_str ''dashboard_holidays_v1''\<rparr>,
      \<lparr>site_component = js_str ''HistoryPanel'',
       site_key = js_str ''dashboard_search_history_v1''\<rparr>,
      \<lparr>site_component = js_str ''ShortcutGrid'', site_key = js_str ''dashboard_shortcuts_v3''\<rparr>,
      \<lparr>site_component = js_str ''HebrewCalendar'', site_key = js_str ''dashboard_events_v1''\<rparr>,
      \<lparr>site_component = js_str ''Weather'', site_key = js_str ''dashboard_weather_data_v1''\<rparr>,
      \<lparr>site_component = js_str ''Weather'', site_key = js_str ''dashboard_weather_fetch_v1''\<rparr>,
      \<lparr>site_component = js_str ''HomePanel'',
       site_key = js_str ''dashboard_search_history_v1''\<rparr>,
      \<lparr>site_component = js_str ''HomePanel'', site_key = js_str ''dashboard_shortcuts_v3''\<rparr>,
      \<lparr>site_component = js_str ''App'', site_key = js_str ''dashboard_bg_v3''\<rparr>]"

subsection \<open>Lemmas\<close>

lemma storage_read_write_same [simp]:
  "codec_ok c \<Longrightarrow> storage_read c k d (storage_write c k v s) = v"
  by (simp add: storage_read_def storage_write_def codec_ok_def)

lemma storage_read_write_other [simp]:
  "k' \<noteq> k \<Longrightarrow> storage_read c' k' d' (storage_write c k v s) = storage_read c' k' d' s"
  by (simp add: storage_read_def storage_write_def)

lemma storage_read_default:
  "s k = None \<or> (\<exists>raw. s k = Some raw \<and> deserialize c raw = None) \<Longrightarrow> storage_read c k d s = d"
  by (auto simp: storage_read_def)

lemma storage_write_twice [simp]: "storage_write c k v (storage_write c k w s) = storage_write c k v s"
  by (simp add: storage_write_def)

subsection \<open>Properties of the persistence\<close>

text \<open>
  The store's contract: with a codec that reads back what it writes, a value written under a
  key is what the next mount reads there; a write under one key leaves every other key's reading
  unchanged; and a missing or malformed value reads as the default.
\<close>

lemma storage_roundtrip:
  assumes "codec_ok c"
  shows "storage_read c k d (storage_write c k v s) = v
    \<and> (k' \<noteq> k \<longrightarrow> storage_read c' k' d' (storage_write c k v s) = storage_read c' k' d' s)
    \<and> (s k = None \<or> (\<exists>raw. s k = Some raw \<and> deserialize c raw = None) \<longrightarrow> storage_read c k d s = d)"
  using assms storage_read_default [of s k c d] by simp

lemma storage_roundtrip_witness:
  "storage_read \<lparr>serialize = (\<lambda>x. x), deserialize = Some\<rparr> (js_str ''k'') (0::nat)
       (storage_write \<lparr>serialize = (\<lambda>x. x), deserialize = Some\<rparr> (js_str ''k'') 5 Map.empty) = 5
   \<and> storage_read \<lparr>serialize = (\<lambda>x. x), deserialize = Some\<rparr> (js_str ''j'') (0::nat)
       (storage_write \<lparr>serialize = (\<lambda>x. x), deserialize = Some\<rparr> (js_str ''k'') 5 Map.empty) = 0
   \<and> storage_read \<lparr>serialize = (\<lambda>x. x), deserialize = Some\<rparr> (js_str ''k'') (7::nat) Map.empty = 7"
  using storage_roundtrip [of "\<lparr>serialize = (\<lambda>x. x), deserialize = Some\<rparr>" "js_str ''k''" "0::nat" 5 Map.empty
      "js_str ''j''" "\<lparr>serialize = (\<lambda>x. x), deserialize = Some\<rparr>" 0]
    storage_roundtrip [of "\<lparr>serialize = (\<lambda>x. x), deserialize = Some\<rparr>" "js_str ''k''" "7::nat" 5 Map.empty
      "js_str ''j''" "\<lparr>serialize = (\<lambda>x. x), deserialize = Some\<rparr>" 0]
  by (simp add: codec_ok_def storage_read_def js_str_def)

end
