(* ===== verification/Layout.thy ===== *)
theory Layout
  imports Persistence AppShell WebPanels
begin

text \<open>
  The component tree the shell renders (\<^verbatim>\<open>src/App.tsx\<close>, lines 37--57, with the layouts of
  \<open>PageHeader\<close>, \<open>HomePanel\<close>, \<open>ToolsPanel\<close>, \<open>PersonalPanel\<close>, \<open>NewsPanel\<close> and
  \<open>MusicPanel\<close>), by component name: a \<open>Panel\<close> is a \<open>tabpanel\<close> section whose class is
  \<open>block\<close> or \<open>hidden\<close>, and it renders its children either way. Together with the table of hook
  sites of \<open>Persistence\<close> it shows that every instance of \<open>useLocalStorage\<close> lives for the whole
  session, whichever tab is shown.
\<close>

datatype ui = Comp jsstr "ui list" | Section bool "ui list"

fun mounted_components :: "ui \<Rightarrow> jsstr list" where
  "mounted_components (Comp n cs) = n # concat (map mounted_components cs)"
| "mounted_components (Section _ cs) = concat (map mounted_components cs)"

text \<open>What the user sees: a hidden section (\<open>className="hidden"\<close>) shows none of its children.\<close>

fun visible_components :: "ui \<Rightarrow> jsstr list" where
  "visible_components (Comp n cs) = n # concat (map visible_components cs)"
| "visible_components (Section b cs) = (if b then concat (map visible_components cs) else [])"

definition leaf :: "string \<Rightarrow> ui" where
  "leaf n = Comp (js_str n) []"

definition HomePanel_tree :: ui where
  "HomePanel_tree = Comp (js_str ''HomePanel'') [leaf ''ShortcutGrid'', leaf ''Weather'', leaf ''HebrewCalendar'']"

definition ToolsPanel_tree :: ui where
  "ToolsPanel_tree = Comp (js_str ''ToolsPanel'') [leaf ''Calculator'', leaf ''Timer'']"

definition PersonalPanel_tree :: ui where
  "PersonalPanel_tree = Comp (js_str ''PersonalPanel'') [leaf ''Notes'', leaf ''TodoList'', leaf ''AdvancedShortcuts'']"

definition NewsPanel_tree :: ui where
  "NewsPanel_tree = Comp (js_str ''NewsPanel'') (map (\<lambda>_. leaf ''IFrameCard'') NEWS_CARDS)"

definition MusicPanel_tree :: ui where
  "MusicPanel_tree = Comp (js_str ''MusicPanel'') (map (\<lambda>_. leaf ''IFrameCard'') MUSIC_CARDS)"

primrec panel_tree :: "tab \<Rightarrow> ui" where
  "panel_tree Home = HomePanel_tree"
| "panel_tree Tools = ToolsPanel_tree"
| "panel_tree Personal = PersonalPanel_tree"
| "panel_tree History = leaf ''HistoryPanel''"
| "panel_tree Design = leaf ''DesignPanel''"
| "panel_tree Map = leaf ''MapPanel''"
| "panel_tree News = NewsPanel_tree"
| "panel_tree Music = MusicPanel_tree"

definition PageHeader_tree :: ui where
  "PageHeader_tree = Comp (js_str ''PageHeader'') [leaf ''QuoteOfTheDay'']"

definition App_tree :: "tab \<Rightarrow> ui" where
  "App_tree tab_active = Comp (js_str ''App'')
     [Comp (js_str ''Sidebar'') [], PageHeader_tree,
      Comp (js_str ''main'') (map (\<lambda>tab_id. Section (Panel tab_id tab_active) [panel_tree tab_id]) app_panels)]"

subsection \<open>Lemmas\<close>

lemma mounted_App_tree: "mounted_components (App_tree a) = mounted_components (App_tree Home)"
  by (simp add: App_tree_def comp_def)

lemma mounted_App_tree_Home:
  "set (mounted_components (App_tree Home)) = set (map js_str [''App'', ''Sidebar'', ''PageHeader'', ''QuoteOfTheDay'',
     ''main'', ''HomePanel'', ''ShortcutGrid'', ''Weather'', ''HebrewCalendar'', ''ToolsPanel'', ''Calculator'',
     ''Timer'', ''PersonalPanel'', ''Notes'', ''TodoList'', ''AdvancedShortcuts'', ''HistoryPanel'',
     ''DesignPanel'', ''MapPanel'', ''NewsPanel'', ''IFrameCard'', ''MusicPanel''])"
  by (simp add: App_tree_def app_panels_def HomePanel_tree_def ToolsPanel_tree_def PersonalPanel_tree_def
      NewsPanel_tree_def MusicPanel_tree_def PageHeader_tree_def leaf_def NEWS_CARDS_def MUSIC_CARDS_def) auto

subsection \<open>Properties of the layout\<close>

text \<open>
  C33. Every hook instance is live whichever tab is shown: for every active tab each component
  that calls \<open>useLocalStorage\<close> is mounted, the three holders of the shortcut list among them;
  on the home tab the shortcut manager is mounted but hidden, and on the personal tab the home
  panel is, so each keeps the list it read at mount.
\<close>

theorem hook_sites_always_mounted:
  "(\<forall>h\<in>set HOOK_SITES. site_component h \<in> set (mounted_components (App_tree a)))
   \<and> js_str ''AdvancedShortcuts'' \<in> set (mounted_components (App_tree Home))
   \<and> js_str ''AdvancedShortcuts'' \<notin> set (visible_components (App_tree Home))
   \<and> js_str ''HomePanel'' \<notin> set (visible_components (App_tree Personal))
   \<and> js_str ''ShortcutGrid'' \<notin> set (visible_components (App_tree Personal))"
proof -
  have "\<forall>h\<in>set HOOK_SITES. site_component h \<in> set (mounted_components (App_tree Home))"
    unfolding mounted_App_tree_Home by (simp add: HOOK_SITES_def)
  moreover have "js_str ''AdvancedShortcuts'' \<in> set (mounted_components (App_tree Home))"
    unfolding mounted_App_tree_Home by simp
  moreover have "js_str ''AdvancedShortcuts'' \<notin> set (visible_components (App_tree Home))
      \<and> js_str ''HomePanel'' \<notin> set (visible_components (App_tree Personal))
      \<and> js_str ''ShortcutGrid'' \<notin> set (visible_components (App_tree Personal))"
    by (simp add: App_tree_def app_panels_def Panel_def HomePanel_tree_def PersonalPanel_tree_def
      PageHeader_tree_def leaf_def)
  ultimately show ?thesis by (subst mounted_App_tree [of a]) blast
qed

lemma hook_sites_always_mounted_witness:
  "site_component (HOOK_SITES ! 3) \<in> set (mounted_components (App_tree Home))
   \<and> site_component (HOOK_SITES ! 11) \<in> set (mounted_components (App_tree Personal))"
  using hook_sites_always_mounted [of Home] hook_sites_always_mounted [of Personal]
  by (simp add: HOOK_SITES_def)

end
