(* ===== verification/Spec2Isabelle.thy ===== *)
theory Spec2Isabelle
  imports CalendarView SearchHistory Shortcuts PersonalPanel ToolsPanel DesignPanel Weather WebPanels Persistence Layout
begin

text \<open>
  A verification library for the dashboard of this repository, a React single-page app whose
  panels keep their data in the browser's local storage. Its core is the Hebrew calendar
  \<open>HebrewCalendar\<close> (\<^verbatim>\<open>src/components/HomePanel.tsx\<close>, lines 40--209); the other panels are
  modelled as their own state machines.

  \<^bold>\<open>How the calendar's parts interact.\<close> The view holds one anchor date. The month-start
  search (\<open>findHebMonthStart\<close>) walks back from it, reading each day's Hebrew date from the
  host's \<open>Intl\<close> calendar through \<open>getHebParts\<close>; the grid builder
  (\<open>buildHebMonthDays\<close>) walks forward from the start to the next month; the two gematria
  encoders print day and year numerals; the navigator (\<open>shiftHebMonth\<close>) replaces the anchor
  by a month start one month away; the event list is filtered by the grid's ISO dates
  (\<open>toISO\<close>) and sorted.

  \<^bold>\<open>Theories and what they model.\<close>
  \<^item> \<open>Prelude\<close>: the JavaScript values the code uses. Strings are UTF-16 code-unit lists
    (\<open>jsstr\<close>); a civil date is a local day number (\<open>day\<close>); \<open>js_rem\<close> is \<open>%\<close>, \<open>js_index\<close>
    an array read that may be \<open>undefined\<close>, \<open>js_number\<close> is \<open>Number\<close>, \<open>js_trim\<close> is
    \<open>trim\<close>, \<open>from_entries\<close> is \<open>Object.fromEntries\<close>, \<open>filter_index\<close> a filter by index.
    It also holds the list and string lemmas the components share.
  \<^item> \<open>CalendarConverter\<close>: \<open>getHebParts\<close> (lines 78--81) over a formatter, a function from a
    day to its \<open>formatToParts\<close> list. \<open>cal_ok\<close> is the contract of a correct Hebrew
    calendar: days 1 to 30, each next day either the next day of the same month or day 1 of a
    differently named month after a day 29 or 30. \<open>demo_fmt\<close> is a concrete formatter that
    meets the contract (months of 30 and 29 days) and is used by the witnesses.
  \<^item> \<open>Gematria\<close>: \<open>hebrewYearGematria\<close> (lines 57--69), whose greedy \<open>while\<close> loops are
    a \<open>partial_function (option)\<close> proved total, and \<open>hebrewDayGematria\<close> (lines 70--77). The
    lemmas prove an equivalence with a closed form, the letter values (round trip to the number),
    the avoidance of the divine-name endings, the form of the day numerals, and the double
    gershayim of years ending in 15 or 16.
  \<^item> \<open>MonthBoundary\<close>: \<open>findHebMonthStart\<close> (lines 82--86), the loop \<open>while (guard++ < 40)\<close> as a
    \<open>function\<close> with the measure \<open>40 - guard\<close>. Under \<open>cal_ok\<close> it finds the latest day 1 at
    most 29 days back. If the guard is exhausted, the code returns the anchor.
  \<^item> \<open>MonthGrid\<close>: \<open>buildHebMonthDays\<close> and \<open>monthLength\<close> (lines 87--91, 96). From a month
    start the grid is the 29 or 30 consecutive days of the month and contains the anchor. If the
    guard is exhausted, the grid has 40 days.
  \<^item> \<open>MonthNavigator\<close>: \<open>shiftHebMonth\<close> (lines 97--105) as the \<open>for\<close> loop over
    \<open>Math.abs(delta)\<close> passes. \<open>spec_shift\<close> is the navigator of the spec. The lemmas prove a
    refinement for non-zero deltas, the round trip, landing on day 1, additivity, and the
    divergence at delta 0.
  \<^item> \<open>EventStore\<close>: \<open>addEventHandler\<close>, \<open>deleteEventHandler\<close>, \<open>clearAllEvents\<close> and
    \<open>currentMonthEvents\<close> (lines 120--141) on the record \<open>event_form\<close>. The alert branch is an
    error value, and the user's actions are a step function \<open>ev_step\<close>. The invariant of the
    stored events is proved by rule induction on \<open>reachable_store\<close>.
  \<^item> \<open>CalendarView\<close>: the render (lines 110--181), with formatters that could not be built
    (\<open>hebrewDateUtils\<close> is \<open>null\<close>) as the error \<open>CalendarUnsupported\<close>, and the handlers
    (arrows, day click, form) as \<open>view_step\<close>. Instants are local minutes with a fixed UTC
    offset. \<open>toISO\<close> is the UTC date of \<open>toISOString\<close>, computed by the proleptic Gregorian
    \<open>civil_from_days\<close>. The lemmas prove the grid's shape, that the month's event list and the
    grid's cells show the same events, that a clicked and added event appears in both, and the
    one-day shift of the keys east of UTC.
  \<^item> \<open>SearchHistory\<close>, \<open>Shortcuts\<close>, \<open>PersonalPanel\<close>, \<open>ToolsPanel\<close>: the search box and
    history panel, the shortcut grid/form/list, the note pad and to-do list, and the calculator
    and timer (\<^verbatim>\<open>src/components/HomePanel.tsx\<close>, lines 7--38 and 335--402;
    \<^verbatim>\<open>src/components/OtherPanels.tsx\<close>, lines 8--261 and 414--475; \<^verbatim>\<open>src/constants.ts\<close>;
    \<^verbatim>\<open>src/types.ts\<close>). Each is a record of the component's state, one definition per handler,
    and a step function over a datatype of the user's actions. The timer is a state machine in
    milliseconds whose effect re-installs a 250 ms interval; \<open>timer_step\<close> wires its controls,
    ticks and idle time, and the lemmas prove that a started stopwatch shows one more second every
    four ticks (\<open>stopwatch_at\<close>) and that a countdown finishes. The search and the favicon of each
    shortcut card build their URLs with \<open>encodeURIComponent\<close> from \<open>UriEncoding\<close>. The
    browser's URL parser (\<open>new URL(u).hostname\<close>) is a parameter.
  \<^item> \<open>AppShell\<close>: the shell (\<^verbatim>\<open>src/App.tsx\<close>, \<^verbatim>\<open>src/components/Shared.tsx\<close>,
    the enum \<open>Tab\<close> of \<^verbatim>\<open>src/types.ts\<close>). \<open>tab\<close> is an instance of the library's
    \<open>enum\<close> class. The sidebar, the panels' visibility, the header clock and greeting, the quote index and
    \<open>App\<close>'s state are modelled, with the two effects writing the font and background into the
    body's inline style (\<open>app_step\<close>, \<open>reachable_app\<close>). The lemmas prove the tab type's
    closure (one panel shown, one button selected), the stale style an empty background would
    leave (no caller sets one), and the quote's one-hour lag after the daylight-saving change.
  \<^item> \<open>DesignPanel\<close>: the design panel (\<^verbatim>\<open>OtherPanels.tsx\<close>, lines 276--348), whose steps
    emit calls of \<open>App\<close>'s setters. \<open>dash_step\<close> composes it with the shell. The lemmas bound the
    random background index. They also show that every reachable dashboard's body style is
    determined by the current background and font.
  \<^item> \<open>Weather\<close>: the weather card (\<^verbatim>\<open>HomePanel.tsx\<close>, lines 211--333). The
    geolocation and the two \<open>fetch\<close> calls end in an action carrying what the services
    returned. The lemmas prove the 30-minute cache policy and that at most one request is in
    flight. They also prove the views after a failure and the alignment of the forecast row.
  \<^item> \<open>UriEncoding\<close>: the builtin \<open>encodeURIComponent\<close> as ECMA-262 specifies it. It copies
    unreserved units, writes UTF-8 escapes and fails on a lone surrogate. The code and the spec are
    both per code unit; the lemmas prove them equal to a per-code-point encoding, and prove a round
    trip through a reference decoder. The output contains only unreserved characters and \<open>%\<close>.
  \<^item> \<open>WebPanels\<close>: the translation box, the map panel and the news and music iframe cards
    (\<^verbatim>\<open>OtherPanels.tsx\<close>, lines 138--171 and 353--411). The lemmas prove that the
    translation URL has exactly its four parameters, with values that decode to the input. They
    also show that every refresh button reloads its own frame.
  \<^item> \<open>Persistence\<close>: the hook \<open>useLocalStorage\<close> (imported from \<^verbatim>\<open>src/hooks\<close>, which is not
    among the repository's files), modelled from the spec's interface: a store of serialized values
    under keys, the initial read (\<open>storage_read\<close>, the caller's default for a missing or
    malformed value) and the setter's write (\<open>storage_write\<close>), with the serialization a codec
    parameter, and the store's round trip. \<open>HOOK_SITES\<close> lists the 13 call sites of the code by
    component and key. How instances that share a key see each other's writes is specified
    neither by the code nor by the spec, so no property depends on it.
  \<^item> \<open>Layout\<close>: the component tree \<open>App\<close> renders (\<^verbatim>\<open>src/App.tsx\<close>, lines 37--57, with the
    layouts of the home, tools, personal, news and music panels and of the page header), by
    component name, with each \<open>Panel\<close> a section shown or hidden by its class. The lemma over it and
    \<open>HOOK_SITES\<close> shows that every hook instance stays mounted whichever tab is shown, so the
    instances that share a key coexist for the whole session.

  \<^bold>\<open>Bounds and fuel.\<close> The two calendar loops carry the code's own guard of 40. A month start
  is at most 29 days back and a month is at most 30 days long, so under \<open>cal_ok\<close> the guard is
  never reached; the theorems that the loops return are proved, not assumed. The inner gematria
  loop has no guard and is proved to return for every input. The countdown is proved to finish
  after exactly \<open>240 m\<close> ticks.

  \<^bold>\<open>Assumptions.\<close>
  \<^item> The host's calendar is correct: \<open>cal_ok\<close>.
  \<^item> \<open>localeCompare\<close> on the ASCII keys \<open>date + time\<close> is code-unit order.
  \<^item> The UTC offset is fixed (no daylight-saving change inside a month).
  \<^item> Intervals fire exactly on time.
  \<^item> \<open>Math.random()\<close> is a real in \<open>[0, 1)\<close>, and JSON numbers are reals.
  \<^item> The setters returned by \<open>useLocalStorage\<close> are stable across renders.

  \<^bold>\<open>Not modelled.\<close>
  \<^item> Inside the components, each persisted value is one state field per key, shared by the
    components that read that key (the shortcut list of the grid, the home form and the manager;
    the search history of the home box and the history panel). This is exact only if the hook
    synchronises its instances, which its absent file would decide. Cross-tab synchronisation (\<open>storage\<close> events) and quota errors of \<open>localStorage\<close> are not modelled.
  \<^item> The weather services themselves. Their answers are inputs, the JSON is taken as well-formed,
    and the weekday names of \<open>toLocaleDateString\<close> are a parameter.
  \<^item> What the opened windows and the embedded sites show; their URLs are the effect values.
  \<^item> The content of the uploaded file. Any data URL starts with \<open>data:\<close>.
  \<^item> The header's localized date line (\<open>toLocaleDateString\<close>).
  \<^item> The labels and quotes of \<^verbatim>\<open>Shared.tsx\<close>, which are stored mis-decoded. Only their
    number and order are modelled.
  \<^item> CSS and JSX layout beyond the structure of the calendar grid.
\<close>

end
